theory Spec2Isabelle
  imports Complex_Main
begin

section \<open>JavaScript numbers\<close>

text \<open>
  A JavaScript number is an IEEE 754 double: a finite value, one of the two infinities,
  or NaN. The finite values are modelled by the reals they denote, and every arithmetic
  operation rounds its exact result to the nearest double, a tie going to the even
  significand, as the standard prescribes. A zero is always the positive zero.

  \<open>round_even\<close> is the rounding of a real to the nearest integer, a half going to the
  even neighbour.
\<close>

datatype jsnum = Fin real | PInf | NInf | NaN

definition round_even :: "real \<Rightarrow> int" where
  "round_even y =
     (let f = \<lfloor>y\<rfloor>; d = y - of_int f
      in if d < 1 / 2 then f else if d > 1 / 2 then f + 1 else if even f then f else f + 1)"

text \<open>
  The doubles are the numbers \<open>m * 2^e\<close> with \<open>|m| < 2^53\<close> and
  \<open>-1074 \<le> e \<le> 971\<close>. \<open>exponent x\<close> is the exponent of the binade that holds
  \<open>|x|\<close>, not below that of the smallest normal number; \<open>ulp x\<close> is the distance
  between neighbouring doubles there; \<open>rd x\<close> is the nearest multiple of it.
  \<open>MAX_VALUE\<close> is the largest double; a result that rounds beyond it is an infinity.
\<close>

definition exponent :: "real \<Rightarrow> int" where
  "exponent x = max \<lfloor>log 2 \<bar>x\<bar>\<rfloor> (- 1022)"

definition ulp :: "real \<Rightarrow> real" where
  "ulp x = 2 powr of_int (exponent x - 52)"

definition rd :: "real \<Rightarrow> real" where
  "rd x = of_int (round_even (x / ulp x)) * ulp x"

definition MAX_VALUE :: real where
  "MAX_VALUE = (2 ^ 53 - 1) * 2 ^ 971"

definition round_double :: "real \<Rightarrow> jsnum" where
  "round_double x =
     (if rd x > MAX_VALUE then PInf else if rd x < - MAX_VALUE then NInf else Fin (rd x))"

text \<open>The doubles among the values of the model.\<close>

definition is_double :: "jsnum \<Rightarrow> bool" where
  "is_double x = (case x of Fin a \<Rightarrow> rd a = a \<and> \<bar>a\<bar> \<le> MAX_VALUE | _ \<Rightarrow> True)"

text \<open>
  A decimal literal of the source, such as \<open>0.4\<close>, denotes the nearest double. The
  integer literals of the source are doubles themselves and are written \<open>Fin 25\<close>.
\<close>

definition lit :: "real \<Rightarrow> jsnum" where
  "lit x = round_double x"

fun jneg :: "jsnum \<Rightarrow> jsnum" where
  "jneg (Fin a) = Fin (- a)"
| "jneg PInf = NInf"
| "jneg NInf = PInf"
| "jneg NaN = NaN"

fun jadd :: "jsnum \<Rightarrow> jsnum \<Rightarrow> jsnum" where
  "jadd (Fin a) (Fin b) = round_double (a + b)"
| "jadd NaN y = NaN"
| "jadd x NaN = NaN"
| "jadd PInf NInf = NaN"
| "jadd NInf PInf = NaN"
| "jadd PInf y = PInf"
| "jadd x PInf = PInf"
| "jadd NInf y = NInf"
| "jadd x NInf = NInf"

definition jsub :: "jsnum \<Rightarrow> jsnum \<Rightarrow> jsnum" where
  "jsub x y = jadd x (jneg y)"

text \<open>The sign of a jsnum, for products and quotients with an infinity: 0 for zero and NaN.\<close>

fun jsign :: "jsnum \<Rightarrow> int" where
  "jsign (Fin a) = (if a > 0 then 1 else if a < 0 then -1 else 0)"
| "jsign PInf = 1"
| "jsign NInf = -1"
| "jsign NaN = 0"

definition inf_of_sign :: "int \<Rightarrow> jsnum" where
  "inf_of_sign s = (if s > 0 then PInf else if s < 0 then NInf else NaN)"

fun jmul :: "jsnum \<Rightarrow> jsnum \<Rightarrow> jsnum" where
  "jmul (Fin a) (Fin b) = round_double (a * b)"
| "jmul NaN y = NaN"
| "jmul x NaN = NaN"
| "jmul x y = inf_of_sign (jsign x * jsign y)"

text \<open>
  Division: a finite nonzero value over zero is an infinity of the dividend's sign,
  \<open>0 / 0\<close> is NaN, a finite value over an infinity is zero, and an infinity over a
  finite value keeps or flips its sign with the sign of the divisor (zero counts as
  positive).
\<close>

fun jdiv :: "jsnum \<Rightarrow> jsnum \<Rightarrow> jsnum" where
  "jdiv (Fin a) (Fin b) = (if b = 0 then inf_of_sign (jsign (Fin a)) else round_double (a / b))"
| "jdiv NaN y = NaN"
| "jdiv x NaN = NaN"
| "jdiv (Fin a) y = Fin 0"
| "jdiv x (Fin b) = inf_of_sign (jsign x * (if b < 0 then -1 else 1))"
| "jdiv x y = NaN"

text \<open>\<open>Math.sqrt\<close>, correctly rounded: NaN on a negative argument.\<close>

fun jsqrt :: "jsnum \<Rightarrow> jsnum" where
  "jsqrt (Fin a) = (if a < 0 then NaN else round_double (sqrt a))"
| "jsqrt PInf = PInf"
| "jsqrt NInf = NaN"
| "jsqrt NaN = NaN"

text \<open>\<open>Math.pow(x, 2)\<close>: the correctly rounded square, as the product \<open>x * x\<close> is.\<close>

definition jpow2 :: "jsnum \<Rightarrow> jsnum" where
  "jpow2 x = jmul x x"

text \<open>
  The comparisons \<open><\<close>, \<open>>=\<close>, \<open><=\<close> and \<open>===\<close>: false whenever an operand is
  NaN. \<open>x > y\<close> is written \<open>jlt y x\<close>.
\<close>

fun jlt :: "jsnum \<Rightarrow> jsnum \<Rightarrow> bool" where
  "jlt (Fin a) (Fin b) = (a < b)"
| "jlt NaN y = False"
| "jlt x NaN = False"
| "jlt PInf y = False"
| "jlt x PInf = True"
| "jlt NInf y = True"
| "jlt x NInf = False"

fun jge :: "jsnum \<Rightarrow> jsnum \<Rightarrow> bool" where
  "jge (Fin a) (Fin b) = (a \<ge> b)"
| "jge NaN y = False"
| "jge x NaN = False"
| "jge PInf y = True"
| "jge x PInf = False"
| "jge x NInf = True"
| "jge NInf y = False"

definition jle :: "jsnum \<Rightarrow> jsnum \<Rightarrow> bool" where
  "jle x y = jge y x"

fun jeq :: "jsnum \<Rightarrow> jsnum \<Rightarrow> bool" where
  "jeq (Fin a) (Fin b) = (a = b)"
| "jeq PInf PInf = True"
| "jeq NInf NInf = True"
| "jeq x y = False"

text \<open>
  \<open>Math.round\<close> rounds to the nearest integer, a half towards \<open>+\<infinity>\<close>: it is
  \<open>\<lfloor>x + 1/2\<rfloor>\<close> computed exactly, which is HOL's \<^const>\<open>round\<close>. The result is a
  double, since a double of magnitude \<open>2^52\<close> or more is an integer already.
\<close>

fun jround :: "jsnum \<Rightarrow> jsnum" where
  "jround (Fin a) = Fin (of_int (round a))"
| "jround x = x"

text \<open>
  A numeric string is modelled by the number it denotes, which for a decimal string need
  not be a double. \<open>x.toFixed(d)\<close> works on the exact value of the double: it sets the
  sign aside, takes the integer \<open>n\<close> with \<open>n / 10^d\<close> nearest to \<open>|x|\<close> (the larger
  \<open>n\<close> on a tie), and prints the number itself when \<open>|x| \<ge> 10^21\<close>. The strings of
  the special values are \<open>"Infinity"\<close>, \<open>"-Infinity"\<close> and \<open>"NaN"\<close>.
  \<open>parseFloat\<close> reads a numeric string as the nearest double, and leaves a number as
  it is.
\<close>

definition toFixed_real :: "nat \<Rightarrow> real \<Rightarrow> real" where
  "toFixed_real d x =
     (if \<bar>x\<bar> \<ge> 10 ^ 21 then x
      else if x < 0 then - (of_int \<lfloor>(- x) * 10 ^ d + 1 / 2\<rfloor> / 10 ^ d)
      else of_int \<lfloor>x * 10 ^ d + 1 / 2\<rfloor> / 10 ^ d)"

fun toFixed :: "nat \<Rightarrow> jsnum \<Rightarrow> jsnum" where
  "toFixed d (Fin a) = Fin (toFixed_real d a)"
| "toFixed d x = x"

definition parseFloat :: "jsnum \<Rightarrow> jsnum" where
  "parseFloat s = (case s of Fin a \<Rightarrow> round_double a | _ \<Rightarrow> s)"

text \<open>Truthiness of a number, for \<open>x || 1\<close>: zero and NaN are falsy.\<close>

fun truthy :: "jsnum \<Rightarrow> bool" where
  "truthy (Fin a) = (a \<noteq> 0)"
| "truthy NaN = False"
| "truthy x = True"


definition bounded_by :: "real \<Rightarrow> jsnum \<Rightarrow> bool" where
  "bounded_by b x = (case x of Fin a \<Rightarrow> 0 \<le> a \<and> a \<le> b | _ \<Rightarrow> False)"

definition jintegral :: "jsnum \<Rightarrow> bool" where
  "jintegral x = (case x of Fin a \<Rightarrow> a = of_int \<lfloor>a\<rfloor> | NaN \<Rightarrow> False | _ \<Rightarrow> True)"

text \<open>\<open>xs.reduce((sum, x) => sum + x, 0)\<close>.\<close>

definition jsum :: "jsnum list \<Rightarrow> jsnum" where
  "jsum xs = foldl jadd (Fin 0) xs"

section \<open>Configuration\<close>

text \<open>The entries of \<open>CONFIG\<close> that the screening code reads; TTLs are in seconds.\<close>

definition CACHE_SHORT_TTL :: int where "CACHE_SHORT_TTL = 120"
definition CACHE_LONG_TTL :: int where "CACHE_LONG_TTL = 1800"
definition MIN_VOLUME_EXPLOSION :: real where "MIN_VOLUME_EXPLOSION = 30000"
definition MIN_VOLUME_REGULAR :: real where "MIN_VOLUME_REGULAR = 20000"
definition MIN_GAIN_5M :: real where "MIN_GAIN_5M = 3"
definition MIN_GAIN_1H :: real where "MIN_GAIN_1H = 4"
definition MIN_VOLUME_RATIO :: real where "MIN_VOLUME_RATIO = 3 / 2"
definition RSI_MIN :: real where "RSI_MIN = 40"
definition RSI_MAX :: real where "RSI_MAX = 70"
definition MIN_EXPLOSION_SCORE :: real where "MIN_EXPLOSION_SCORE = 40"
definition MIN_ALERT_SCORE :: real where "MIN_ALERT_SCORE = 40"
definition MAX_CANDIDATES :: nat where "MAX_CANDIDATES = 50"
definition TOP_RESULTS :: nat where "TOP_RESULTS = 10"
definition RSI_PERIOD :: nat where "RSI_PERIOD = 14"
definition VOLUME_LOOKBACK_DAYS :: int where "VOLUME_LOOKBACK_DAYS = 7"
definition COMPRESSION_THRESHOLD :: real where "COMPRESSION_THRESHOLD = 1 / 2"

definition POPULAR_TOKENS :: "string set" where
  "POPULAR_TOKENS =
     {''BTCUSDT'', ''ETHUSDT'', ''BNBUSDT'', ''XRPUSDT'', ''ADAUSDT'', ''SOLUSDT'', ''DOGEUSDT'',
      ''MATICUSDT'', ''DOTUSDT'', ''TRXUSDT'', ''LTCUSDT'', ''LINKUSDT'', ''SHIBUSDT'', ''AVAXUSDT'',
      ''ATOMUSDT'', ''NEARUSDT'', ''XLMUSDT'', ''ETCUSDT'', ''BCHUSDT'', ''HBARUSDT'',
      ''FILUSDT'', ''SUIUSDT'', ''APTUSDT'', ''INJUSDT'', ''IMXUSDT'', ''ARBUSDT'', ''RNDRUSDT'',
      ''TONUSDT'', ''ICPUSDT'', ''CROUSDT'', ''NEOUSDT'', ''IOTAUSDT'', ''QTUMUSDT''}"

section \<open>Upstream data\<close>

text \<open>
  A kline row is an array whose entries 4 and 5 are the close and the volume, as decimal
  strings. A candle holds the two numbers that these strings denote; the code reads
  them with \<open>parseFloat\<close>. A fetch either returns the data or throws after its
  retries.
\<close>

record candle =
  close :: real
  volume :: real

text \<open>
  A 24h ticker, with the numbers that its decimal strings denote, and a symbol of the
  exchange information with its onboarding date (0 when the field is missing:
  \<open>onboardDate || 0\<close>).
\<close>

record ticker =
  symbol :: string
  lastPrice :: real
  baseVolume :: real
  priceChangePercent :: real

record listing =
  l_symbol :: string
  onboardDate :: int

datatype error = FetchError

section \<open>Indicators\<close>

text \<open>\<open>xs.slice(-n)\<close>: the last \<open>n\<close> elements, the whole array when it is shorter.\<close>

definition slice_last :: "nat \<Rightarrow> 'a list \<Rightarrow> 'a list" where
  "slice_last n xs = drop (length xs - n) xs"

text \<open>
  \<open>closes.slice(1).map((close, i) => f(close, closes[i]))\<close>: each element paired with
  its predecessor.
\<close>

definition with_prev :: "('a \<Rightarrow> 'a \<Rightarrow> 'b) \<Rightarrow> 'a list \<Rightarrow> 'b list" where
  "with_prev f closes = map (\<lambda>(c, p). f c p) (zip (tl closes) closes)"

text \<open>\<open>ohlcv.map(candle => parseFloat(candle[4]))\<close>.\<close>

definition closes_of :: "candle list \<Rightarrow> jsnum list" where
  "closes_of ohlcv = map (\<lambda>candle. parseFloat (Fin (close candle))) ohlcv"

text \<open>
  Each indicator function of the source fetches candles and computes inside a
  \<open>try\<close>, with a \<open>catch\<close> that returns a default. The computation is modelled
  first, as a function \<open>calculateX_of\<close> of the outcome of the fetch; the functions
  that issue the request, under the source's names, follow in the section on the
  upstream.

  \<open>calculateRSI\<close>: the body of the \<open>try\<close> on the closes, and the whole with its
  \<open>catch\<close>, which returns 50.
\<close>

definition rsi_of_closes :: "jsnum list \<Rightarrow> jsnum" where
  "rsi_of_closes closes =
     (if length closes < RSI_PERIOD + 1 then Fin 50
      else
        let changes = with_prev (\<lambda>c p. jsub c p) closes;
            gains = map (\<lambda>c. if jlt (Fin 0) c then c else Fin 0) changes;
            losses = map (\<lambda>c. if jlt c (Fin 0) then jneg c else Fin 0) changes;
            avgGain = jdiv (jsum (slice_last RSI_PERIOD gains)) (Fin (real RSI_PERIOD));
            avgLoss = jdiv (jsum (slice_last RSI_PERIOD losses)) (Fin (real RSI_PERIOD))
        in if jeq avgLoss (Fin 0) then (if jlt (Fin 0) avgGain then Fin 100 else Fin 50)
           else let rs = jdiv avgGain avgLoss
                in jround (jsub (Fin 100) (jdiv (Fin 100) (jadd (Fin 1) rs))))"

definition calculateRSI_of :: "error + candle list \<Rightarrow> jsnum" where
  "calculateRSI_of fetched =
     (case fetched of
        Inl err \<Rightarrow> Fin 50
      | Inr ohlcv \<Rightarrow> rsi_of_closes (closes_of ohlcv))"

text \<open>
  \<open>calculateChange\<close>: the percent change between the closes of the two candles
  fetched, printed to two decimals; the number 0 when fewer than two candles came back
  or the fetch failed.
\<close>

definition change_of_ohlcv :: "candle list \<Rightarrow> jsnum" where
  "change_of_ohlcv ohlcv =
     (if length ohlcv < 2 then Fin 0
      else
        let prevClose = parseFloat (Fin (close (ohlcv ! 0)));
            currClose = parseFloat (Fin (close (ohlcv ! 1)))
        in toFixed 2 (jmul (jdiv (jsub currClose prevClose) prevClose) (Fin 100)))"

definition calculateChange_of :: "error + candle list \<Rightarrow> jsnum" where
  "calculateChange_of fetched =
     (case fetched of
        Inl err \<Rightarrow> Fin 0
      | Inr ohlcv \<Rightarrow> change_of_ohlcv ohlcv)"

text \<open>
  \<open>calculateVolumeRatio\<close>: the current volume over the mean daily volume, printed to
  two decimals. The mean is replaced by 1 when it is falsy (\<open>sum / length || 1\<close>: zero,
  or NaN from an empty history); the number 1 is returned when the fetch failed.
\<close>

definition volumeRatio_of_ohlcv :: "candle list \<Rightarrow> jsnum \<Rightarrow> jsnum" where
  "volumeRatio_of_ohlcv ohlcv currentVolume =
     (let mean = jdiv (foldl (\<lambda>sum candle. jadd sum (parseFloat (Fin (volume candle))))
                         (Fin 0) ohlcv)
                      (Fin (real (length ohlcv)));
          avgVolume = (if truthy mean then mean else Fin 1)
      in toFixed 2 (jdiv currentVolume avgVolume))"

definition calculateVolumeRatio_of :: "error + candle list \<Rightarrow> jsnum \<Rightarrow> jsnum" where
  "calculateVolumeRatio_of fetched currentVolume =
     (case fetched of
        Inl err \<Rightarrow> Fin 1
      | Inr ohlcv \<Rightarrow> volumeRatio_of_ohlcv ohlcv currentVolume)"

text \<open>
  The consecutive percent changes \<open>(close - closes[i]) / closes[i] * 100\<close> and the
  standard deviation expression that \<open>calculateCompression\<close> and
  \<open>calculateVolatility\<close> share: the mean is \<open>sum / changes.length\<close>, the squared
  deviations are summed by \<open>reduce\<close> from 0 and divided by \<open>changes.length\<close>.
\<close>

definition pct_changes :: "jsnum list \<Rightarrow> jsnum list" where
  "pct_changes closes =
     with_prev (\<lambda>c p. jmul (jdiv (jsub c p) p) (Fin 100)) closes"

definition stdDev_of :: "jsnum list \<Rightarrow> jsnum" where
  "stdDev_of changes =
     jsqrt (jdiv
       (foldl (\<lambda>sum c.
            jadd sum (jpow2 (jsub c (jdiv (jsum changes) (Fin (real (length changes)))))))
          (Fin 0) changes)
       (Fin (real (length changes))))"

definition calculateCompression_of :: "error + candle list \<Rightarrow> bool" where
  "calculateCompression_of fetched =
     (case fetched of
        Inl err \<Rightarrow> False
      | Inr ohlcv \<Rightarrow>
          jlt (stdDev_of (pct_changes (closes_of ohlcv))) (Fin COMPRESSION_THRESHOLD))"

definition calculateVolatility_of :: "error + candle list \<Rightarrow> jsnum" where
  "calculateVolatility_of fetched =
     (case fetched of
        Inl err \<Rightarrow> Fin 10
      | Inr ohlcv \<Rightarrow> toFixed 2 (stdDev_of (pct_changes (closes_of ohlcv))))"

section \<open>Scores\<close>

text \<open>
  The three score expressions of the source, term by term and in the source's order of
  evaluation, on the numbers that \<open>parseFloat\<close> read from the indicators.
\<close>

definition explosionScore :: "jsnum \<Rightarrow> jsnum \<Rightarrow> jsnum \<Rightarrow> jsnum \<Rightarrow> bool \<Rightarrow> bool \<Rightarrow> jsnum" where
  "explosionScore change5m change1h volumeRatio rsi isNew compression =
     jround
       (jadd (jadd (jadd (jadd (jadd (jadd
          (jmul (jmul (jdiv change5m (Fin 25)) (Fin 100)) (lit (4 / 10)))
          (jmul (jmul (jdiv change1h (Fin 35)) (Fin 100)) (lit (2 / 10))))
          (jmul (jmul (jdiv volumeRatio (Fin 10)) (Fin 100)) (lit (3 / 10))))
          (jmul (Fin (if jge rsi (Fin RSI_MIN) \<and> jle rsi (Fin RSI_MAX) then 100 else 50))
                (lit (1 / 10))))
          (Fin (if isNew then 20 else 0)))
          (Fin (if compression then 10 else 0)))
          (Fin 20))"

definition alertScore :: "jsnum \<Rightarrow> jsnum \<Rightarrow> jsnum \<Rightarrow> jsnum \<Rightarrow> bool \<Rightarrow> bool \<Rightarrow> jsnum" where
  "alertScore change5m change1h volumeRatio rsi isNew compression =
     jround
       (jadd (jadd (jadd (jadd (jadd (jadd
          (jmul (jmul (jdiv change5m (Fin 25)) (Fin 100)) (lit (4 / 10)))
          (jmul (jmul (jdiv change1h (Fin 35)) (Fin 100)) (lit (2 / 10))))
          (jmul (jmul (jdiv volumeRatio (Fin 10)) (Fin 100)) (lit (3 / 10))))
          (jmul (Fin (if jge rsi (Fin RSI_MIN) \<and> jle rsi (Fin RSI_MAX) then 100 else 50))
                (lit (1 / 10))))
          (Fin (if isNew then 20 else 0)))
          (Fin (if compression then 25 else 0)))
          (Fin 20))"

text \<open>The score of \<open>/api/analysis/:symbol\<close>: four weighted terms and the compression bonus.\<close>

definition analysisScore :: "jsnum \<Rightarrow> jsnum \<Rightarrow> jsnum \<Rightarrow> jsnum \<Rightarrow> bool \<Rightarrow> jsnum" where
  "analysisScore change5m change1h volumeRatio rsi compression =
     jround
       (jadd (jadd (jadd (jadd
          (jmul (jmul (jdiv change5m (Fin 25)) (Fin 100)) (lit (4 / 10)))
          (jmul (jmul (jdiv change1h (Fin 35)) (Fin 100)) (lit (2 / 10))))
          (jmul (jmul (jdiv volumeRatio (Fin 10)) (Fin 100)) (lit (3 / 10))))
          (jmul (Fin (if jge rsi (Fin RSI_MIN) \<and> jle rsi (Fin RSI_MAX) then 100 else 50))
                (lit (1 / 10))))
          (Fin (if compression then 10 else 0)))"

text \<open>The conditions under which a symbol is pushed to the result list.\<close>

definition explosion_admitted :: "jsnum \<Rightarrow> jsnum \<Rightarrow> jsnum \<Rightarrow> jsnum \<Rightarrow> jsnum \<Rightarrow> bool" where
  "explosion_admitted change5m change1h volumeRatio rsi score \<longleftrightarrow>
     jge change5m (Fin MIN_GAIN_5M) \<and>
     jge change1h (Fin MIN_GAIN_1H) \<and>
     jge volumeRatio (Fin MIN_VOLUME_RATIO) \<and>
     jge rsi (Fin RSI_MIN) \<and> jle rsi (Fin RSI_MAX) \<and>
     jge score (Fin MIN_EXPLOSION_SCORE)"

definition alert_admitted :: "jsnum \<Rightarrow> jsnum \<Rightarrow> jsnum \<Rightarrow> jsnum \<Rightarrow> bool" where
  "alert_admitted change5m change1h volumeRatio score \<longleftrightarrow>
     jge change5m (Fin MIN_GAIN_5M) \<and>
     jge change1h (Fin MIN_GAIN_1H) \<and>
     jge volumeRatio (Fin MIN_VOLUME_RATIO) \<and>
     jge score (Fin MIN_ALERT_SCORE)"

section \<open>Results\<close>

text \<open>
  The action and confidence labels of the source are strings with emoji; each label is
  a constructor here: \<open>COMPRA_FUERTE\<close> for "COMPRA FUERTE", \<open>MONITOREAR\<close>,
  \<open>POSIBLE_EXPLOSION\<close> for "POSIBLE EXPLOSION" and \<open>EVITAR\<close>; \<open>MUY_ALTA\<close>, \<open>ALTA\<close>
  and \<open>MEDIA\<close>. A field printed by \<open>toFixed\<close> holds the number that the string
  denotes.
\<close>

datatype action = COMPRA_FUERTE | MONITOREAR | POSIBLE_EXPLOSION | EVITAR

datatype confidence = MUY_ALTA | ALTA | MEDIA

record recommendation =
  action :: action
  buyPrice :: jsnum
  sellTarget :: jsnum
  stopLoss :: jsnum
  confidence :: confidence

record technicals =
  t_rsi :: jsnum
  t_volatility :: jsnum
  t_volumeSpike :: jsnum
  trend :: string
  support :: jsnum
  resistance :: jsnum

record candidate =
  c_symbol :: string
  c_price :: jsnum
  c_change_5m :: jsnum
  c_change_1h :: jsnum
  c_volume :: jsnum
  c_volumeRatio :: jsnum
  c_rsi :: jsnum
  c_volatility :: jsnum
  c_explosionScore :: jsnum
  c_isNew :: bool
  c_technicals :: technicals
  c_recommendation :: recommendation

record alert =
  a_symbol :: string
  a_price :: jsnum
  a_change_5m :: jsnum
  a_change_1h :: jsnum
  a_volume :: jsnum
  a_volumeRatio :: jsnum
  a_rsi :: jsnum
  a_alertScore :: jsnum
  a_compression :: bool
  a_volumeSpike :: bool
  a_recommendation :: recommendation

record analysis =
  n_symbol :: string
  n_price :: jsnum
  n_change_5m :: jsnum
  n_change_1h :: jsnum
  n_volume :: jsnum
  n_volumeRatio :: jsnum
  n_rsi :: jsnum
  n_volatility :: jsnum
  n_explosionScore :: jsnum
  n_recommendation :: recommendation

record gainer =
  g_symbol :: string
  g_price :: jsnum
  g_priceChangePercent :: jsnum

datatype body =
  Candidates "candidate list"
| Alerts "alert list"
| Analysis analysis
| Symbols "string list"
| Gainers "gainer list"

datatype response = Json body | Status500 string

section \<open>Upstream, clock and caches\<close>

text \<open>
  The requests the code sends to the exchange. A kline request carries the symbol, the
  interval and the optional \<open>limit\<close> and \<open>startTime\<close> parameters of its URL.
\<close>

datatype interval = I5m | I1h | I1d

datatype request =
  Ticker24hr
| Ticker24hrOf string
| ExchangeInfo
| Klines string interval "nat option" "int option"

text \<open>
  The exchange is a parameter: it decides the outcome of the \<open>n\<close>-th request attempt of
  the process (so the same request can fail once and succeed on the retry) and how long
  the attempt takes, in milliseconds. Answers are well-typed for the request.
\<close>

record world =
  ticker24hr :: "nat \<Rightarrow> error + ticker list"
  ticker24hrOf :: "nat \<Rightarrow> string \<Rightarrow> error + ticker"
  exchangeInfo :: "nat \<Rightarrow> error + listing list"
  klines :: "nat \<Rightarrow> string \<Rightarrow> interval \<Rightarrow> nat option \<Rightarrow> int option \<Rightarrow> error + candle list"
  latency :: "nat \<Rightarrow> nat"

text \<open>
  Modelled from the spec: the two TTL stores are instances of the library
  \<open>node-cache\<close>, which is not part of the sources. The spec gives the contract
  \<open>get(key) -> value | miss\<close> and \<open>set(key, value, ttl)\<close> with no invalidation
  beyond TTL expiry. An entry is stored with its expiry time, \<open>ttl\<close> seconds after
  the time of the \<open>set\<close>; a \<open>get\<close> after that time is a miss.
\<close>

type_synonym 'v cache = "string \<rightharpoonup> 'v \<times> int"

definition cache_get :: "'v cache \<Rightarrow> int \<Rightarrow> string \<Rightarrow> 'v option" where
  "cache_get c now key =
     (case c key of
        None \<Rightarrow> None
      | Some (v, expiry) \<Rightarrow> if expiry < now then None else Some v)"

definition cache_set :: "'v cache \<Rightarrow> int \<Rightarrow> int \<Rightarrow> string \<Rightarrow> 'v \<Rightarrow> 'v cache" where
  "cache_set c now ttl key v = c(key \<mapsto> (v, now + ttl * 1000))"

text \<open>
  The state of the process: the time of \<open>Date.now()\<close> in milliseconds, the request
  attempts sent so far, and the two stores.
\<close>

record state =
  clock :: int
  requests :: "request list"
  shortCache :: "body cache"
  longCache :: "string list cache"

definition initial_state :: "int \<Rightarrow> state" where
  "initial_state t0 =
     \<lparr>clock = t0, requests = [], shortCache = Map.empty, longCache = Map.empty\<rparr>"

text \<open>One attempt: the request is sent and the clock advances by the attempt's latency.\<close>

definition attempt :: "world \<Rightarrow> request \<Rightarrow> state \<Rightarrow> state" where
  "attempt w rq st =
     st\<lparr>requests := requests st @ [rq],
        clock := clock st + int (latency w (length (requests st)))\<rparr>"

text \<open>
  \<open>fetchData(url, retries)\<close>: on failure with retries left it waits one second and
  calls itself with one retry less; with none left it rethrows. \<open>respond n\<close> is the
  outcome of attempt \<open>n\<close> for this request.
\<close>

primrec fetchData ::
  "world \<Rightarrow> (nat \<Rightarrow> error + 'a) \<Rightarrow> request \<Rightarrow> nat \<Rightarrow> state \<Rightarrow> (error + 'a) \<times> state" where
  "fetchData w respond rq 0 st = (respond (length (requests st)), attempt w rq st)"
| "fetchData w respond rq (Suc retries) st =
     (case respond (length (requests st)) of
        Inr data \<Rightarrow> (Inr data, attempt w rq st)
      | Inl err \<Rightarrow>
          (let st1 = attempt w rq st
           in fetchData w respond rq retries (st1\<lparr>clock := clock st1 + 1000\<rparr>)))"

text \<open>A kline request, with the default of two retries.\<close>

definition fetchKlines ::
  "world \<Rightarrow> string \<Rightarrow> interval \<Rightarrow> nat option \<Rightarrow> int option \<Rightarrow> state \<Rightarrow> (error + candle list) \<times> state" where
  "fetchKlines w symb iv limit startTime st =
     fetchData w (\<lambda>n. klines w n symb iv limit startTime) (Klines symb iv limit startTime) 2 st"

text \<open>The indicator functions of the source: the request, then the computation.\<close>

definition calculateChange :: "world \<Rightarrow> string \<Rightarrow> interval \<Rightarrow> state \<Rightarrow> jsnum \<times> state" where
  "calculateChange w symb timeframe st =
     (let (fetched, st1) = fetchKlines w symb timeframe (Some 2) None st
      in (calculateChange_of fetched, st1))"

definition calculateRSI :: "world \<Rightarrow> string \<Rightarrow> state \<Rightarrow> jsnum \<times> state" where
  "calculateRSI w symb st =
     (let (fetched, st1) = fetchKlines w symb I5m (Some (RSI_PERIOD + 1)) None st
      in (calculateRSI_of fetched, st1))"

definition calculateVolumeRatio :: "world \<Rightarrow> string \<Rightarrow> jsnum \<Rightarrow> state \<Rightarrow> jsnum \<times> state" where
  "calculateVolumeRatio w symb currentVolume st =
     (let since = clock st - VOLUME_LOOKBACK_DAYS * 24 * 60 * 60 * 1000;
          (fetched, st1) = fetchKlines w symb I1d None (Some since) st
      in (calculateVolumeRatio_of fetched currentVolume, st1))"

definition calculateCompression :: "world \<Rightarrow> string \<Rightarrow> state \<Rightarrow> bool \<times> state" where
  "calculateCompression w symb st =
     (let (fetched, st1) = fetchKlines w symb I5m (Some 20) None st
      in (calculateCompression_of fetched, st1))"

definition calculateVolatility :: "world \<Rightarrow> string \<Rightarrow> state \<Rightarrow> jsnum \<times> state" where
  "calculateVolatility w symb st =
     (let (fetched, st1) = fetchKlines w symb I5m (Some 20) None st
      in (calculateVolatility_of fetched, st1))"

text \<open>
  The six indicators of one symbol, as the functions return them: the changes, the
  volume ratio and the volatility are strings, or the numbers 0, 1 and 10 of the
  defaults. The source starts the six together with \<open>Promise.all\<close>; the model runs
  them in the order of the array.
\<close>

record indicators =
  change5m :: jsnum
  change1h :: jsnum
  rsi :: jsnum
  volumeRatio :: jsnum
  compression :: bool
  volatility :: jsnum

definition fetch_indicators :: "world \<Rightarrow> string \<Rightarrow> jsnum \<Rightarrow> state \<Rightarrow> indicators \<times> state" where
  "fetch_indicators w symb vol st =
     (let (c5, st1) = calculateChange w symb I5m st;
          (c1, st2) = calculateChange w symb I1h st1;
          (r, st3) = calculateRSI w symb st2;
          (vr, st4) = calculateVolumeRatio w symb vol st3;
          (compressed, st5) = calculateCompression w symb st4;
          (vola, st6) = calculateVolatility w symb st5
      in (\<lparr>change5m = c5, change1h = c1, rsi = r, volumeRatio = vr,
            compression = compressed, volatility = vola\<rparr>, st6))"

section \<open>Screening\<close>

text \<open>\<open>s.endsWith(suffix)\<close> and \<open>s.toUpperCase()\<close> (on ASCII letters).\<close>

definition endsWith :: "string \<Rightarrow> string \<Rightarrow> bool" where
  "endsWith s suf \<longleftrightarrow> length suf \<le> length s \<and> drop (length s - length suf) s = suf"

definition toUpperCase :: "string \<Rightarrow> string" where
  "toUpperCase s =
     map (\<lambda>c. let n = (of_char c :: nat)
              in if 97 \<le> n \<and> n \<le> 122 then char_of (n - 32) else c) s"

text \<open>
  \<open>xs.sort(compare)\<close>: the sort of the engine is stable, and on a consistent comparator
  it returns what a stable insertion sort returns. An element moves behind another one
  only where the comparator is positive; a NaN from the comparator counts as 0.
\<close>

fun insert_sorted :: "('a \<Rightarrow> 'a \<Rightarrow> jsnum) \<Rightarrow> 'a \<Rightarrow> 'a list \<Rightarrow> 'a list" where
  "insert_sorted compare x [] = [x]"
| "insert_sorted compare x (y # ys) =
     (if jlt (Fin 0) (compare x y) then y # insert_sorted compare x ys else x # y # ys)"

definition js_sort :: "('a \<Rightarrow> 'a \<Rightarrow> jsnum) \<Rightarrow> 'a list \<Rightarrow> 'a list" where
  "js_sort compare xs = foldr (insert_sorted compare) xs []"

text \<open>
  \<open>getNewListings\<close>: the cached list if the long-lived store has one (an array is
  truthy even when empty); otherwise the eligible symbols of the exchange information,
  newest first, cut to \<open>MAX_CANDIDATES\<close> and stored. The empty list on failure.
  The dates are integers of milliseconds, whose difference is exact.
\<close>

definition getNewListings :: "world \<Rightarrow> state \<Rightarrow> string list \<times> state" where
  "getNewListings w st =
     (case cache_get (longCache st) (clock st) ''newListings'' of
        Some cached \<Rightarrow> (cached, st)
      | None \<Rightarrow>
          (let (listings, st1) = fetchData w (exchangeInfo w) ExchangeInfo 2 st
           in case listings of
                Inl err \<Rightarrow> ([], st1)
              | Inr symbols \<Rightarrow>
                  (let recentSymbols =
                         map l_symbol
                           (take MAX_CANDIDATES
                              (js_sort (\<lambda>a b. Fin (real_of_int (onboardDate b - onboardDate a)))
                                 (filter (\<lambda>s. endsWith (l_symbol s) ''USDT'' \<and>
                                              l_symbol s \<notin> POPULAR_TOKENS) symbols)));
                       st2 = st1\<lparr>longCache :=
                               cache_set (longCache st1) (clock st1) CACHE_LONG_TTL
                                 ''newListings'' recentSymbols\<rparr>
                   in (recentSymbols, st2))))"

text \<open>\<open>/api/top-gainers\<close>.\<close>

definition top_gainers :: "world \<Rightarrow> state \<Rightarrow> response \<times> state" where
  "top_gainers w st =
     (let (data, st1) = fetchData w (ticker24hr w) Ticker24hr 2 st
      in case data of
           Inl err \<Rightarrow> (Status500 ''Error fetching top gainers'', st1)
         | Inr tickers \<Rightarrow>
             (let filtered =
                    map (\<lambda>t. \<lparr>g_symbol = symbol t, g_price = parseFloat (Fin (lastPrice t)),
                              g_priceChangePercent = parseFloat (Fin (priceChangePercent t))\<rparr>)
                      (take TOP_RESULTS
                         (js_sort (\<lambda>a b. jsub (parseFloat (Fin (priceChangePercent b)))
                                              (parseFloat (Fin (priceChangePercent a))))
                            (filter (\<lambda>d. symbol d \<notin> POPULAR_TOKENS \<and> endsWith (symbol d) ''USDT'' \<and>
                                         jge (parseFloat (Fin (baseVolume d))) (Fin MIN_VOLUME_REGULAR))
                               tickers)))
              in (Json (Gainers filtered), st1)))"

text \<open>
  \<open>/api/explosion-candidates\<close>. One turn of the loop over the sliced ticker list: the
  two \<open>continue\<close>s, the indicators, the score on the parsed indicators, and the
  \<open>push\<close> under the admission condition.
\<close>

definition explosion_visit ::
  "world \<Rightarrow> string list \<Rightarrow> ticker \<Rightarrow> candidate list \<Rightarrow> state \<Rightarrow> candidate list \<times> state" where
  "explosion_visit w newListings t candidates st =
     (if \<not> endsWith (symbol t) ''USDT'' \<or> symbol t \<in> POPULAR_TOKENS then (candidates, st)
      else
        let price = parseFloat (Fin (lastPrice t));
            vol = parseFloat (Fin (baseVolume t))
        in if jlt vol (Fin MIN_VOLUME_EXPLOSION) then (candidates, st)
           else
             let (ind, st1) = fetch_indicators w (symbol t) vol st;
                 isNew = (symbol t \<in> set newListings);
                 c5 = parseFloat (change5m ind);
                 c1 = parseFloat (change1h ind);
                 vr = parseFloat (volumeRatio ind);
                 score = explosionScore c5 c1 vr (rsi ind) isNew (compression ind)
             in if explosion_admitted c5 c1 vr (rsi ind) score
                then
                  (candidates @
                   [\<lparr>c_symbol = symbol t,
                     c_price = price,
                     c_change_5m = c5,
                     c_change_1h = c1,
                     c_volume = vol,
                     c_volumeRatio = vr,
                     c_rsi = rsi ind,
                     c_volatility = volatility ind,
                     c_explosionScore = score,
                     c_isNew = isNew,
                     c_technicals =
                       \<lparr>t_rsi = rsi ind,
                        t_volatility = volatility ind,
                        t_volumeSpike =
                          (if jge vr (Fin MIN_VOLUME_RATIO) then toFixed 2 vr else Fin 0),
                        trend = ''BULLISH'',
                        support = toFixed 8 (jmul price (lit (97 / 100))),
                        resistance = toFixed 8 (jmul price (lit (105 / 100)))\<rparr>,
                     c_recommendation =
                       \<lparr>action = (if jge score (Fin 80) then COMPRA_FUERTE else MONITOREAR),
                        buyPrice = price,
                        sellTarget = toFixed 8 (jmul price (lit (125 / 100))),
                        stopLoss = toFixed 8 (jmul price (lit (95 / 100))),
                        confidence = (if jge score (Fin 80) then MUY_ALTA else MEDIA)\<rparr>\<rparr>],
                   st1)
                else (candidates, st1))"

fun explosion_loop ::
  "world \<Rightarrow> string list \<Rightarrow> ticker list \<Rightarrow> candidate list \<Rightarrow> state \<Rightarrow> candidate list \<times> state" where
  "explosion_loop w newListings [] candidates st = (candidates, st)"
| "explosion_loop w newListings (t # ts) candidates st =
     (let (candidates1, st1) = explosion_visit w newListings t candidates st
      in explosion_loop w newListings ts candidates1 st1)"

text \<open>
  \<open>topCandidates\<close>: the list sorted in place by score descending, then
  \<open>slice(0, TOP_RESULTS)\<close>, then the guard that cuts the slice again if it is longer
  than \<open>TOP_RESULTS\<close>.
\<close>

definition topCandidates :: "candidate list \<Rightarrow> candidate list" where
  "topCandidates candidates =
     (let sliced =
            take TOP_RESULTS
              (js_sort (\<lambda>a b. jsub (c_explosionScore b) (c_explosionScore a)) candidates)
      in if length sliced > TOP_RESULTS then take TOP_RESULTS sliced else sliced)"

text \<open>
  The handler: the cached body on a hit (\<open>if (cached)\<close> holds of every stored list,
  the empty one too); otherwise the snapshot and the new listings, the loop over
  \<open>tickerData.slice(0, MAX_CANDIDATES)\<close>, the ranking and the store. A snapshot that
  cannot be fetched is the only exception that reaches the handler's \<open>catch\<close>.
\<close>

definition explosion_candidates :: "world \<Rightarrow> state \<Rightarrow> response \<times> state" where
  "explosion_candidates w st =
     (case cache_get (shortCache st) (clock st) ''explosionCandidates'' of
        Some cached \<Rightarrow> (Json cached, st)
      | None \<Rightarrow>
          (let (tickerData, st1) = fetchData w (ticker24hr w) Ticker24hr 2 st;
               (newListings, st2) = getNewListings w st1
           in case tickerData of
                Inl err \<Rightarrow> (Status500 ''Internal server error'', st2)
              | Inr tickers \<Rightarrow>
                  (let (candidates, st3) =
                         explosion_loop w newListings (take MAX_CANDIDATES tickers) [] st2;
                       top = topCandidates candidates;
                       st4 = st3\<lparr>shortCache :=
                               cache_set (shortCache st3) (clock st3) CACHE_SHORT_TTL
                                 ''explosionCandidates'' (Candidates top)\<rparr>
                   in (Json (Candidates top), st4))))"

text \<open>
  \<open>/api/pre-explosion-signals\<close>: the same loop with the regular volume floor, the
  alert score, no RSI condition on admission, and a three-way action.
\<close>

definition alert_visit ::
  "world \<Rightarrow> string list \<Rightarrow> ticker \<Rightarrow> alert list \<Rightarrow> state \<Rightarrow> alert list \<times> state" where
  "alert_visit w newListings t alerts st =
     (if \<not> endsWith (symbol t) ''USDT'' \<or> symbol t \<in> POPULAR_TOKENS then (alerts, st)
      else
        let price = parseFloat (Fin (lastPrice t));
            vol = parseFloat (Fin (baseVolume t))
        in if jlt vol (Fin MIN_VOLUME_REGULAR) then (alerts, st)
           else
             let (ind, st1) = fetch_indicators w (symbol t) vol st;
                 isNew = (symbol t \<in> set newListings);
                 c5 = parseFloat (change5m ind);
                 c1 = parseFloat (change1h ind);
                 vr = parseFloat (volumeRatio ind);
                 score = alertScore c5 c1 vr (rsi ind) isNew (compression ind)
             in if alert_admitted c5 c1 vr score
                then
                  (alerts @
                   [\<lparr>a_symbol = symbol t,
                     a_price = price,
                     a_change_5m = c5,
                     a_change_1h = c1,
                     a_volume = vol,
                     a_volumeRatio = vr,
                     a_rsi = rsi ind,
                     a_alertScore = score,
                     a_compression = compression ind,
                     a_volumeSpike = jge vr (Fin MIN_VOLUME_RATIO),
                     a_recommendation =
                       \<lparr>action = (if jge score (Fin 80) then POSIBLE_EXPLOSION
                                  else if jge score (Fin 60) then MONITOREAR else EVITAR),
                        buyPrice = price,
                        sellTarget = toFixed 8 (jmul price (lit (112 / 100))),
                        stopLoss = toFixed 8 (jmul price (lit (92 / 100))),
                        confidence = (if jge score (Fin 80) then ALTA else MEDIA)\<rparr>\<rparr>],
                   st1)
                else (alerts, st1))"

fun alert_loop ::
  "world \<Rightarrow> string list \<Rightarrow> ticker list \<Rightarrow> alert list \<Rightarrow> state \<Rightarrow> alert list \<times> state" where
  "alert_loop w newListings [] alerts st = (alerts, st)"
| "alert_loop w newListings (t # ts) alerts st =
     (let (alerts1, st1) = alert_visit w newListings t alerts st
      in alert_loop w newListings ts alerts1 st1)"

definition topAlerts :: "alert list \<Rightarrow> alert list" where
  "topAlerts alerts =
     (let sliced =
            take TOP_RESULTS
              (js_sort (\<lambda>a b. jsub (a_alertScore b) (a_alertScore a)) alerts)
      in if length sliced > TOP_RESULTS then take TOP_RESULTS sliced else sliced)"

definition pre_explosion_signals :: "world \<Rightarrow> state \<Rightarrow> response \<times> state" where
  "pre_explosion_signals w st =
     (case cache_get (shortCache st) (clock st) ''preExplosionSignals'' of
        Some cached \<Rightarrow> (Json cached, st)
      | None \<Rightarrow>
          (let (tickerData, st1) = fetchData w (ticker24hr w) Ticker24hr 2 st;
               (newListings, st2) = getNewListings w st1
           in case tickerData of
                Inl err \<Rightarrow> (Status500 ''Internal server error'', st2)
              | Inr tickers \<Rightarrow>
                  (let (alerts, st3) =
                         alert_loop w newListings (take MAX_CANDIDATES tickers) [] st2;
                       top = topAlerts alerts;
                       st4 = st3\<lparr>shortCache :=
                               cache_set (shortCache st3) (clock st3) CACHE_SHORT_TTL
                                 ''preExplosionSignals'' (Alerts top)\<rparr>
                   in (Json (Alerts top), st4))))"

text \<open>\<open>/api/new-listings\<close> and \<open>/api/analysis/:symbol\<close>.\<close>

definition new_listings :: "world \<Rightarrow> state \<Rightarrow> response \<times> state" where
  "new_listings w st =
     (let (listings, st1) = getNewListings w st
      in (Json (Symbols listings), st1))"

definition analysis_of :: "world \<Rightarrow> string \<Rightarrow> state \<Rightarrow> response \<times> state" where
  "analysis_of w param st =
     (let symb = toUpperCase param;
          (data, st1) = fetchData w (\<lambda>n. ticker24hrOf w n symb) (Ticker24hrOf symb) 2 st
      in case data of
           Inl err \<Rightarrow> (Status500 ''Error in individual analysis'', st1)
         | Inr d \<Rightarrow>
             (let price = parseFloat (Fin (lastPrice d));
                  vol = parseFloat (Fin (baseVolume d));
                  (ind, st2) = fetch_indicators w symb vol st1;
                  c5 = parseFloat (change5m ind);
                  c1 = parseFloat (change1h ind);
                  vr = parseFloat (volumeRatio ind);
                  score = analysisScore c5 c1 vr (rsi ind) (compression ind)
              in (Json (Analysis
                    \<lparr>n_symbol = symb,
                     n_price = price,
                     n_change_5m = c5,
                     n_change_1h = c1,
                     n_volume = vol,
                     n_volumeRatio = vr,
                     n_rsi = rsi ind,
                     n_volatility = volatility ind,
                     n_explosionScore = score,
                     n_recommendation =
                       \<lparr>action = (if jge score (Fin 80) then COMPRA_FUERTE else MONITOREAR),
                        buyPrice = price,
                        sellTarget = toFixed 8 (jmul price (lit (125 / 100))),
                        stopLoss = toFixed 8 (jmul price (lit (95 / 100))),
                        confidence = (if jge score (Fin 80) then MUY_ALTA else MEDIA)\<rparr>\<rparr>),
                  st2)))"

section \<open>Runs of the server\<close>

text \<open>
  What happens to the process after its start: time passes, or a request to one of the
  endpoints is handled. A run is a list of such events from the initial state, in which
  both stores are empty.
\<close>

datatype event =
  Wait nat
| GetTopGainers
| GetExplosionCandidates
| GetPreExplosionSignals
| GetNewListings
| GetAnalysis string

fun handle :: "world \<Rightarrow> event \<Rightarrow> state \<Rightarrow> state" where
  "handle w (Wait d) st = st\<lparr>clock := clock st + int d\<rparr>"
| "handle w GetTopGainers st = snd (top_gainers w st)"
| "handle w GetExplosionCandidates st = snd (explosion_candidates w st)"
| "handle w GetPreExplosionSignals st = snd (pre_explosion_signals w st)"
| "handle w GetNewListings st = snd (new_listings w st)"
| "handle w (GetAnalysis param) st = snd (analysis_of w param st)"

definition run :: "world \<Rightarrow> int \<Rightarrow> event list \<Rightarrow> state" where
  "run w t0 events = foldl (\<lambda>st e. handle w e st) (initial_state t0) events"

section \<open>The specification's indicator, score and pool definitions\<close>

text \<open>
  The definitions of this section follow the words of the specification, not the code;
  the theorems below compare the code with them. Their arithmetic is that of the
  program: every operation rounds to the nearest double, and a sum adds its terms from
  the left.

  RSI with simple averaging over the last 14 close-to-close deltas: the average gain and
  the average loss, \<open>100 - 100 / (1 + RS)\<close> rounded to the nearest integer, 100 or 50
  when the average loss is 0, and 50 on fewer than 15 candles.
\<close>

definition spec_gain :: "jsnum list \<Rightarrow> nat \<Rightarrow> jsnum" where
  "spec_gain closes i =
     (let delta = jsub (closes ! (i + 1)) (closes ! i)
      in if jlt (Fin 0) delta then delta else Fin 0)"

definition spec_loss :: "jsnum list \<Rightarrow> nat \<Rightarrow> jsnum" where
  "spec_loss closes i =
     (let delta = jsub (closes ! (i + 1)) (closes ! i)
      in if jlt delta (Fin 0) then jneg delta else Fin 0)"

definition spec_avg_gain :: "jsnum list \<Rightarrow> jsnum" where
  "spec_avg_gain closes =
     jdiv (jsum (map (spec_gain closes) [length closes - 15..<length closes - 1])) (Fin 14)"

definition spec_avg_loss :: "jsnum list \<Rightarrow> jsnum" where
  "spec_avg_loss closes =
     jdiv (jsum (map (spec_loss closes) [length closes - 15..<length closes - 1])) (Fin 14)"

definition spec_rsi :: "jsnum list \<Rightarrow> jsnum" where
  "spec_rsi closes =
     (if length closes < 15 then Fin 50
      else if jeq (spec_avg_loss closes) (Fin 0)
      then (if jlt (Fin 0) (spec_avg_gain closes) then Fin 100 else Fin 50)
      else jround (jsub (Fin 100)
             (jdiv (Fin 100)
                (jadd (Fin 1) (jdiv (spec_avg_gain closes) (spec_avg_loss closes))))))"








text \<open>
  The composite score of the scoring policy, with its constants as parameters, and the
  constants of the explosion-candidate scenario. \<open>claimed_policy\<close> is that scenario
  with the weight 0.3 on the one-hour change; \<open>analysis_policy\<close> is that scenario
  without the new-listing bonus and without the time bonus.
\<close>

record policy =
  REF_5M :: real
  REF_1H :: real
  REF_VOL :: real
  W_5M :: real
  W_1H :: real
  W_VOL :: real
  W_RSI :: real
  BONUS_NEW :: real
  BONUS_COMPRESSION :: real
  FIXED_TIME_BONUS :: real

definition rsiInBand :: "jsnum \<Rightarrow> bool" where
  "rsiInBand r \<longleftrightarrow> jle (Fin RSI_MIN) r \<and> jle r (Fin RSI_MAX)"

definition spec_score ::
  "policy \<Rightarrow> jsnum \<Rightarrow> jsnum \<Rightarrow> jsnum \<Rightarrow> jsnum \<Rightarrow> bool \<Rightarrow> bool \<Rightarrow> jsnum" where
  "spec_score p c5 c1 vr r isNewListing compressed =
     jround
       (jadd (jadd (jadd (jadd (jadd (jadd
          (jmul (jmul (jdiv c5 (lit (REF_5M p))) (Fin 100)) (lit (W_5M p)))
          (jmul (jmul (jdiv c1 (lit (REF_1H p))) (Fin 100)) (lit (W_1H p))))
          (jmul (jmul (jdiv vr (lit (REF_VOL p))) (Fin 100)) (lit (W_VOL p))))
          (jmul (if rsiInBand r then Fin 100 else Fin 50) (lit (W_RSI p))))
          (if isNewListing then lit (BONUS_NEW p) else Fin 0))
          (if compressed then lit (BONUS_COMPRESSION p) else Fin 0))
          (lit (FIXED_TIME_BONUS p)))"

definition explosion_policy :: policy where
  "explosion_policy =
     \<lparr>REF_5M = 25, REF_1H = 35, REF_VOL = 10,
      W_5M = 4 / 10, W_1H = 2 / 10, W_VOL = 3 / 10, W_RSI = 1 / 10,
      BONUS_NEW = 20, BONUS_COMPRESSION = 10, FIXED_TIME_BONUS = 20\<rparr>"

definition claimed_policy :: policy where
  "claimed_policy = explosion_policy\<lparr>W_1H := 3 / 10\<rparr>"

definition analysis_policy :: policy where
  "analysis_policy = explosion_policy\<lparr>BONUS_NEW := 0, FIXED_TIME_BONUS := 0\<rparr>"

text \<open>
  The candidate pool as the specification words it: the eligible symbols of the
  snapshot, cut to the maximum pool size. Next to it, what the loop of the code lets
  through to the indicator computation under a volume floor.
\<close>

definition eligible :: "ticker \<Rightarrow> bool" where
  "eligible t \<longleftrightarrow> endsWith (symbol t) ''USDT'' \<and> symbol t \<notin> POPULAR_TOKENS"

definition spec_pool :: "ticker list \<Rightarrow> ticker list" where
  "spec_pool tickers = take MAX_CANDIDATES (filter eligible tickers)"

definition below_floor :: "real \<Rightarrow> ticker \<Rightarrow> bool" where
  "below_floor minVolume t \<longleftrightarrow> jlt (parseFloat (Fin (baseVolume t))) (Fin minVolume)"

definition scanned :: "real \<Rightarrow> ticker list \<Rightarrow> ticker list" where
  "scanned minVolume tickers =
     filter (\<lambda>t. eligible t \<and> \<not> below_floor minVolume t) (take MAX_CANDIDATES tickers)"

text \<open>The symbols of the kline requests in a list of requests.\<close>

fun kline_symbol :: "request \<Rightarrow> string list" where
  "kline_symbol (Klines symb iv limit startTime) = [symb]"
| "kline_symbol rq = []"

definition kline_symbols :: "request list \<Rightarrow> string list" where
  "kline_symbols rqs = concat (map kline_symbol rqs)"

section \<open>Invariants of the result lists\<close>

text \<open>
  What holds of every entry that the loops push: the symbol is eligible and passed the
  volume floor, the indicators passed the admission condition, the score is the score
  expression on the entry's own fields (the compression flag is not a field of a
  candidate, nor the new-listing flag a field of an alert), and the action follows from
  the score.
\<close>

definition candidate_ok :: "candidate \<Rightarrow> bool" where
  "candidate_ok c \<longleftrightarrow>
     endsWith (c_symbol c) ''USDT'' \<and> c_symbol c \<notin> POPULAR_TOKENS \<and>
     \<not> jlt (c_volume c) (Fin MIN_VOLUME_EXPLOSION) \<and>
     explosion_admitted (c_change_5m c) (c_change_1h c) (c_volumeRatio c) (c_rsi c)
       (c_explosionScore c) \<and>
     (c_explosionScore c =
        explosionScore (c_change_5m c) (c_change_1h c) (c_volumeRatio c) (c_rsi c)
          (c_isNew c) True \<or>
      c_explosionScore c =
        explosionScore (c_change_5m c) (c_change_1h c) (c_volumeRatio c) (c_rsi c)
          (c_isNew c) False) \<and>
     action (c_recommendation c) =
       (if jge (c_explosionScore c) (Fin 80) then COMPRA_FUERTE else MONITOREAR)"

definition alert_ok :: "alert \<Rightarrow> bool" where
  "alert_ok a \<longleftrightarrow>
     endsWith (a_symbol a) ''USDT'' \<and> a_symbol a \<notin> POPULAR_TOKENS \<and>
     \<not> jlt (a_volume a) (Fin MIN_VOLUME_REGULAR) \<and>
     alert_admitted (a_change_5m a) (a_change_1h a) (a_volumeRatio a) (a_alertScore a) \<and>
     (a_alertScore a =
        alertScore (a_change_5m a) (a_change_1h a) (a_volumeRatio a) (a_rsi a)
          True (a_compression a) \<or>
      a_alertScore a =
        alertScore (a_change_5m a) (a_change_1h a) (a_volumeRatio a) (a_rsi a)
          False (a_compression a)) \<and>
     action (a_recommendation a) =
       (if jge (a_alertScore a) (Fin 80) then POSIBLE_EXPLOSION
        else if jge (a_alertScore a) (Fin 60) then MONITOREAR else EVITAR)"

text \<open>A ranked list: at most \<open>TOP_RESULTS\<close> entries, scores descending.\<close>

definition ranked :: "('a \<Rightarrow> jsnum) \<Rightarrow> 'a list \<Rightarrow> bool" where
  "ranked score xs \<longleftrightarrow>
     length xs \<le> TOP_RESULTS \<and> sorted_wrt (\<lambda>a b. jge (score a) (score b)) xs"

text \<open>The bodies that the two screening endpoints may return.\<close>

fun explosion_body_ok :: "body \<Rightarrow> bool" where
  "explosion_body_ok (Candidates cs) \<longleftrightarrow> list_all candidate_ok cs \<and> ranked c_explosionScore cs"
| "explosion_body_ok b \<longleftrightarrow> False"

fun alert_body_ok :: "body \<Rightarrow> bool" where
  "alert_body_ok (Alerts as) \<longleftrightarrow> list_all alert_ok as \<and> ranked a_alertScore as"
| "alert_body_ok b \<longleftrightarrow> False"

fun explosion_response_ok :: "response \<Rightarrow> bool" where
  "explosion_response_ok (Json b) = explosion_body_ok b"
| "explosion_response_ok (Status500 msg) = True"

fun alert_response_ok :: "response \<Rightarrow> bool" where
  "alert_response_ok (Json b) = alert_body_ok b"
| "alert_response_ok (Status500 msg) = True"

text \<open>The short-lived store holds nothing but such bodies under the two keys.\<close>

definition shortCache_ok :: "state \<Rightarrow> bool" where
  "shortCache_ok st \<longleftrightarrow>
     (case shortCache st ''explosionCandidates'' of
        None \<Rightarrow> True | Some (b, expiry) \<Rightarrow> explosion_body_ok b) \<and>
     (case shortCache st ''preExplosionSignals'' of
        None \<Rightarrow> True | Some (b, expiry) \<Rightarrow> alert_body_ok b)"

section \<open>An example exchange\<close>

text \<open>
  A small exchange on which the endpoints are evaluated below. Its snapshot has a pair
  quoted in another asset, a popular token, two eligible symbols and one below both
  volume floors. \<open>XYZUSDT\<close> rose 4 percent in five minutes and 5 percent in an hour, at
  twice its mean volume, with RSI 55 and flat recent closes; \<open>LOWUSDT\<close> sits on the
  admission minima, with too few candles for the compression window.
\<close>

definition candles_of :: "real list \<Rightarrow> real \<Rightarrow> candle list" where
  "candles_of closes vol = map (\<lambda>c. \<lparr>close = c, volume = vol\<rparr>) closes"

definition demo_tickers :: "ticker list" where
  "demo_tickers =
     [\<lparr>symbol = ''ETHBTC'', lastPrice = 1 / 20, baseVolume = 90000, priceChangePercent = 1\<rparr>,
      \<lparr>symbol = ''BTCUSDT'', lastPrice = 60000, baseVolume = 900000, priceChangePercent = 9\<rparr>,
      \<lparr>symbol = ''LOWUSDT'', lastPrice = 1, baseVolume = 45000, priceChangePercent = 6\<rparr>,
      \<lparr>symbol = ''XYZUSDT'', lastPrice = 2, baseVolume = 60000, priceChangePercent = 8\<rparr>,
      \<lparr>symbol = ''TINYUSDT'', lastPrice = 3, baseVolume = 100, priceChangePercent = 50\<rparr>]"

definition demo_klines :: "string \<Rightarrow> interval \<Rightarrow> nat option \<Rightarrow> error + candle list" where
  "demo_klines symb iv limit =
     (if symb = ''XYZUSDT'' then
        (if iv = I5m \<and> limit = Some 2 then Inr (candles_of [100, 104] 1)
         else if iv = I1h \<and> limit = Some 2 then Inr (candles_of [100, 105] 1)
         else if iv = I5m \<and> limit = Some 15 then
           Inr (candles_of [100, 100, 100, 100, 100, 100, 100, 100, 100, 100, 100, 100, 100,
                            111, 102] 1)
         else if iv = I1d \<and> limit = None then Inr (candles_of [1] 30000)
         else if iv = I5m \<and> limit = Some 20 then
           Inr (candles_of [100, 100, 100, 100, 100, 100, 100, 100, 100, 100,
                            100, 100, 100, 100, 100, 100, 100, 100, 100, 100] 1)
         else Inl FetchError)
      else if symb = ''LOWUSDT'' then
        (if iv = I5m \<and> limit = Some 2 then Inr (candles_of [100, 103] 1)
         else if iv = I1h \<and> limit = Some 2 then Inr (candles_of [100, 104] 1)
         else if iv = I5m \<and> limit = Some 15 then
           Inr (candles_of [100, 100, 100, 100, 100, 100, 100, 100, 100, 100, 100, 100, 100,
                            100, 100] 1)
         else if iv = I1d \<and> limit = None then Inr (candles_of [1] 30000)
         else if iv = I5m \<and> limit = Some 20 then Inr []
         else Inl FetchError)
      else Inl FetchError)"

definition demo_world :: world where
  "demo_world =
     \<lparr>ticker24hr = (\<lambda>n. Inr demo_tickers),
      ticker24hrOf = (\<lambda>n symb.
        if symb = ''XYZUSDT''
        then Inr \<lparr>symbol = ''XYZUSDT'', lastPrice = 2, baseVolume = 60000, priceChangePercent = 8\<rparr>
        else Inl FetchError),
      exchangeInfo = (\<lambda>n. Inr [\<lparr>l_symbol = ''NEWUSDT'', onboardDate = 1700000000000\<rparr>]),
      klines = (\<lambda>n symb iv limit startTime. demo_klines symb iv limit),
      latency = (\<lambda>n. 50)\<rparr>"

text \<open>The entries that the two screening endpoints return on this exchange.\<close>

definition demo_xyz_candidate :: candidate where
  "demo_xyz_candidate =
     \<lparr>c_symbol = ''XYZUSDT'', c_price = Fin 2, c_change_5m = Fin 4, c_change_1h = Fin 5,
      c_volume = Fin 60000, c_volumeRatio = Fin 2, c_rsi = Fin 55, c_volatility = Fin 0,
      c_explosionScore = Fin 55, c_isNew = False,
      c_technicals =
        \<lparr>t_rsi = Fin 55, t_volatility = Fin 0, t_volumeSpike = Fin 2, trend = ''BULLISH'',
         support = Fin (194 / 100), resistance = Fin (21 / 10)\<rparr>,
      c_recommendation =
        \<lparr>action = MONITOREAR, buyPrice = Fin 2, sellTarget = Fin (5 / 2), stopLoss = Fin (19 / 10),
         confidence = MEDIA\<rparr>\<rparr>"

definition demo_low_candidate :: candidate where
  "demo_low_candidate =
     \<lparr>c_symbol = ''LOWUSDT'', c_price = Fin 1, c_change_5m = Fin 3, c_change_1h = Fin 4,
      c_volume = Fin 45000, c_volumeRatio = Fin (3 / 2), c_rsi = Fin 50, c_volatility = NaN,
      c_explosionScore = Fin 42, c_isNew = False,
      c_technicals =
        \<lparr>t_rsi = Fin 50, t_volatility = NaN, t_volumeSpike = Fin (3 / 2), trend = ''BULLISH'',
         support = Fin (97 / 100), resistance = Fin (105 / 100)\<rparr>,
      c_recommendation =
        \<lparr>action = MONITOREAR, buyPrice = Fin 1, sellTarget = Fin (5 / 4), stopLoss = Fin (95 / 100),
         confidence = MEDIA\<rparr>\<rparr>"

definition demo_xyz_alert :: alert where
  "demo_xyz_alert =
     \<lparr>a_symbol = ''XYZUSDT'', a_price = Fin 2, a_change_5m = Fin 4, a_change_1h = Fin 5,
      a_volume = Fin 60000, a_volumeRatio = Fin 2, a_rsi = Fin 55, a_alertScore = Fin 70,
      a_compression = True, a_volumeSpike = True,
      a_recommendation =
        \<lparr>action = MONITOREAR, buyPrice = Fin 2, sellTarget = Fin (224 / 100), stopLoss = Fin (184 / 100),
         confidence = MEDIA\<rparr>\<rparr>"

definition demo_low_alert :: alert where
  "demo_low_alert =
     \<lparr>a_symbol = ''LOWUSDT'', a_price = Fin 1, a_change_5m = Fin 3, a_change_1h = Fin 4,
      a_volume = Fin 45000, a_volumeRatio = Fin (3 / 2), a_rsi = Fin 50, a_alertScore = Fin 42,
      a_compression = False, a_volumeSpike = True,
      a_recommendation =
        \<lparr>action = EVITAR, buyPrice = Fin 1, sellTarget = Fin (112 / 100), stopLoss = Fin (92 / 100),
         confidence = MEDIA\<rparr>\<rparr>"

definition demo_xyz_analysis :: analysis where
  "demo_xyz_analysis =
     \<lparr>n_symbol = ''XYZUSDT'', n_price = Fin 2, n_change_5m = Fin 4, n_change_1h = Fin 5,
      n_volume = Fin 60000, n_volumeRatio = Fin 2, n_rsi = Fin 55, n_volatility = Fin 0,
      n_explosionScore = Fin 35,
      n_recommendation =
        \<lparr>action = MONITOREAR, buyPrice = Fin 2, sellTarget = Fin (5 / 2), stopLoss = Fin (19 / 10),
         confidence = MEDIA\<rparr>\<rparr>"

text \<open>
  The same exchange with a crowded snapshot: fifty pairs quoted in another asset ahead
  of the eligible \<open>XYZUSDT\<close>.
\<close>

definition crowded_tickers :: "ticker list" where
  "crowded_tickers =
     replicate 50
       \<lparr>symbol = ''ETHBTC'', lastPrice = 1 / 20, baseVolume = 90000, priceChangePercent = 1\<rparr> @
     [\<lparr>symbol = ''XYZUSDT'', lastPrice = 2, baseVolume = 60000, priceChangePercent = 8\<rparr>]"

definition crowded_world :: world where
  "crowded_world = demo_world\<lparr>ticker24hr := (\<lambda>n. Inr crowded_tickers)\<rparr>"

section \<open>Rounding to doubles\<close>

text \<open>
  Rounding to the nearest double is monotone, odd, and leaves the doubles fixed; on a
  number whose binade is known it is computed by scaling to an integer significand.
\<close>

lemma round_even_of_int [simp]: "round_even (of_int n) = n"
  by (simp add: round_even_def)

lemma round_even_zero [simp]: "round_even 0 = 0"
  by (simp add: round_even_def)

lemma round_even_cases: "round_even y = \<lfloor>y\<rfloor> \<or> round_even y = \<lfloor>y\<rfloor> + 1"
  by (simp add: round_even_def Let_def)

lemma round_even_mono: "y \<le> z \<Longrightarrow> round_even y \<le> round_even z"
proof -
  assume yz: "y \<le> z"
  then have f: "\<lfloor>y\<rfloor> \<le> \<lfloor>z\<rfloor>" by (rule floor_mono)
  show ?thesis
  proof (cases "\<lfloor>y\<rfloor> = \<lfloor>z\<rfloor>")
    case True
    then show ?thesis using yz by (auto simp: round_even_def Let_def)
  next
    case False
    with f have "\<lfloor>y\<rfloor> + 1 \<le> \<lfloor>z\<rfloor>" by simp
    moreover have "round_even y \<le> \<lfloor>y\<rfloor> + 1" using round_even_cases[of y] by auto
    moreover have "\<lfloor>z\<rfloor> \<le> round_even z" using round_even_cases[of z] by auto
    ultimately show ?thesis by linarith
  qed
qed

lemma round_even_minus: "round_even (- y) = - round_even y"
proof (cases "y \<in> \<int>")
  case True
  then obtain n where "y = of_int n" by (auto elim: Ints_cases)
  then show ?thesis by (simp flip: of_int_minus)
next
  case False
  then have "y \<noteq> of_int \<lfloor>y\<rfloor>" by (metis Ints_of_int)
  then have f: "\<lfloor>- y\<rfloor> = - \<lfloor>y\<rfloor> - 1"
    by (simp add: floor_minus ceiling_altdef)
  show ?thesis
    unfolding round_even_def Let_def f by auto
qed

lemma ulp_pos [simp]: "0 < ulp x"
  by (simp add: ulp_def)

lemma ulp_neq0 [simp]: "ulp x \<noteq> 0"
  by (simp add: ulp_def)

lemma ulp_minus [simp]: "ulp (- x) = ulp x"
  by (simp add: ulp_def exponent_def)

lemma rd_minus: "rd (- x) = - rd x"
  by (simp add: rd_def round_even_minus)

lemma rd_zero [simp]: "rd 0 = 0"
  by (simp add: rd_def)

lemma rd_nonneg: "0 \<le> x \<Longrightarrow> 0 \<le> rd x"
proof -
  assume "0 \<le> x"
  then have "0 \<le> x / ulp x" by (simp add: less_imp_le)
  then have "round_even 0 \<le> round_even (x / ulp x)" by (rule round_even_mono)
  then have "0 \<le> round_even (x / ulp x)" by simp
  then show ?thesis by (simp add: rd_def less_imp_le)
qed

lemma rd_nonpos: "x \<le> 0 \<Longrightarrow> rd x \<le> 0"
  using rd_nonneg[of "- x"] by (simp add: rd_minus)

lemma binade:
  assumes "0 < x"
  shows "2 powr of_int \<lfloor>log 2 x\<rfloor> \<le> x" and "x < 2 powr (of_int \<lfloor>log 2 x\<rfloor> + 1)"
  using floor_log_eq_powr_iff[of x 2 "\<lfloor>log 2 x\<rfloor>"] assms by simp_all

lemma exponent_ge: "\<lfloor>log 2 \<bar>x\<bar>\<rfloor> \<le> exponent x" and exponent_min: "- 1022 \<le> exponent x"
  by (simp_all add: exponent_def)

lemma ulp_times_52: "2 ^ 52 * ulp x = 2 powr of_int (exponent x)"
  by (simp add: ulp_def powr_diff)

lemma ulp_times_53: "2 ^ 53 * ulp x = 2 powr (of_int (exponent x) + 1)"
  by (simp add: ulp_def powr_diff powr_add)

lemma scaled_upper:
  assumes "0 \<le> x"
  shows "x / ulp x < 2 ^ 53"
proof (cases "x = 0")
  case True
  then show ?thesis by simp
next
  case False
  with assms have pos: "0 < x" by simp
  have "x < 2 powr (of_int \<lfloor>log 2 x\<rfloor> + 1)" by (rule binade(2)[OF pos])
  also have "\<dots> \<le> 2 powr (of_int (exponent x) + 1)"
    using exponent_ge[of x] pos by (simp add: powr_mono)
  also have "\<dots> = 2 ^ 53 * ulp x"
    by (simp only: ulp_times_53)
  finally show ?thesis
    by (simp add: pos_divide_less_eq)
qed

lemma scaled_lower:
  assumes "0 < x" and "- 1022 \<le> \<lfloor>log 2 x\<rfloor>"
  shows "2 ^ 52 \<le> x / ulp x"
proof -
  have e: "exponent x = \<lfloor>log 2 x\<rfloor>"
    using assms by (simp add: exponent_def)
  have "2 ^ 52 * ulp x = 2 powr of_int \<lfloor>log 2 x\<rfloor>"
    by (simp only: ulp_times_52 e)
  also have "\<dots> \<le> x" by (rule binade(1)[OF assms(1)])
  finally show ?thesis
    by (simp add: pos_le_divide_eq)
qed

lemma round_even_le: "y \<le> of_int n \<Longrightarrow> round_even y \<le> n"
  using round_even_mono[of y "of_int n"] by simp

lemma round_even_ge: "of_int n \<le> y \<Longrightarrow> n \<le> round_even y"
  using round_even_mono[of "of_int n" y] by simp

lemma rd_le_top:
  assumes "0 \<le> x"
  shows "rd x \<le> 2 powr (of_int (exponent x) + 1)"
proof -
  have "x / ulp x \<le> of_int (2 ^ 53)"
    using scaled_upper[OF assms] by simp
  then have "round_even (x / ulp x) \<le> 2 ^ 53" by (rule round_even_le)
  then have "real_of_int (round_even (x / ulp x)) \<le> 2 ^ 53"
    by (metis of_int_le_iff of_int_numeral of_int_power)
  then have "rd x \<le> 2 ^ 53 * ulp x"
    by (simp add: rd_def)
  also have "\<dots> = 2 powr (of_int (exponent x) + 1)"
    by (simp only: ulp_times_53)
  finally show ?thesis .
qed

lemma rd_ge_bottom:
  assumes "0 < x" and "- 1022 \<le> \<lfloor>log 2 x\<rfloor>"
  shows "2 powr of_int (exponent x) \<le> rd x"
proof -
  have "of_int (2 ^ 52) \<le> x / ulp x"
    using scaled_lower[OF assms] by simp
  then have "2 ^ 52 \<le> round_even (x / ulp x)" by (rule round_even_ge)
  then have "2 ^ 52 \<le> real_of_int (round_even (x / ulp x))"
    by (metis of_int_le_iff of_int_numeral of_int_power)
  then have "2 ^ 52 * ulp x \<le> rd x"
    by (simp add: rd_def)
  then show ?thesis by (simp only: ulp_times_52)
qed

lemma rd_mono_nonneg:
  assumes "0 \<le> x" "x \<le> y"
  shows "rd x \<le> rd y"
proof (cases "x = 0")
  case True
  then show ?thesis using rd_nonneg[of y] assms by simp
next
  case False
  with assms have pos: "0 < x" "0 < y" by simp_all
  have "log 2 x \<le> log 2 y" using pos assms(2) by simp
  then have fl: "\<lfloor>log 2 x\<rfloor> \<le> \<lfloor>log 2 y\<rfloor>" by (rule floor_mono)
  then have ee: "exponent x \<le> exponent y"
    using pos by (simp add: exponent_def)
  show ?thesis
  proof (cases "exponent x = exponent y")
    case True
    then have u: "ulp x = ulp y" by (simp add: ulp_def)
    have "x / ulp y \<le> y / ulp y" using assms(2) by (simp add: divide_right_mono less_imp_le)
    then have "round_even (x / ulp y) \<le> round_even (y / ulp y)" by (rule round_even_mono)
    then show ?thesis by (simp add: rd_def u less_imp_le)
  next
    case False
    with ee have lt: "exponent x + 1 \<le> exponent y" by simp
    then have "- 1022 < exponent y" using exponent_min[of x] by simp
    then have n: "- 1022 \<le> \<lfloor>log 2 y\<rfloor>"
      using pos by (simp add: exponent_def max_def split: if_splits)
    have "rd x \<le> 2 powr (of_int (exponent x) + 1)" by (rule rd_le_top[OF assms(1)])
    also have "\<dots> \<le> 2 powr of_int (exponent y)"
      using lt by (simp add: powr_mono flip: of_int_add)
    also have "\<dots> \<le> rd y" by (rule rd_ge_bottom[OF pos(2) n])
    finally show ?thesis .
  qed
qed

lemma rd_mono:
  assumes "x \<le> y"
  shows "rd x \<le> rd y"
proof (cases "0 \<le> x")
  case True
  then show ?thesis using assms by (rule rd_mono_nonneg)
next
  case False
  show ?thesis
  proof (cases "y \<le> 0")
    case True
    then have "rd (- y) \<le> rd (- x)" using assms by (intro rd_mono_nonneg) simp_all
    then show ?thesis by (simp add: rd_minus)
  next
    case y: False
    have "rd x \<le> 0" using False by (intro rd_nonpos) simp
    moreover have "0 \<le> rd y" using y by (intro rd_nonneg) simp
    ultimately show ?thesis by simp
  qed
qed

text \<open>Representable numbers are fixed.\<close>

lemma rd_fix:
  assumes "x = of_int n * 2 powr of_int j" and "\<bar>n\<bar> < 2 ^ 53" and "- 1074 \<le> j"
  shows "rd x = x"
proof (cases "n = 0")
  case True
  then show ?thesis using assms by simp
next
  case False
  then have ax: "\<bar>x\<bar> = of_int \<bar>n\<bar> * 2 powr of_int j" and pos: "0 < \<bar>x\<bar>"
    using assms(1) by (simp_all add: abs_mult)
  have "real_of_int \<bar>n\<bar> < 2 ^ 53"
    using assms(2) by (metis of_int_less_iff of_int_numeral of_int_power)
  then have "\<bar>x\<bar> < 2 ^ 53 * 2 powr of_int j"
    unfolding ax by (simp)
  also have "\<dots> = 2 powr (of_int (52 + j) + 1)"
    by (simp add: powr_add)
  finally have up: "\<bar>x\<bar> < 2 powr (of_int (52 + j) + 1)" .
  have "(2::real) powr of_int \<lfloor>log 2 \<bar>x\<bar>\<rfloor> \<le> \<bar>x\<bar>" by (rule binade(1)[OF pos])
  also note up
  finally have "(2::real) powr of_int \<lfloor>log 2 \<bar>x\<bar>\<rfloor> < 2 powr (of_int (52 + j) + 1)" .
  then have "of_int \<lfloor>log 2 \<bar>x\<bar>\<rfloor> < (of_int (52 + j) + 1 :: real)" by simp
  then have "\<lfloor>log 2 \<bar>x\<bar>\<rfloor> < 52 + j + 1" by linarith
  then have "exponent x - 52 \<le> j"
    using assms(3) by (simp add: exponent_def)
  then obtain k :: nat where k: "j = exponent x - 52 + int k"
    by (metis add.commute diff_ge_0_iff_ge nonneg_int_cases diff_add_cancel)
  have "2 powr of_int j = 2 powr (of_int (exponent x - 52) + real k)"
    by (simp add: k)
  also have "\<dots> = 2 powr real k * 2 powr of_int (exponent x - 52)"
    by (simp only: powr_add mult.commute)
  finally have u: "2 powr of_int j = 2 ^ k * ulp x"
    by (simp add: ulp_def powr_realpow)
  have x: "x = of_int n * (2 ^ k * ulp x)"
    unfolding u[symmetric] by (rule assms(1))
  have "x / ulp x = of_int n * (2 ^ k * ulp x) / ulp x"
    by (subst x) (rule refl)
  also have "\<dots> = of_int (n * 2 ^ k)" by simp
  finally have "round_even (x / ulp x) = n * 2 ^ k" by (simp only: round_even_of_int)
  then have "rd x = of_int n * (2 ^ k * ulp x)"
    unfolding rd_def by simp
  then show ?thesis using x by simp
qed

lemma rd_of_int: "\<bar>n\<bar> < 2 ^ 53 \<Longrightarrow> rd (of_int n) = of_int n"
  by (rule rd_fix[where n = n and j = 0]) simp_all

lemma round_even_abs_le:
  assumes "\<bar>y\<bar> \<le> of_int n"
  shows "\<bar>round_even y\<bar> \<le> n"
proof -
  have "y \<le> of_int n" "of_int (- n) \<le> y" using assms by simp_all
  then have "round_even y \<le> n" "- n \<le> round_even y"
    by (simp_all only: round_even_le round_even_ge)
  then show ?thesis by simp
qed

lemma scaled_abs_upper: "\<bar>x\<bar> / ulp x < 2 ^ 53"
  using scaled_upper[of "\<bar>x\<bar>"] by (simp add: ulp_def exponent_def)

lemma round_even_scaled: "\<bar>round_even (x / ulp x)\<bar> \<le> 2 ^ 53"
proof -
  have "\<bar>x / ulp x\<bar> \<le> of_int (2 ^ 53)"
    using scaled_abs_upper[of x] by (simp add: abs_divide less_imp_le)
  then show ?thesis by (rule round_even_abs_le)
qed

lemma rd_idem: "rd (rd x) = rd x"
proof (cases "\<bar>round_even (x / ulp x)\<bar> < 2 ^ 53")
  case True
  show ?thesis
    by (rule rd_fix[where n = "round_even (x / ulp x)" and j = "exponent x - 52"])
       (use True exponent_min[of x] in \<open>simp_all add: rd_def ulp_def\<close>)
next
  case False
  with round_even_scaled[of x] have "\<bar>round_even (x / ulp x)\<bar> = 2 ^ 53" by simp
  then consider "round_even (x / ulp x) = 2 ^ 53" | "round_even (x / ulp x) = - (2 ^ 53)"
    by (auto simp: abs_if split: if_splits)
  then show ?thesis
  proof cases
    case 1
    have "rd x = of_int (2 ^ 53) * ulp x"
      unfolding rd_def 1 by (rule refl)
    also have "\<dots> = of_int (2 ^ 52) * 2 powr of_int (exponent x - 51)"
      by (simp add: ulp_def powr_diff)
    finally show ?thesis
      by (rule rd_fix) (use exponent_min[of x] in simp_all)
  next
    case 2
    have "rd x = of_int (- (2 ^ 53)) * ulp x"
      unfolding rd_def 2 by (rule refl)
    also have "\<dots> = of_int (- (2 ^ 52)) * 2 powr of_int (exponent x - 51)"
      by (simp add: ulp_def powr_diff)
    finally show ?thesis
      by (rule rd_fix) (use exponent_min[of x] in simp_all)
  qed
qed

lemma abs_rd_le:
  assumes "\<bar>x\<bar> \<le> b" and "rd b = b"
  shows "\<bar>rd x\<bar> \<le> b"
proof -
  have "rd x \<le> rd b" using assms(1) by (intro rd_mono) simp
  moreover have "rd (- b) \<le> rd x" using assms(1) by (intro rd_mono) simp
  ultimately show ?thesis using assms(2) by (simp add: rd_minus)
qed

lemma rd_MAX_VALUE: "rd MAX_VALUE = MAX_VALUE"
  by (rule rd_fix[where n = "2 ^ 53 - 1" and j = 971]) (simp_all add: MAX_VALUE_def)

lemma round_double_bounded:
  assumes "\<bar>x\<bar> \<le> MAX_VALUE"
  shows "round_double x = Fin (rd x)"
  using abs_rd_le[OF assms rd_MAX_VALUE] by (auto simp: round_double_def abs_le_iff)

lemma round_double_of_int:
  assumes "\<bar>n\<bar> < 2 ^ 53"
  shows "round_double (of_int n) = Fin (of_int n)"
proof -
  have "real_of_int \<bar>n\<bar> < 2 ^ 53"
    using assms by (metis of_int_less_iff of_int_numeral of_int_power)
  then have "\<bar>real_of_int n\<bar> \<le> MAX_VALUE" by (simp add: MAX_VALUE_def)
  then show ?thesis by (simp add: round_double_bounded rd_of_int[OF assms])
qed

text \<open>Evaluation on a number whose binade is known.\<close>

lemma rd_eval:
  assumes "2 ^ 52 \<le> \<bar>x\<bar> * 2 ^ k" and "\<bar>x\<bar> * 2 ^ k < 2 ^ 53" and "k \<le> 1074"
  shows "rd x = of_int (round_even (x * 2 ^ k)) / 2 ^ k"
proof -
  have pos: "0 < \<bar>x\<bar>" using assms(1) by (cases "x = 0") simp_all
  have p: "(2::real) powr (of_int (52 - int k)) = 2 ^ 52 / 2 ^ k"
    by (simp add: powr_diff powr_realpow)
  have q: "(2::real) powr (of_int (52 - int k) + 1) = 2 ^ 53 / 2 ^ k"
    by (simp add: powr_diff powr_add powr_realpow)
  have "2 powr (of_int (52 - int k)) \<le> \<bar>x\<bar>" "\<bar>x\<bar> < 2 powr (of_int (52 - int k) + 1)"
    unfolding p q using assms(1,2) by (simp_all add: field_simps)
  then have "\<lfloor>log 2 \<bar>x\<bar>\<rfloor> = 52 - int k"
    using floor_log_eq_powr_iff[of "\<bar>x\<bar>" 2 "52 - int k"] pos by simp
  then have "exponent x = 52 - int k"
    using assms(3) by (simp add: exponent_def)
  then have "ulp x = 1 / 2 ^ k"
    by (simp add: ulp_def powr_minus powr_realpow divide_inverse)
  then show ?thesis by (simp add: rd_def)
qed

lemma round_double_eval:
  assumes "2 ^ 52 \<le> \<bar>x\<bar> * 2 ^ k" and "\<bar>x\<bar> * 2 ^ k < 2 ^ 53" and "k \<le> 1074"
  shows "round_double x = Fin (of_int (round_even (x * 2 ^ k)) / 2 ^ k)"
proof -
  have "\<bar>x\<bar> * 2 ^ k \<le> 2 ^ 53 * 2 ^ k"
    using assms(2) by (intro order_trans[OF less_imp_le[OF assms(2)]]) simp
  then have "\<bar>x\<bar> \<le> 2 ^ 53" by simp
  then have "\<bar>x\<bar> \<le> MAX_VALUE" by (simp add: MAX_VALUE_def)
  then show ?thesis by (simp add: round_double_bounded rd_eval[OF assms])
qed

lemma round_double_zero [simp]: "round_double 0 = Fin 0"
  by (simp add: round_double_def MAX_VALUE_def)



text \<open>
  The values that the operations return: the special values and the doubles up to
  \<open>MAX_VALUE\<close>. Adding zero to one of them changes nothing.
\<close>

lemma round_double_cases:
  obtains (fin) "round_double x = Fin (rd x)" "\<bar>rd x\<bar> \<le> MAX_VALUE"
  | (pinf) "round_double x = PInf" "0 < x"
  | (ninf) "round_double x = NInf" "x < 0"
proof (cases "rd x > MAX_VALUE")
  case True
  have "0 \<le> MAX_VALUE" by (simp add: MAX_VALUE_def)
  with True have "0 < rd x" by simp
  then have "0 < x" using rd_nonpos[of x] by (cases "0 < x") simp_all
  with True show ?thesis by (intro pinf) (simp_all add: round_double_def)
next
  case False
  show ?thesis
  proof (cases "rd x < - MAX_VALUE")
    case True
    have "0 \<le> MAX_VALUE" by (simp add: MAX_VALUE_def)
    with True have "rd x < 0" by simp
    then have "x < 0" using rd_nonneg[of x] by (cases "x < 0") simp_all
    with True False show ?thesis by (intro ninf) (simp_all add: round_double_def)
  next
    case f: False
    with False show ?thesis by (intro fin) (simp_all add: round_double_def abs_le_iff)
  qed
qed

lemma is_double_round_double [simp]: "is_double (round_double x)"
  by (cases x rule: round_double_cases) (simp_all add: is_double_def rd_idem)

lemma round_double_fix: "rd a = a \<Longrightarrow> \<bar>a\<bar> \<le> MAX_VALUE \<Longrightarrow> round_double a = Fin a"
  by (simp add: round_double_bounded)

lemma is_double_jadd [simp]: "is_double (jadd x y)"
  by (cases x; cases y) (simp_all add: is_double_def[of PInf] is_double_def[of NInf]
      is_double_def[of NaN])

lemma jadd_zero: "is_double x \<Longrightarrow> jadd x (Fin 0) = x"
  by (cases x) (simp_all add: is_double_def round_double_fix)


lemma round_double_ge_one: "1 \<le> x \<Longrightarrow> round_double x = PInf \<or> (\<exists>y. round_double x = Fin y \<and> 1 \<le> y)"
proof -
  assume x: "1 \<le> x"
  then have "rd 1 \<le> rd x" by (rule rd_mono)
  moreover have "rd 1 = 1" using rd_of_int[of 1] by simp
  ultimately show ?thesis using x by (cases x rule: round_double_cases) simp_all
qed

lemma round_double_nonpos: "x \<le> 0 \<Longrightarrow> round_double x = NInf \<or> (\<exists>y. round_double x = Fin y \<and> y \<le> 0)"
  using rd_nonpos[of x] by (cases x rule: round_double_cases) simp_all

text \<open>The integers of the source are doubles.\<close>

lemma round_double_numeral [simp]:
  "numeral n < (2 ^ 53 :: int) \<Longrightarrow> round_double (numeral n) = Fin (numeral n)"
  using round_double_of_int[of "numeral n"] by simp

lemma round_double_neg_numeral [simp]:
  "numeral n < (2 ^ 53 :: int) \<Longrightarrow> round_double (- numeral n) = Fin (- numeral n)"
  using round_double_of_int[of "- numeral n"] by simp

lemma round_double_one [simp]: "round_double 1 = Fin 1"
  using round_double_of_int[of 1] by simp

section \<open>The RSI\<close>

lemma length_with_prev: "length (with_prev f xs) = length xs - 1"
  by (simp add: with_prev_def)

lemma nth_with_prev: "i < length xs - 1 \<Longrightarrow> with_prev f xs ! i = f (xs ! (i + 1)) (xs ! i)"
  by (simp add: with_prev_def nth_tl)

lemma slice_last_with_prev:
  assumes "n + 1 \<le> length xs"
  shows "slice_last n (map h (with_prev f xs)) =
         map (\<lambda>i. h (f (xs ! (i + 1)) (xs ! i))) [length xs - (n + 1)..<length xs - 1]"
proof (rule nth_equalityI)
  show "length (slice_last n (map h (with_prev f xs))) =
        length (map (\<lambda>i. h (f (xs ! (i + 1)) (xs ! i))) [length xs - (n + 1)..<length xs - 1])"
    using assms by (simp add: slice_last_def length_with_prev)
next
  fix i assume "i < length (slice_last n (map h (with_prev f xs)))"
  then have i: "i < n" using assms by (simp add: slice_last_def length_with_prev)
  have "slice_last n (map h (with_prev f xs)) ! i = h (with_prev f xs ! (length xs - 1 - n + i))"
    using i assms by (simp add: slice_last_def length_with_prev)
  also have "\<dots> = h (f (xs ! (length xs - 1 - n + i + 1)) (xs ! (length xs - 1 - n + i)))"
    using i assms by (subst nth_with_prev) auto
  finally show "slice_last n (map h (with_prev f xs)) ! i =
        map (\<lambda>i. h (f (xs ! (i + 1)) (xs ! i))) [length xs - (n + 1)..<length xs - 1] ! i"
    using i assms by (simp add: algebra_simps)
qed

text \<open>The code computes the RSI of the specification.\<close>

lemma rsi_of_closes_spec: "rsi_of_closes closes = spec_rsi closes"
proof (cases "length closes < 15")
  case True
  then show ?thesis by (simp add: rsi_of_closes_def spec_rsi_def RSI_PERIOD_def)
next
  case False
  then have len: "14 + 1 \<le> length closes" by simp
  have g: "jdiv (jsum (slice_last 14 (map (\<lambda>c. if jlt (Fin 0) c then c else Fin 0)
                (with_prev (\<lambda>c p. jsub c p) closes)))) (Fin 14) = spec_avg_gain closes"
    unfolding slice_last_with_prev[OF len] spec_avg_gain_def
    by (simp add: spec_gain_def[abs_def] Let_def cong del: if_weak_cong)
  have l: "jdiv (jsum (slice_last 14 (map (\<lambda>c. if jlt c (Fin 0) then jneg c else Fin 0)
                (with_prev (\<lambda>c p. jsub c p) closes)))) (Fin 14) = spec_avg_loss closes"
    unfolding slice_last_with_prev[OF len] spec_avg_loss_def
    by (simp add: spec_loss_def[abs_def] Let_def cong del: if_weak_cong)
  show ?thesis
    using False g l by (simp add: rsi_of_closes_def spec_rsi_def RSI_PERIOD_def Let_def)
qed






















lemma bounded_by_Fin [simp]: "bounded_by b (Fin a) \<longleftrightarrow> 0 \<le> a \<and> a \<le> b"
  by (simp add: bounded_by_def)




lemma length_closes_of [simp]: "length (closes_of ohlcv) = length ohlcv"
  by (simp add: closes_of_def)

lemma nth_closes_of:
  "i < length ohlcv \<Longrightarrow> closes_of ohlcv ! i = parseFloat (Fin (close (ohlcv ! i)))"
  by (simp add: closes_of_def)



text \<open>A flat window has neither gains nor losses.\<close>

lemma flat_gain_loss:
  "(if jlt (Fin 0) (jsub p p) then jsub p p else Fin 0) = Fin 0"
  "(if jlt (jsub p p) (Fin 0) then jneg (jsub p p) else Fin 0) = Fin 0"
  by (cases p; simp add: jsub_def)+

lemma jsum_zeros: "list_all (\<lambda>x. x = Fin 0) xs \<Longrightarrow> jsum xs = Fin 0"
proof -
  have "list_all (\<lambda>x. x = Fin 0) xs \<Longrightarrow> foldl jadd (Fin 0) xs = Fin 0"
    by (induction xs) simp_all
  then show "list_all (\<lambda>x. x = Fin 0) xs \<Longrightarrow> jsum xs = Fin 0" by (simp add: jsum_def)
qed

lemma spec_rsi_flat:
  assumes "list_all (\<lambda>candle. close candle = k) ohlcv"
  shows "spec_rsi (closes_of ohlcv) = Fin 50"
proof -
  let ?cl = "closes_of ohlcv"
  have eq: "?cl ! i = parseFloat (Fin k)" if "i < length ohlcv" for i
    using assms that by (simp add: nth_closes_of list_all_length)
  have z: "spec_gain ?cl i = Fin 0 \<and> spec_loss ?cl i = Fin 0" if "i + 1 < length ohlcv" for i
  proof -
    have 1: "?cl ! i = parseFloat (Fin k)" "?cl ! (i + 1) = parseFloat (Fin k)"
      using that by (simp_all add: eq)
    show ?thesis
      unfolding spec_gain_def spec_loss_def Let_def 1 flat_gain_loss by simp
  qed
  have "list_all (\<lambda>x. x = Fin 0) (map (spec_gain ?cl) [length ?cl - 15..<length ?cl - 1])"
       "list_all (\<lambda>x. x = Fin 0) (map (spec_loss ?cl) [length ?cl - 15..<length ?cl - 1])"
    using z by (auto simp: list_all_iff)
  then have "spec_avg_gain ?cl = Fin 0" "spec_avg_loss ?cl = Fin 0"
    by (simp_all add: spec_avg_gain_def spec_avg_loss_def jsum_zeros)
  then show ?thesis by (simp add: spec_rsi_def)
qed

text \<open>
  The RSI on four windows: thirteen flat closes followed by a rise of 11 and a fall of 9
  (gains 11, losses 9); a rise of 1 and a fall of 199, where \<open>100 - 100 / (1 + RS)\<close>
  is 0.5 in the reals and just below it in doubles; a rise of 1.41 and a fall of 0.59,
  where it is 70.5 in the reals and just below it in doubles; and a steady rise.
\<close>

lemma rsi_examples:
  "calculateRSI_of (Inr (candles_of [100, 100, 100, 100, 100, 100, 100, 100, 100, 100, 100, 100, 100, 111, 102] 1)) = Fin 55"
  "calculateRSI_of (Inr (candles_of [300, 300, 300, 300, 300, 300, 300, 300, 300, 300, 300, 300, 300, 301, 102] 1)) = Fin 0"
  "calculateRSI_of (Inr (candles_of [100, 100, 100, 100, 100, 100, 100, 100, 100, 100, 100, 100, 100, 10141 / 100, 10082 / 100] 1)) = Fin 70"
  "calculateRSI_of (Inr (candles_of [100, 101, 102, 103, 104, 105, 106, 107, 108, 109, 110, 111, 112, 113, 114] 1)) = Fin 100"
  by (simp_all add: calculateRSI_of_def rsi_of_closes_def closes_of_def candles_of_def
      parseFloat_def RSI_PERIOD_def with_prev_def slice_last_def jsum_def jsub_def round_def round_even_def
      round_double_eval[where k = 44] round_double_eval[where k = 45]
      round_double_eval[where k = 46] round_double_eval[where k = 47]
      round_double_eval[where k = 48] round_double_eval[where k = 49]
      round_double_eval[where k = 50] round_double_eval[where k = 51]
      round_double_eval[where k = 52] round_double_eval[where k = 53]
      round_double_eval[where k = 54] round_double_eval[where k = 56]
      round_double_eval[where k = 57] round_double_eval[where k = 60])



section \<open>Compression and volatility\<close>











section \<open>Short windows and failed fetches\<close>

lemma jdiv_one: "is_double x \<Longrightarrow> jdiv x (Fin 1) = x"
  by (cases x) (simp_all add: is_double_def round_double_fix inf_of_sign_def)

lemma is_double_parseFloat [simp]: "is_double (parseFloat (Fin v))"
  by (simp add: parseFloat_def)

lemma volumeRatio_empty_history:
  assumes "is_double x"
  shows "calculateVolumeRatio_of (Inr []) x = toFixed 2 x"
  using jdiv_one[OF assms]
  by (simp add: calculateVolumeRatio_of_def volumeRatio_of_ohlcv_def inf_of_sign_def)

text \<open>
  Claim C3, as amended. On a window shorter than its lookback \<open>calculateChange\<close>
  returns 0, \<open>calculateRSI\<close> returns 50 and \<open>calculateCompression\<close> returns false;
  on an empty history \<open>calculateVolumeRatio\<close> divides by 1 and returns the current
  volume to two decimals; on a failed fetch the five functions return 0, 50, 1, false
  and 10. No exception leaves any of them: every outcome of the fetch has a value.
\<close>

theorem indicator_defaults:
  "(length ohlcv < 2 \<longrightarrow> calculateChange_of (Inr ohlcv) = Fin 0) \<and>
   (length ohlcv < 15 \<longrightarrow> calculateRSI_of (Inr ohlcv) = Fin 50) \<and>
   (length ohlcv < 2 \<longrightarrow> calculateCompression_of (Inr ohlcv) = False) \<and>
   calculateVolumeRatio_of (Inr []) (parseFloat (Fin v)) = toFixed 2 (parseFloat (Fin v)) \<and>
   (is_double currentVolume \<longrightarrow>
      calculateVolumeRatio_of (Inr []) currentVolume = toFixed 2 currentVolume) \<and>
   calculateChange_of (Inl err) = Fin 0 \<and>
   calculateRSI_of (Inl err) = Fin 50 \<and>
   calculateVolumeRatio_of (Inl err) currentVolume = Fin 1 \<and>
   calculateCompression_of (Inl err) = False \<and>
   calculateVolatility_of (Inl err) = Fin 10"
proof -
  have change: "length ohlcv < 2 \<longrightarrow> calculateChange_of (Inr ohlcv) = Fin 0"
    by (simp add: calculateChange_of_def change_of_ohlcv_def)
  have rsi: "length ohlcv < 15 \<longrightarrow> calculateRSI_of (Inr ohlcv) = Fin 50"
    by (simp add: calculateRSI_of_def rsi_of_closes_def closes_of_def RSI_PERIOD_def)
  have "pct_changes (closes_of ohlcv) = []" if "length ohlcv < 2"
    using that by (cases ohlcv) (simp_all add: pct_changes_def with_prev_def closes_of_def)
  then have compression: "length ohlcv < 2 \<longrightarrow> calculateCompression_of (Inr ohlcv) = False"
    by (simp add: calculateCompression_of_def stdDev_of_def jsum_def inf_of_sign_def)
  have ratio: "calculateVolumeRatio_of (Inr []) (parseFloat (Fin v)) = toFixed 2 (parseFloat (Fin v))"
    by (rule volumeRatio_empty_history) (rule is_double_parseFloat)
  have ratio': "is_double currentVolume \<longrightarrow>
      calculateVolumeRatio_of (Inr []) currentVolume = toFixed 2 currentVolume"
    by (simp add: volumeRatio_empty_history)
  have failed: "calculateChange_of (Inl err) = Fin 0" "calculateRSI_of (Inl err) = Fin 50"
    "calculateVolumeRatio_of (Inl err) currentVolume = Fin 1"
    "calculateCompression_of (Inl err) = False" "calculateVolatility_of (Inl err) = Fin 10"
    by (simp_all add: calculateChange_of_def calculateRSI_of_def calculateVolumeRatio_of_def
        calculateCompression_of_def calculateVolatility_of_def)
  show ?thesis
    using change rsi compression ratio ratio' failed by blast
qed

theorem indicator_defaults_witness:
  "length [\<lparr>close = 100, volume = 1\<rparr>] < 2 \<and>
   calculateChange_of (Inr [\<lparr>close = 100, volume = 1\<rparr>]) = Fin 0 \<and>
   calculateRSI_of (Inr [\<lparr>close = 100, volume = 1\<rparr>]) = Fin 50 \<and>
   calculateCompression_of (Inr [\<lparr>close = 100, volume = 1\<rparr>]) = False \<and>
   is_double (Fin 5) \<and>
   calculateVolumeRatio_of (Inr []) (Fin 5) = Fin 5 \<and>
   calculateVolatility_of (Inl FetchError) = Fin 10"
proof -
  have "toFixed_real 2 5 = 5" by (simp add: toFixed_real_def)
  moreover have "is_double (Fin 5)"
    using is_double_round_double[of 5] by simp
  ultimately show ?thesis
    using indicator_defaults[of "[\<lparr>close = 100, volume = 1\<rparr>]" 5 "Fin 5" FetchError]
    by simp
qed

text \<open>
  The claim as stated fails: on fewer than two candles \<open>calculateVolatility\<close> returns
  the string of NaN, not its fallback 10, and on an empty history
  \<open>calculateVolumeRatio\<close> with current volume 5 returns 5, not 1.
\<close>

theorem volatility_and_ratio_short_window_counterexample:
  "calculateVolatility_of (Inr []) = NaN \<and>
   calculateVolatility_of (Inr [\<lparr>close = 100, volume = 1\<rparr>]) = NaN \<and>
   calculateVolatility_of (Inr []) \<noteq> Fin 10 \<and>
   calculateVolumeRatio_of (Inr []) (Fin 5) = Fin 5 \<and>
   calculateVolumeRatio_of (Inr []) (Fin 5) \<noteq> Fin 1"
  by (simp add: calculateVolatility_of_def calculateVolumeRatio_of_def volumeRatio_of_ohlcv_def
      stdDev_of_def pct_changes_def with_prev_def closes_of_def jsum_def inf_of_sign_def
      toFixed_real_def)

section \<open>Sorting\<close>

text \<open>
  The comparator \<open>b.score - a.score\<close> orders integer scores as \<open>>=\<close> does: the
  rounded difference of two different integers is at least 1 in magnitude.
\<close>

lemma set_insert_sorted: "set (insert_sorted compare x ys) = insert x (set ys)"
  by (induction ys) auto

lemma length_insert_sorted: "length (insert_sorted compare x ys) = Suc (length ys)"
  by (induction ys) auto

lemma set_js_sort: "set (js_sort compare xs) = set xs"
  unfolding js_sort_def by (induction xs) (simp_all add: set_insert_sorted)

lemma length_js_sort: "length (js_sort compare xs) = length xs"
  unfolding js_sort_def by (induction xs) (simp_all add: length_insert_sorted)

lemma jge_trans: "jge a b \<Longrightarrow> jge b c \<Longrightarrow> jge a c"
  by (cases a; cases b; cases c) simp_all

lemma jlt_round_double_pos: "jlt (Fin 0) (round_double x) \<Longrightarrow> 0 < x"
  using round_double_nonpos[of x] by (cases "0 < x") auto

lemma jlt_round_double_ge_one: "1 \<le> x \<Longrightarrow> jlt (Fin 0) (round_double x)"
  using round_double_ge_one[of x] by auto

lemma jsub_positive_jge: "jlt (Fin 0) (jsub b a) \<Longrightarrow> jge b a"
proof (cases a; cases b)
  fix x y assume "a = Fin x" "b = Fin y" "jlt (Fin 0) (jsub b a)"
  then show "jge b a" using jlt_round_double_pos[of "y + - x"] by (simp add: jsub_def)
qed (simp_all add: jsub_def)

lemma jsub_not_positive_jge:
  assumes "\<not> jlt (Fin 0) (jsub b a)" and "jintegral a" and "jintegral b"
  shows "jge a b"
proof (cases a; cases b)
  fix x y assume ab: "a = Fin x" "b = Fin y"
  with assms(2,3) obtain m n where mn: "x = of_int m" "y = of_int n"
    by (auto simp: jintegral_def)
  have "n \<le> m"
  proof (rule ccontr)
    assume "\<not> n \<le> m"
    then have "1 \<le> n - m" by simp
    then have "(1 :: real) \<le> of_int n + - of_int m"
      by (metis of_int_1 of_int_diff of_int_le_iff uminus_add_conv_diff add.commute)
    from jlt_round_double_ge_one[OF this] assms(1) show False
      by (simp add: ab mn jsub_def)
  qed
  then show "jge a b" by (simp add: ab mn)
qed (use assms in \<open>simp_all add: jsub_def jintegral_def\<close>)

lemma sorted_insert_sorted:
  assumes "sorted_wrt (\<lambda>a b. jge (score a) (score b)) ys"
    and "jintegral (score x)" and "\<forall>y \<in> set ys. jintegral (score y)"
  shows "sorted_wrt (\<lambda>a b. jge (score a) (score b))
           (insert_sorted (\<lambda>a b. jsub (score b) (score a)) x ys)"
  using assms
proof (induction ys)
  case Nil
  then show ?case by simp
next
  case (Cons y ys)
  show ?case
  proof (cases "jlt (Fin 0) (jsub (score y) (score x))")
    case True
    then have "jge (score y) (score x)" by (rule jsub_positive_jge)
    with True Cons show ?thesis by (auto simp: set_insert_sorted)
  next
    case False
    then have xy: "jge (score x) (score y)"
      using Cons.prems by (intro jsub_not_positive_jge) auto
    then have "\<forall>z \<in> set ys. jge (score x) (score z)"
      using Cons.prems(1) by (auto intro: jge_trans)
    with False xy Cons.prems(1) show ?thesis by simp
  qed
qed

lemma sorted_js_sort:
  assumes "\<forall>x \<in> set xs. jintegral (score x)"
  shows "sorted_wrt (\<lambda>a b. jge (score a) (score b))
           (js_sort (\<lambda>a b. jsub (score b) (score a)) xs)"
  using assms unfolding js_sort_def
proof (induction xs)
  case Nil
  then show ?case by simp
next
  case (Cons x xs)
  have "\<forall>y \<in> set (foldr (insert_sorted (\<lambda>a b. jsub (score b) (score a))) xs []). jintegral (score y)"
    using Cons.prems set_js_sort[of "\<lambda>a b. jsub (score b) (score a)" xs]
    by (simp add: js_sort_def)
  with Cons show ?case by (simp add: sorted_insert_sorted)
qed

lemma sorted_wrt_take: "sorted_wrt P xs \<Longrightarrow> sorted_wrt P (take n xs)"
  by (metis append_take_drop_id sorted_wrt_append)

lemma ranked_top:
  assumes "\<forall>x \<in> set xs. jintegral (score x)"
  shows "ranked score (take TOP_RESULTS (js_sort (\<lambda>a b. jsub (score b) (score a)) xs))"
  unfolding ranked_def using sorted_js_sort[OF assms] by (simp add: sorted_wrt_take)

lemma jintegral_jround: "jround x \<noteq> NaN \<Longrightarrow> jintegral (jround x)"
  by (cases x) (simp_all add: jintegral_def)

section \<open>The stores under the fetches\<close>

lemma shortCache_attempt [simp]: "shortCache (attempt w rq st) = shortCache st"
  by (simp add: attempt_def)

lemma longCache_attempt [simp]: "longCache (attempt w rq st) = longCache st"
  by (simp add: attempt_def)

lemma caches_fetchData:
  "shortCache (snd (fetchData w respond rq retries st)) = shortCache st \<and>
   longCache (snd (fetchData w respond rq retries st)) = longCache st"
  by (induction retries arbitrary: st) (simp_all add: Let_def split: sum.splits)

lemma shortCache_fetchData [simp]:
  "shortCache (snd (fetchData w respond rq retries st)) = shortCache st"
  by (simp add: caches_fetchData)

lemma shortCache_fetchKlines [simp]:
  "shortCache (snd (fetchKlines w symb iv limit startTime st)) = shortCache st"
  by (simp add: fetchKlines_def)

lemma shortCache_calculateChange [simp]:
  "shortCache (snd (calculateChange w symb iv st)) = shortCache st"
  by (simp add: calculateChange_def split: prod.splits)
     (metis shortCache_fetchKlines snd_conv)

lemma shortCache_calculateRSI [simp]:
  "shortCache (snd (calculateRSI w symb st)) = shortCache st"
  by (simp add: calculateRSI_def split: prod.splits)
     (metis shortCache_fetchKlines snd_conv)

lemma shortCache_calculateVolumeRatio [simp]:
  "shortCache (snd (calculateVolumeRatio w symb v st)) = shortCache st"
  by (simp add: calculateVolumeRatio_def Let_def split: prod.splits)
     (metis shortCache_fetchKlines snd_conv)

lemma shortCache_calculateCompression [simp]:
  "shortCache (snd (calculateCompression w symb st)) = shortCache st"
  by (simp add: calculateCompression_def split: prod.splits)
     (metis shortCache_fetchKlines snd_conv)

lemma shortCache_calculateVolatility [simp]:
  "shortCache (snd (calculateVolatility w symb st)) = shortCache st"
  by (simp add: calculateVolatility_def split: prod.splits)
     (metis shortCache_fetchKlines snd_conv)

lemma shortCache_fetch_indicators [simp]:
  "shortCache (snd (fetch_indicators w symb vol st)) = shortCache st"
proof -
  obtain c5 st1 where 1: "calculateChange w symb I5m st = (c5, st1)" by force
  obtain c1 st2 where 2: "calculateChange w symb I1h st1 = (c1, st2)" by force
  obtain r st3 where 3: "calculateRSI w symb st2 = (r, st3)" by force
  obtain vr st4 where 4: "calculateVolumeRatio w symb vol st3 = (vr, st4)" by force
  obtain comp st5 where 5: "calculateCompression w symb st4 = (comp, st5)" by force
  obtain vola st6 where 6: "calculateVolatility w symb st5 = (vola, st6)" by force
  have "shortCache st6 = shortCache st"
    using shortCache_calculateChange[of w symb I5m st] shortCache_calculateChange[of w symb I1h st1]
      shortCache_calculateRSI[of w symb st2] shortCache_calculateVolumeRatio[of w symb vol st3]
      shortCache_calculateCompression[of w symb st4] shortCache_calculateVolatility[of w symb st5]
    by (simp add: 1 2 3 4 5 6)
  then show ?thesis by (simp add: fetch_indicators_def 1 2 3 4 5 6)
qed

lemma shortCache_getNewListings [simp]:
  "shortCache (snd (getNewListings w st)) = shortCache st"
proof -
  obtain l st1 where f: "fetchData w (exchangeInfo w) ExchangeInfo 2 st = (l, st1)" by force
  have "shortCache st1 = shortCache st"
    using shortCache_fetchData[of w "exchangeInfo w" ExchangeInfo 2 st] by (simp add: f)
  then show ?thesis
    by (simp add: getNewListings_def f Let_def split: option.splits sum.splits)
qed


section \<open>The loops\<close>

lemma explosion_visit_cases:
  obtains (skip) "fst (explosion_visit w nl t cands st) = cands"
  | (push) c where "fst (explosion_visit w nl t cands st) = cands @ [c]" "candidate_ok c"
      "c_symbol c = symbol t"
proof (cases "fst (explosion_visit w nl t cands st) = cands")
  case True
  then show ?thesis by (rule skip)
next
  case False
  obtain ind st1 where f: "fetch_indicators w (symbol t) (parseFloat (Fin (baseVolume t))) st = (ind, st1)" by force
  let ?c5 = "parseFloat (change5m ind)"
  let ?c1 = "parseFloat (change1h ind)"
  let ?vr = "parseFloat (volumeRatio ind)"
  let ?score = "explosionScore ?c5 ?c1 ?vr (rsi ind) (symbol t \<in> set nl) (compression ind)"
  from False have el: "endsWith (symbol t) ''USDT''" "symbol t \<notin> POPULAR_TOKENS"
    and vol: "\<not> jlt (parseFloat (Fin (baseVolume t))) (Fin MIN_VOLUME_EXPLOSION)"
    and adm: "explosion_admitted ?c5 ?c1 ?vr (rsi ind) ?score"
    by (auto simp: explosion_visit_def Let_def f split: if_splits)
  then obtain c where c: "fst (explosion_visit w nl t cands st) = cands @ [c]"
    "c_symbol c = symbol t" "c_volume c = parseFloat (Fin (baseVolume t))"
    "c_change_5m c = ?c5" "c_change_1h c = ?c1"
    "c_volumeRatio c = ?vr" "c_rsi c = rsi ind" "c_isNew c = (symbol t \<in> set nl)"
    "c_explosionScore c = ?score"
    "action (c_recommendation c) = (if jge ?score (Fin 80) then COMPRA_FUERTE else MONITOREAR)"
    by (simp add: explosion_visit_def Let_def f)
  have "candidate_ok c"
    unfolding candidate_ok_def c using el vol adm by (cases "compression ind") simp_all
  with c(1,2) show ?thesis by (intro push)
qed

lemma shortCache_explosion_visit [simp]:
  "shortCache (snd (explosion_visit w nl t cands st)) = shortCache st"
proof -
  obtain ind st1 where f: "fetch_indicators w (symbol t) (parseFloat (Fin (baseVolume t))) st = (ind, st1)" by force
  have "shortCache st1 = shortCache st"
    using shortCache_fetch_indicators[of w "symbol t" "parseFloat (Fin (baseVolume t))" st] by (simp add: f)
  then show ?thesis by (simp add: explosion_visit_def Let_def f)
qed

lemma explosion_loop_ok:
  "list_all candidate_ok cands \<Longrightarrow>
   list_all candidate_ok (fst (explosion_loop w nl ts cands st)) \<and>
   shortCache (snd (explosion_loop w nl ts cands st)) = shortCache st"
proof (induction ts arbitrary: cands st)
  case Nil
  then show ?case by simp
next
  case (Cons t ts)
  obtain cands1 st1 where v: "explosion_visit w nl t cands st = (cands1, st1)" by force
  have "list_all candidate_ok cands1"
    using Cons.prems v by (cases rule: explosion_visit_cases[of w nl t cands st]) simp_all
  moreover have "shortCache st1 = shortCache st"
    using shortCache_explosion_visit[of w nl t cands st] by (simp add: v)
  ultimately show ?case using Cons.IH[of cands1 st1] by (simp add: v)
qed


lemma alert_visit_cases:
  obtains (skip) "fst (alert_visit w nl t alerts st) = alerts"
  | (push) a where "fst (alert_visit w nl t alerts st) = alerts @ [a]" "alert_ok a"
      "a_symbol a = symbol t"
proof (cases "fst (alert_visit w nl t alerts st) = alerts")
  case True
  then show ?thesis by (rule skip)
next
  case False
  obtain ind st1 where f: "fetch_indicators w (symbol t) (parseFloat (Fin (baseVolume t))) st = (ind, st1)" by force
  let ?c5 = "parseFloat (change5m ind)"
  let ?c1 = "parseFloat (change1h ind)"
  let ?vr = "parseFloat (volumeRatio ind)"
  let ?score = "alertScore ?c5 ?c1 ?vr (rsi ind) (symbol t \<in> set nl) (compression ind)"
  from False have el: "endsWith (symbol t) ''USDT''" "symbol t \<notin> POPULAR_TOKENS"
    and vol: "\<not> jlt (parseFloat (Fin (baseVolume t))) (Fin MIN_VOLUME_REGULAR)"
    and adm: "alert_admitted ?c5 ?c1 ?vr ?score"
    by (auto simp: alert_visit_def Let_def f split: if_splits)
  then obtain a where a: "fst (alert_visit w nl t alerts st) = alerts @ [a]"
    "a_symbol a = symbol t" "a_volume a = parseFloat (Fin (baseVolume t))"
    "a_change_5m a = ?c5" "a_change_1h a = ?c1"
    "a_volumeRatio a = ?vr" "a_rsi a = rsi ind" "a_compression a = compression ind"
    "a_alertScore a = ?score"
    "action (a_recommendation a) =
       (if jge ?score (Fin 80) then POSIBLE_EXPLOSION
        else if jge ?score (Fin 60) then MONITOREAR else EVITAR)"
    by (simp add: alert_visit_def Let_def f)
  have "alert_ok a"
    unfolding alert_ok_def a using el vol adm by (cases "symbol t \<in> set nl") simp_all
  with a(1,2) show ?thesis by (intro push)
qed

lemma shortCache_alert_visit [simp]:
  "shortCache (snd (alert_visit w nl t alerts st)) = shortCache st"
proof -
  obtain ind st1 where f: "fetch_indicators w (symbol t) (parseFloat (Fin (baseVolume t))) st = (ind, st1)" by force
  have "shortCache st1 = shortCache st"
    using shortCache_fetch_indicators[of w "symbol t" "parseFloat (Fin (baseVolume t))" st] by (simp add: f)
  then show ?thesis by (simp add: alert_visit_def Let_def f)
qed

lemma alert_loop_ok:
  "list_all alert_ok alerts \<Longrightarrow>
   list_all alert_ok (fst (alert_loop w nl ts alerts st)) \<and>
   shortCache (snd (alert_loop w nl ts alerts st)) = shortCache st"
proof (induction ts arbitrary: alerts st)
  case Nil
  then show ?case by simp
next
  case (Cons t ts)
  obtain alerts1 st1 where v: "alert_visit w nl t alerts st = (alerts1, st1)" by force
  have "list_all alert_ok alerts1"
    using Cons.prems v by (cases rule: alert_visit_cases[of w nl t alerts st]) simp_all
  moreover have "shortCache st1 = shortCache st"
    using shortCache_alert_visit[of w nl t alerts st] by (simp add: v)
  ultimately show ?case using Cons.IH[of alerts1 st1] by (simp add: v)
qed

section \<open>The handlers\<close>

lemma jge_not_NaN: "jge x y \<Longrightarrow> x \<noteq> NaN"
  by (cases x; cases y) simp_all

lemma candidate_ok_score:
  assumes "candidate_ok c"
  shows "jintegral (c_explosionScore c)"
proof -
  from assms have "c_explosionScore c \<noteq> NaN"
    by (auto simp: candidate_ok_def explosion_admitted_def dest: jge_not_NaN)
  moreover from assms obtain x where "c_explosionScore c = jround x"
    by (auto simp: candidate_ok_def explosionScore_def)
  ultimately show ?thesis by (simp add: jintegral_jround)
qed

lemma alert_ok_score:
  assumes "alert_ok a"
  shows "jintegral (a_alertScore a)"
proof -
  from assms have "a_alertScore a \<noteq> NaN"
    by (auto simp: alert_ok_def alert_admitted_def dest: jge_not_NaN)
  moreover from assms obtain x where "a_alertScore a = jround x"
    by (auto simp: alert_ok_def alertScore_def)
  ultimately show ?thesis by (simp add: jintegral_jround)
qed

lemma list_all_take: "list_all P xs \<Longrightarrow> list_all P (take n xs)"
  by (auto simp: list_all_iff dest: in_set_takeD)

lemma topCandidates_eq:
  "topCandidates cands =
     take TOP_RESULTS (js_sort (\<lambda>a b. jsub (c_explosionScore b) (c_explosionScore a)) cands)"
  by (simp add: topCandidates_def Let_def)

lemma topAlerts_eq:
  "topAlerts alerts =
     take TOP_RESULTS (js_sort (\<lambda>a b. jsub (a_alertScore b) (a_alertScore a)) alerts)"
  by (simp add: topAlerts_def Let_def)

lemma top_candidates_ok:
  assumes "list_all candidate_ok cands"
  shows "explosion_body_ok (Candidates (topCandidates cands))"
proof -
  have "\<forall>c \<in> set cands. jintegral (c_explosionScore c)"
    using assms by (auto simp: list_all_iff candidate_ok_score)
  then have "ranked c_explosionScore (take TOP_RESULTS
           (js_sort (\<lambda>a b. jsub (c_explosionScore b) (c_explosionScore a)) cands))"
    by (rule ranked_top)
  moreover have "list_all candidate_ok
           (js_sort (\<lambda>a b. jsub (c_explosionScore b) (c_explosionScore a)) cands)"
    using assms by (simp add: list_all_iff set_js_sort)
  ultimately show ?thesis by (simp add: list_all_take topCandidates_eq topAlerts_eq)
qed

lemma top_alerts_ok:
  assumes "list_all alert_ok alerts"
  shows "alert_body_ok (Alerts (topAlerts alerts))"
proof -
  have "\<forall>a \<in> set alerts. jintegral (a_alertScore a)"
    using assms by (auto simp: list_all_iff alert_ok_score)
  then have "ranked a_alertScore (take TOP_RESULTS
           (js_sort (\<lambda>a b. jsub (a_alertScore b) (a_alertScore a)) alerts))"
    by (rule ranked_top)
  moreover have "list_all alert_ok
           (js_sort (\<lambda>a b. jsub (a_alertScore b) (a_alertScore a)) alerts)"
    using assms by (simp add: list_all_iff set_js_sort)
  ultimately show ?thesis by (simp add: list_all_take topCandidates_eq topAlerts_eq)
qed

text \<open>The miss path of a screening handler, with its intermediate results named.\<close>

lemma explosion_candidates_miss:
  assumes "cache_get (shortCache st) (clock st) ''explosionCandidates'' = None"
    and "fetchData w (ticker24hr w) Ticker24hr 2 st = (tickerData, st1)"
    and "getNewListings w st1 = (nl, st2)"
  shows "tickerData = Inl err \<Longrightarrow>
           explosion_candidates w st = (Status500 ''Internal server error'', st2)"
    and "tickerData = Inr tickers \<Longrightarrow>
           explosion_loop w nl (take MAX_CANDIDATES tickers) [] st2 = (cands, st3) \<Longrightarrow>
           explosion_candidates w st =
             (Json (Candidates (topCandidates cands)),
              st3\<lparr>shortCache := cache_set (shortCache st3) (clock st3) CACHE_SHORT_TTL
                 ''explosionCandidates'' (Candidates (topCandidates cands))\<rparr>)"
  using assms by (simp_all add: explosion_candidates_def Let_def)


lemma pre_explosion_signals_miss:
  assumes "cache_get (shortCache st) (clock st) ''preExplosionSignals'' = None"
    and "fetchData w (ticker24hr w) Ticker24hr 2 st = (tickerData, st1)"
    and "getNewListings w st1 = (nl, st2)"
  shows "tickerData = Inl err \<Longrightarrow>
           pre_explosion_signals w st = (Status500 ''Internal server error'', st2)"
    and "tickerData = Inr tickers \<Longrightarrow>
           alert_loop w nl (take MAX_CANDIDATES tickers) [] st2 = (alerts, st3) \<Longrightarrow>
           pre_explosion_signals w st =
             (Json (Alerts (topAlerts alerts)),
              st3\<lparr>shortCache := cache_set (shortCache st3) (clock st3) CACHE_SHORT_TTL
                 ''preExplosionSignals'' (Alerts (topAlerts alerts))\<rparr>)"
  using assms by (simp_all add: pre_explosion_signals_def Let_def)

lemma cache_get_SomeD: "cache_get c now key = Some v \<Longrightarrow> \<exists>expiry. c key = Some (v, expiry)"
  by (auto simp: cache_get_def split: option.splits if_splits)

lemma explosion_candidates_ok:
  assumes "shortCache_ok st"
  shows "explosion_response_ok (fst (explosion_candidates w st)) \<and>
         shortCache_ok (snd (explosion_candidates w st))"
proof (cases "cache_get (shortCache st) (clock st) ''explosionCandidates''")
  case (Some b)
  from cache_get_SomeD[OF this] assms have "explosion_body_ok b"
    by (auto simp: shortCache_ok_def)
  then show ?thesis using Some assms by (simp add: explosion_candidates_def)
next
  case None
  obtain tickerData st1 where f: "fetchData w (ticker24hr w) Ticker24hr 2 st = (tickerData, st1)"
    by force
  obtain nl st2 where g: "getNewListings w st1 = (nl, st2)" by force
  have sc2: "shortCache st2 = shortCache st"
    using shortCache_fetchData[of w "ticker24hr w" Ticker24hr 2 st]
      shortCache_getNewListings[of w st1] by (simp add: f g)
  show ?thesis
  proof (cases tickerData)
    case (Inl err)
    from explosion_candidates_miss(1)[OF None f g Inl] show ?thesis
      using assms sc2 by (simp add: shortCache_ok_def)
  next
    case (Inr tickers)
    obtain cands st3 where l: "explosion_loop w nl (take MAX_CANDIDATES tickers) [] st2 = (cands, st3)"
      by force
    have "list_all candidate_ok cands" and sc3: "shortCache st3 = shortCache st"
      using explosion_loop_ok[of "[]" w nl "take MAX_CANDIDATES tickers" st2] sc2
      by (simp_all add: l)
    from top_candidates_ok[OF this(1)] explosion_candidates_miss(2)[OF None f g Inr l] show ?thesis
      using assms sc3 by (simp add: shortCache_ok_def cache_set_def)
  qed
qed

lemma pre_explosion_signals_ok:
  assumes "shortCache_ok st"
  shows "alert_response_ok (fst (pre_explosion_signals w st)) \<and>
         shortCache_ok (snd (pre_explosion_signals w st))"
proof (cases "cache_get (shortCache st) (clock st) ''preExplosionSignals''")
  case (Some b)
  from cache_get_SomeD[OF this] assms have "alert_body_ok b"
    by (auto simp: shortCache_ok_def)
  then show ?thesis using Some assms by (simp add: pre_explosion_signals_def)
next
  case None
  obtain tickerData st1 where f: "fetchData w (ticker24hr w) Ticker24hr 2 st = (tickerData, st1)"
    by force
  obtain nl st2 where g: "getNewListings w st1 = (nl, st2)" by force
  have sc2: "shortCache st2 = shortCache st"
    using shortCache_fetchData[of w "ticker24hr w" Ticker24hr 2 st]
      shortCache_getNewListings[of w st1] by (simp add: f g)
  show ?thesis
  proof (cases tickerData)
    case (Inl err)
    from pre_explosion_signals_miss(1)[OF None f g Inl] show ?thesis
      using assms sc2 by (simp add: shortCache_ok_def)
  next
    case (Inr tickers)
    obtain alerts st3 where l: "alert_loop w nl (take MAX_CANDIDATES tickers) [] st2 = (alerts, st3)"
      by force
    have "list_all alert_ok alerts" and sc3: "shortCache st3 = shortCache st"
      using alert_loop_ok[of "[]" w nl "take MAX_CANDIDATES tickers" st2] sc2
      by (simp_all add: l)
    from top_alerts_ok[OF this(1)] pre_explosion_signals_miss(2)[OF None f g Inr l] show ?thesis
      using assms sc3 by (simp add: shortCache_ok_def cache_set_def)
  qed
qed

lemma shortCache_top_gainers [simp]: "shortCache (snd (top_gainers w st)) = shortCache st"
proof -
  obtain d st1 where f: "fetchData w (ticker24hr w) Ticker24hr 2 st = (d, st1)" by force
  have "shortCache st1 = shortCache st"
    using shortCache_fetchData[of w "ticker24hr w" Ticker24hr 2 st] by (simp add: f)
  then show ?thesis by (simp add: top_gainers_def f Let_def split: sum.splits)
qed

lemma shortCache_new_listings [simp]: "shortCache (snd (new_listings w st)) = shortCache st"
proof -
  obtain l st1 where g: "getNewListings w st = (l, st1)" by force
  then show ?thesis
    using shortCache_getNewListings[of w st] by (simp add: new_listings_def)
qed

lemma shortCache_analysis_of [simp]: "shortCache (snd (analysis_of w param st)) = shortCache st"
proof -
  obtain d st1 where f: "fetchData w (\<lambda>n. ticker24hrOf w n (toUpperCase param))
      (Ticker24hrOf (toUpperCase param)) 2 st = (d, st1)" by force
  have 1: "shortCache st1 = shortCache st"
    using shortCache_fetchData[of w "\<lambda>n. ticker24hrOf w n (toUpperCase param)"
        "Ticker24hrOf (toUpperCase param)" 2 st] by (simp add: f)
  show ?thesis
  proof (cases d)
    case (Inl err)
    then show ?thesis using 1 by (simp add: analysis_of_def f Let_def)
  next
    case (Inr t)
    obtain ind st2 where i: "fetch_indicators w (toUpperCase param)
        (parseFloat (Fin (baseVolume t))) st1 = (ind, st2)"
      by force
    have "shortCache st2 = shortCache st"
      using shortCache_fetch_indicators[of w "toUpperCase param"
          "parseFloat (Fin (baseVolume t))" st1] 1
      by (simp add: i)
    then show ?thesis using Inr by (simp add: analysis_of_def f i Let_def)
  qed
qed

lemma shortCache_ok_cong: "shortCache st' = shortCache st \<Longrightarrow> shortCache_ok st \<Longrightarrow> shortCache_ok st'"
  by (simp add: shortCache_ok_def)

lemma handle_ok:
  assumes "shortCache_ok st"
  shows "shortCache_ok (handle w e st)"
proof (cases e)
  case (Wait d)
  have "shortCache (handle w (Wait d) st) = shortCache st" by simp
  from shortCache_ok_cong[OF this assms] Wait show ?thesis by simp
next
  case GetTopGainers
  have "shortCache (handle w GetTopGainers st) = shortCache st" by simp
  from shortCache_ok_cong[OF this assms] GetTopGainers show ?thesis by simp
next
  case GetExplosionCandidates
  then show ?thesis using explosion_candidates_ok[OF assms, of w] by simp
next
  case GetPreExplosionSignals
  then show ?thesis using pre_explosion_signals_ok[OF assms, of w] by simp
next
  case GetNewListings
  have "shortCache (handle w GetNewListings st) = shortCache st" by simp
  from shortCache_ok_cong[OF this assms] GetNewListings show ?thesis by simp
next
  case (GetAnalysis param)
  have "shortCache (handle w (GetAnalysis param) st) = shortCache st" by simp
  from shortCache_ok_cong[OF this assms] GetAnalysis show ?thesis by simp
qed

lemma run_snoc: "run w t0 (events @ [e]) = handle w e (run w t0 events)"
  by (simp add: run_def)

lemma run_ok: "shortCache_ok (run w t0 events)"
proof (induction events rule: rev_induct)
  case Nil
  show ?case by (simp add: run_def initial_state_def shortCache_ok_def)
next
  case (snoc e events)
  then show ?case by (simp add: run_snoc handle_ok)
qed

section \<open>The endpoints on the example exchange\<close>

lemma fst_fetchData_const: "fst (fetchData w (\<lambda>n. outcome) rq retries st) = outcome"
  by (induction retries arbitrary: st; cases outcome) (simp_all add: Let_def)

lemma fst_calculateChange:
  "fst (calculateChange w symb iv st) =
     calculateChange_of (fst (fetchKlines w symb iv (Some 2) None st))"
  by (simp add: calculateChange_def case_prod_beta)

lemma fst_calculateRSI:
  "fst (calculateRSI w symb st) =
     calculateRSI_of (fst (fetchKlines w symb I5m (Some (RSI_PERIOD + 1)) None st))"
  by (simp add: calculateRSI_def case_prod_beta)

lemma fst_calculateVolumeRatio:
  "fst (calculateVolumeRatio w symb v st) =
     calculateVolumeRatio_of
       (fst (fetchKlines w symb I1d None
          (Some (clock st - VOLUME_LOOKBACK_DAYS * 24 * 60 * 60 * 1000)) st)) v"
  by (simp add: calculateVolumeRatio_def case_prod_beta Let_def)

lemma fst_calculateCompression:
  "fst (calculateCompression w symb st) =
     calculateCompression_of (fst (fetchKlines w symb I5m (Some 20) None st))"
  by (simp add: calculateCompression_def case_prod_beta)

lemma fst_calculateVolatility:
  "fst (calculateVolatility w symb st) =
     calculateVolatility_of (fst (fetchKlines w symb I5m (Some 20) None st))"
  by (simp add: calculateVolatility_def case_prod_beta)

lemma fst_fetchKlines_demo:
  "fst (fetchKlines demo_world symb iv limit startTime st) = demo_klines symb iv limit"
  by (simp add: fetchKlines_def demo_world_def fst_fetchData_const)

lemma fst_fetch_indicators_demo:
  "fst (fetch_indicators demo_world symb vol st) =
     \<lparr>change5m = calculateChange_of (demo_klines symb I5m (Some 2)),
      change1h = calculateChange_of (demo_klines symb I1h (Some 2)),
      rsi = calculateRSI_of (demo_klines symb I5m (Some 15)),
      volumeRatio = calculateVolumeRatio_of (demo_klines symb I1d None) vol,
      compression = calculateCompression_of (demo_klines symb I5m (Some 20)),
      volatility = calculateVolatility_of (demo_klines symb I5m (Some 20))\<rparr>"
proof -
  obtain c5 st1 where 1: "calculateChange demo_world symb I5m st = (c5, st1)" by force
  obtain c1 st2 where 2: "calculateChange demo_world symb I1h st1 = (c1, st2)" by force
  obtain r st3 where 3: "calculateRSI demo_world symb st2 = (r, st3)" by force
  obtain vr st4 where 4: "calculateVolumeRatio demo_world symb vol st3 = (vr, st4)" by force
  obtain comp st5 where 5: "calculateCompression demo_world symb st4 = (comp, st5)" by force
  obtain vola st6 where 6: "calculateVolatility demo_world symb st5 = (vola, st6)" by force
  show ?thesis
    using fst_calculateChange[of demo_world symb I5m st] fst_calculateChange[of demo_world symb I1h st1]
      fst_calculateRSI[of demo_world symb st2] fst_calculateVolumeRatio[of demo_world symb vol st3]
      fst_calculateCompression[of demo_world symb st4] fst_calculateVolatility[of demo_world symb st5]
    by (simp add: fetch_indicators_def 1 2 3 4 5 6 fst_fetchKlines_demo RSI_PERIOD_def)
qed

lemma demo_flat_stdDev:
  "stdDev_of (pct_changes (closes_of (candles_of [100, 100, 100, 100, 100, 100, 100, 100, 100, 100,
                              100, 100, 100, 100, 100, 100, 100, 100, 100, 100] 1))) = Fin 0"
  by (simp add: candles_of_def closes_of_def parseFloat_def stdDev_of_def pct_changes_def
      with_prev_def jsum_def jsub_def jpow2_def)

text \<open>
  The percent changes of the example, and a change that the rounding decides: from 200
  to 200.01 the change is 0.005 in the reals, which prints as 0.01, but the close 200.01
  is read as a double just below it, and the change prints as 0.00.
\<close>

lemma demo_changes:
  "calculateChange_of (Inr (candles_of [100, 104] 1)) = Fin 4"
  "calculateChange_of (Inr (candles_of [100, 105] 1)) = Fin 5"
  "calculateChange_of (Inr (candles_of [100, 103] 1)) = Fin 3"
  "calculateChange_of (Inr (candles_of [200, 20001 / 100] 1)) = Fin 0"
  by (simp_all add: candles_of_def calculateChange_of_def change_of_ohlcv_def parseFloat_def
      jsub_def toFixed_real_def round_even_def
      round_double_eval[where k = 45] round_double_eval[where k = 46]
      round_double_eval[where k = 50] round_double_eval[where k = 51]
      round_double_eval[where k = 57] round_double_eval[where k = 58]
      round_double_eval[where k = 59] round_double_eval[where k = 60]
      round_double_eval[where k = 67])

lemma demo_volumeRatios:
  "calculateVolumeRatio_of (Inr (candles_of [1] 30000)) (Fin 60000) = Fin 2"
  "calculateVolumeRatio_of (Inr (candles_of [1] 30000)) (Fin 45000) = Fin (3 / 2)"
  by (simp_all add: candles_of_def calculateVolumeRatio_of_def volumeRatio_of_ohlcv_def
      parseFloat_def toFixed_real_def round_even_def
      round_double_eval[where k = 37] round_double_eval[where k = 38]
      round_double_eval[where k = 51] round_double_eval[where k = 52])

lemma demo_indicators_xyz:
  "fst (fetch_indicators demo_world ''XYZUSDT'' (Fin 60000) st) =
     \<lparr>change5m = Fin 4, change1h = Fin 5, rsi = Fin 55, volumeRatio = Fin 2,
      compression = True, volatility = Fin 0\<rparr>"
proof -
  have "calculateChange_of (demo_klines ''XYZUSDT'' I5m (Some 2)) = Fin 4"
       "calculateChange_of (demo_klines ''XYZUSDT'' I1h (Some 2)) = Fin 5"
    by (simp_all add: demo_klines_def demo_changes)
  moreover have "calculateRSI_of (demo_klines ''XYZUSDT'' I5m (Some 15)) = Fin 55"
    by (simp add: demo_klines_def rsi_examples(1))
  moreover have "calculateVolumeRatio_of (demo_klines ''XYZUSDT'' I1d None) (Fin 60000) = Fin 2"
    by (simp add: demo_klines_def demo_volumeRatios)
  moreover have "calculateCompression_of (demo_klines ''XYZUSDT'' I5m (Some 20)) = True"
       "calculateVolatility_of (demo_klines ''XYZUSDT'' I5m (Some 20)) = Fin 0"
    by (simp_all add: demo_klines_def calculateCompression_of_def calculateVolatility_of_def
        demo_flat_stdDev COMPRESSION_THRESHOLD_def toFixed_real_def)
  ultimately show ?thesis by (simp add: fst_fetch_indicators_demo)
qed

lemma demo_indicators_low:
  "fst (fetch_indicators demo_world ''LOWUSDT'' (Fin 45000) st) =
     \<lparr>change5m = Fin 3, change1h = Fin 4, rsi = Fin 50, volumeRatio = Fin (3 / 2),
      compression = False, volatility = NaN\<rparr>"
proof -
  have "calculateChange_of (demo_klines ''LOWUSDT'' I5m (Some 2)) = Fin 3"
       "calculateChange_of (demo_klines ''LOWUSDT'' I1h (Some 2)) = Fin 4"
    by (simp_all add: demo_klines_def demo_changes)
  moreover have "calculateRSI_of (demo_klines ''LOWUSDT'' I5m (Some 15)) = Fin 50"
    by (simp add: demo_klines_def calculateRSI_of_def rsi_of_closes_spec
        spec_rsi_flat[of 100] candles_of_def)
  moreover have "calculateVolumeRatio_of (demo_klines ''LOWUSDT'' I1d None) (Fin 45000) = Fin (3 / 2)"
    by (simp add: demo_klines_def demo_volumeRatios)
  moreover have "calculateCompression_of (demo_klines ''LOWUSDT'' I5m (Some 20)) = False"
       "calculateVolatility_of (demo_klines ''LOWUSDT'' I5m (Some 20)) = NaN"
    by (simp_all add: demo_klines_def calculateCompression_of_def calculateVolatility_of_def
        stdDev_of_def pct_changes_def with_prev_def closes_of_def jsum_def inf_of_sign_def)
  ultimately show ?thesis by (simp add: fst_fetch_indicators_demo)
qed

lemma fst_explosion_loop_Cons:
  "fst (explosion_loop w nl (t # ts) cands st) =
     fst (explosion_loop w nl ts (fst (explosion_visit w nl t cands st))
            (snd (explosion_visit w nl t cands st)))"
  by (simp add: case_prod_beta)

lemma fst_alert_loop_Cons:
  "fst (alert_loop w nl (t # ts) alerts st) =
     fst (alert_loop w nl ts (fst (alert_visit w nl t alerts st))
            (snd (alert_visit w nl t alerts st)))"
  by (simp add: case_prod_beta)

lemma demo_scores:
  "explosionScore (Fin 4) (Fin 5) (Fin 2) (Fin 55) False True = Fin 55"
  "explosionScore (Fin 3) (Fin 4) (Fin (3 / 2)) (Fin 50) False False = Fin 42"
  "alertScore (Fin 4) (Fin 5) (Fin 2) (Fin 55) False True = Fin 70"
  "alertScore (Fin 3) (Fin 4) (Fin (3 / 2)) (Fin 50) False False = Fin 42"
  "analysisScore (Fin 4) (Fin 5) (Fin 2) (Fin 55) True = Fin 35"
  by (simp_all add: explosionScore_def alertScore_def analysisScore_def lit_def jle_def
      RSI_MIN_def RSI_MAX_def round_def round_even_def
      round_double_eval[where k = 46] round_double_eval[where k = 47]
      round_double_eval[where k = 48] round_double_eval[where k = 49]
      round_double_eval[where k = 50] round_double_eval[where k = 51]
      round_double_eval[where k = 54] round_double_eval[where k = 55]
      round_double_eval[where k = 56])

text \<open>
  The numbers read from the example tickers and indicators, and the prices printed by
  \<open>toFixed(8)\<close>, with the fractions in lowest terms.
\<close>

lemma demo_parsed:
  "parseFloat (Fin 1) = Fin 1" "parseFloat (Fin 2) = Fin 2" "parseFloat (Fin 3) = Fin 3"
  "parseFloat (Fin 4) = Fin 4" "parseFloat (Fin 5) = Fin 5"
  "parseFloat (Fin (3 / 2)) = Fin (3 / 2)"
  "parseFloat (Fin 100) = Fin 100" "parseFloat (Fin 45000) = Fin 45000"
  "parseFloat (Fin 60000) = Fin 60000" "parseFloat (Fin 900000) = Fin 900000"
  by (simp_all add: parseFloat_def round_even_def round_double_eval[where k = 52])

lemma demo_prices:
  "toFixed 8 (jmul (Fin 2) (lit (97 / 100))) = Fin (97 / 50)"
  "toFixed 8 (jmul (Fin 2) (lit (21 / 20))) = Fin (21 / 10)"
  "toFixed 8 (jmul (Fin 2) (lit (5 / 4))) = Fin (5 / 2)"
  "toFixed 8 (jmul (Fin 2) (lit (19 / 20))) = Fin (19 / 10)"
  "toFixed 8 (jmul (Fin 2) (lit (28 / 25))) = Fin (56 / 25)"
  "toFixed 8 (jmul (Fin 2) (lit (23 / 25))) = Fin (46 / 25)"
  "toFixed 8 (jmul (Fin 1) (lit (97 / 100))) = Fin (97 / 100)"
  "toFixed 8 (jmul (Fin 1) (lit (21 / 20))) = Fin (21 / 20)"
  "toFixed 8 (jmul (Fin 1) (lit (5 / 4))) = Fin (5 / 4)"
  "toFixed 8 (jmul (Fin 1) (lit (19 / 20))) = Fin (19 / 20)"
  "toFixed 8 (jmul (Fin 1) (lit (28 / 25))) = Fin (28 / 25)"
  "toFixed 8 (jmul (Fin 1) (lit (23 / 25))) = Fin (23 / 25)"
  by (simp_all add: lit_def toFixed_real_def round_even_def
      round_double_eval[where k = 51] round_double_eval[where k = 52]
      round_double_eval[where k = 53])

lemma demo_explosion_visit_xyz:
  "fst (explosion_visit demo_world [''NEWUSDT'']
          \<lparr>symbol = ''XYZUSDT'', lastPrice = 2, baseVolume = 60000, priceChangePercent = 8\<rparr>
          cands st) = cands @ [demo_xyz_candidate]"
  using demo_indicators_xyz[of st]
  by (simp add: explosion_visit_def case_prod_beta Let_def endsWith_def POPULAR_TOKENS_def
      MIN_VOLUME_EXPLOSION_def demo_parsed demo_prices demo_scores explosion_admitted_def
      RSI_MIN_def RSI_MAX_def jle_def
      MIN_GAIN_5M_def MIN_GAIN_1H_def MIN_VOLUME_RATIO_def MIN_EXPLOSION_SCORE_def
      demo_xyz_candidate_def toFixed_real_def)

lemma demo_explosion_visit_low:
  "fst (explosion_visit demo_world [''NEWUSDT'']
          \<lparr>symbol = ''LOWUSDT'', lastPrice = 1, baseVolume = 45000, priceChangePercent = 6\<rparr>
          cands st) = cands @ [demo_low_candidate]"
  using demo_indicators_low[of st]
  by (simp add: explosion_visit_def case_prod_beta Let_def endsWith_def POPULAR_TOKENS_def
      MIN_VOLUME_EXPLOSION_def demo_parsed demo_prices demo_scores explosion_admitted_def
      RSI_MIN_def RSI_MAX_def jle_def
      MIN_GAIN_5M_def MIN_GAIN_1H_def MIN_VOLUME_RATIO_def MIN_EXPLOSION_SCORE_def
      demo_low_candidate_def toFixed_real_def)

lemma demo_explosion_visit_skipped:
  "fst (explosion_visit demo_world nl
          \<lparr>symbol = ''ETHBTC'', lastPrice = 1 / 20, baseVolume = 90000, priceChangePercent = 1\<rparr>
          cands st) = cands"
  "fst (explosion_visit demo_world nl
          \<lparr>symbol = ''BTCUSDT'', lastPrice = 60000, baseVolume = 900000, priceChangePercent = 9\<rparr>
          cands st) = cands"
  "fst (explosion_visit demo_world nl
          \<lparr>symbol = ''TINYUSDT'', lastPrice = 3, baseVolume = 100, priceChangePercent = 50\<rparr>
          cands st) = cands"
  by (simp_all add: explosion_visit_def Let_def endsWith_def POPULAR_TOKENS_def
      MIN_VOLUME_EXPLOSION_def demo_parsed)

lemma demo_explosion_loop:
  "fst (explosion_loop demo_world [''NEWUSDT''] demo_tickers [] st) =
     [demo_low_candidate, demo_xyz_candidate]"
  unfolding demo_tickers_def
  by (simp only: fst_explosion_loop_Cons demo_explosion_visit_skipped demo_explosion_visit_low
      demo_explosion_visit_xyz explosion_loop.simps(1) fst_conv append_Nil append_Cons)

lemma demo_topCandidates:
  "topCandidates [demo_low_candidate, demo_xyz_candidate] = [demo_xyz_candidate, demo_low_candidate]"
  by (simp add: topCandidates_def js_sort_def Let_def TOP_RESULTS_def jsub_def
      demo_low_candidate_def demo_xyz_candidate_def)


lemma demo_alert_visit_xyz:
  "fst (alert_visit demo_world [''NEWUSDT'']
          \<lparr>symbol = ''XYZUSDT'', lastPrice = 2, baseVolume = 60000, priceChangePercent = 8\<rparr>
          alerts st) = alerts @ [demo_xyz_alert]"
  using demo_indicators_xyz[of st]
  by (simp add: alert_visit_def case_prod_beta Let_def endsWith_def POPULAR_TOKENS_def
      MIN_VOLUME_REGULAR_def demo_parsed demo_prices demo_scores alert_admitted_def
      MIN_GAIN_5M_def MIN_GAIN_1H_def MIN_VOLUME_RATIO_def MIN_ALERT_SCORE_def
      demo_xyz_alert_def toFixed_real_def)

lemma demo_alert_visit_low:
  "fst (alert_visit demo_world [''NEWUSDT'']
          \<lparr>symbol = ''LOWUSDT'', lastPrice = 1, baseVolume = 45000, priceChangePercent = 6\<rparr>
          alerts st) = alerts @ [demo_low_alert]"
  using demo_indicators_low[of st]
  by (simp add: alert_visit_def case_prod_beta Let_def endsWith_def POPULAR_TOKENS_def
      MIN_VOLUME_REGULAR_def demo_parsed demo_prices demo_scores alert_admitted_def
      MIN_GAIN_5M_def MIN_GAIN_1H_def MIN_VOLUME_RATIO_def MIN_ALERT_SCORE_def
      demo_low_alert_def toFixed_real_def)

lemma demo_alert_visit_skipped:
  "fst (alert_visit demo_world nl
          \<lparr>symbol = ''ETHBTC'', lastPrice = 1 / 20, baseVolume = 90000, priceChangePercent = 1\<rparr>
          alerts st) = alerts"
  "fst (alert_visit demo_world nl
          \<lparr>symbol = ''BTCUSDT'', lastPrice = 60000, baseVolume = 900000, priceChangePercent = 9\<rparr>
          alerts st) = alerts"
  "fst (alert_visit demo_world nl
          \<lparr>symbol = ''TINYUSDT'', lastPrice = 3, baseVolume = 100, priceChangePercent = 50\<rparr>
          alerts st) = alerts"
  by (simp_all add: alert_visit_def Let_def endsWith_def POPULAR_TOKENS_def
      MIN_VOLUME_REGULAR_def demo_parsed)

lemma demo_alert_loop:
  "fst (alert_loop demo_world [''NEWUSDT''] demo_tickers [] st) =
     [demo_low_alert, demo_xyz_alert]"
  unfolding demo_tickers_def
  by (simp only: fst_alert_loop_Cons demo_alert_visit_skipped demo_alert_visit_low
      demo_alert_visit_xyz alert_loop.simps(1) fst_conv append_Nil append_Cons)

lemma demo_topAlerts:
  "topAlerts [demo_low_alert, demo_xyz_alert] = [demo_xyz_alert, demo_low_alert]"
  by (simp add: topAlerts_def js_sort_def Let_def TOP_RESULTS_def jsub_def
      demo_low_alert_def demo_xyz_alert_def)

lemma longCache_fetchData [simp]:
  "longCache (snd (fetchData w respond rq retries st)) = longCache st"
  by (simp add: caches_fetchData)

lemma demo_getNewListings:
  assumes "cache_get (longCache st) (clock st) ''newListings'' = None"
  shows "fst (getNewListings demo_world st) = [''NEWUSDT'']"
proof -
  have "fst (fetchData demo_world (exchangeInfo demo_world) ExchangeInfo 2 st) =
          Inr [\<lparr>l_symbol = ''NEWUSDT'', onboardDate = 1700000000000\<rparr>]"
    by (simp add: demo_world_def fst_fetchData_const)
  then show ?thesis
    using assms
    by (simp add: getNewListings_def case_prod_beta Let_def endsWith_def POPULAR_TOKENS_def
        js_sort_def MAX_CANDIDATES_def)
qed

lemma fst_explosion_candidates_miss:
  assumes "cache_get (shortCache st) (clock st) ''explosionCandidates'' = None"
    and "fst (fetchData w (ticker24hr w) Ticker24hr 2 st) = Inr tickers"
  shows "fst (explosion_candidates w st) =
     Json (Candidates (topCandidates (fst (explosion_loop w
       (fst (getNewListings w (snd (fetchData w (ticker24hr w) Ticker24hr 2 st))))
       (take MAX_CANDIDATES tickers) []
       (snd (getNewListings w (snd (fetchData w (ticker24hr w) Ticker24hr 2 st))))))))"
  using assms by (simp add: explosion_candidates_def case_prod_beta Let_def)

lemma fst_pre_explosion_signals_miss:
  assumes "cache_get (shortCache st) (clock st) ''preExplosionSignals'' = None"
    and "fst (fetchData w (ticker24hr w) Ticker24hr 2 st) = Inr tickers"
  shows "fst (pre_explosion_signals w st) =
     Json (Alerts (topAlerts (fst (alert_loop w
       (fst (getNewListings w (snd (fetchData w (ticker24hr w) Ticker24hr 2 st))))
       (take MAX_CANDIDATES tickers) []
       (snd (getNewListings w (snd (fetchData w (ticker24hr w) Ticker24hr 2 st))))))))"
  using assms by (simp add: pre_explosion_signals_def case_prod_beta Let_def)

lemma take_demo_tickers: "take MAX_CANDIDATES demo_tickers = demo_tickers"
  by (simp add: MAX_CANDIDATES_def demo_tickers_def)

lemma demo_explosion_candidates:
  "fst (explosion_candidates demo_world (run demo_world 0 [])) =
     Json (Candidates [demo_xyz_candidate, demo_low_candidate])"
proof -
  let ?st = "initial_state 0"
  have miss: "cache_get (shortCache ?st) (clock ?st) ''explosionCandidates'' = None"
    by (simp add: initial_state_def cache_get_def)
  have tick: "fst (fetchData demo_world (ticker24hr demo_world) Ticker24hr 2 ?st) = Inr demo_tickers"
    by (simp add: demo_world_def fst_fetchData_const)
  have "cache_get (longCache (snd (fetchData demo_world (ticker24hr demo_world) Ticker24hr 2 ?st)))
          (clock (snd (fetchData demo_world (ticker24hr demo_world) Ticker24hr 2 ?st)))
          ''newListings'' = None"
    by (simp add: initial_state_def cache_get_def)
  from demo_getNewListings[OF this] show ?thesis
    by (simp add: run_def fst_explosion_candidates_miss[OF miss tick] take_demo_tickers
        demo_explosion_loop demo_topCandidates)
qed

lemma demo_pre_explosion_signals:
  "fst (pre_explosion_signals demo_world (run demo_world 0 [])) =
     Json (Alerts [demo_xyz_alert, demo_low_alert])"
proof -
  let ?st = "initial_state 0"
  have miss: "cache_get (shortCache ?st) (clock ?st) ''preExplosionSignals'' = None"
    by (simp add: initial_state_def cache_get_def)
  have tick: "fst (fetchData demo_world (ticker24hr demo_world) Ticker24hr 2 ?st) = Inr demo_tickers"
    by (simp add: demo_world_def fst_fetchData_const)
  have "cache_get (longCache (snd (fetchData demo_world (ticker24hr demo_world) Ticker24hr 2 ?st)))
          (clock (snd (fetchData demo_world (ticker24hr demo_world) Ticker24hr 2 ?st)))
          ''newListings'' = None"
    by (simp add: initial_state_def cache_get_def)
  from demo_getNewListings[OF this] show ?thesis
    by (simp add: run_def fst_pre_explosion_signals_miss[OF miss tick] take_demo_tickers
        demo_alert_loop demo_topAlerts)
qed

section \<open>Every response of the screening endpoints\<close>

text \<open>
  In every run of the server, a body returned by a screening endpoint, whether computed
  or taken from the short-lived store, is a ranked list of entries that passed the
  loop's conditions.
\<close>

lemma explosion_run_response:
  assumes "fst (explosion_candidates w (run w t0 events)) = Json b"
  obtains cs where "b = Candidates cs" "list_all candidate_ok cs" "ranked c_explosionScore cs"
proof -
  from explosion_candidates_ok[OF run_ok, of w w t0 events] assms
  have "explosion_body_ok b" by simp
  then show ?thesis using that by (cases b) simp_all
qed

lemma alert_run_response:
  assumes "fst (pre_explosion_signals w (run w t0 events)) = Json b"
  obtains as where "b = Alerts as" "list_all alert_ok as" "ranked a_alertScore as"
proof -
  from pre_explosion_signals_ok[OF run_ok, of w w t0 events] assms
  have "alert_body_ok b" by simp
  then show ?thesis using that by (cases b) simp_all
qed

lemma length_topCandidates: "length (topCandidates cands) \<le> TOP_RESULTS"
  by (simp add: topCandidates_eq)

lemma length_topAlerts: "length (topAlerts alerts) \<le> TOP_RESULTS"
  by (simp add: topAlerts_eq)

text \<open>
  Claim C6. Whatever the snapshot and its size, the lists returned by
  \<open>/api/explosion-candidates\<close> and \<open>/api/pre-explosion-signals\<close> have at most
  \<open>TOP_RESULTS\<close> = 10 entries, with scores descending; the list is sorted by score
  descending first and cut to its first 10 entries afterwards.
\<close>

theorem result_lists_ranked:
  "(\<forall>b. fst (explosion_candidates w (run w t0 events)) = Json b \<longrightarrow>
      (\<exists>cs. b = Candidates cs \<and> length cs \<le> TOP_RESULTS \<and>
            sorted_wrt (\<lambda>x y. jge (c_explosionScore x) (c_explosionScore y)) cs)) \<and>
   (\<forall>b. fst (pre_explosion_signals w (run w t0 events)) = Json b \<longrightarrow>
      (\<exists>as. b = Alerts as \<and> length as \<le> TOP_RESULTS \<and>
            sorted_wrt (\<lambda>x y. jge (a_alertScore x) (a_alertScore y)) as)) \<and>
   topCandidates candidates =
     take TOP_RESULTS
       (js_sort (\<lambda>x y. jsub (c_explosionScore y) (c_explosionScore x)) candidates) \<and>
   topAlerts alerts =
     take TOP_RESULTS (js_sort (\<lambda>x y. jsub (a_alertScore y) (a_alertScore x)) alerts) \<and>
   length (topCandidates candidates) \<le> TOP_RESULTS \<and>
   length (topAlerts alerts) \<le> TOP_RESULTS \<and>
   TOP_RESULTS = 10"
proof (intro conjI allI impI)
  fix b assume "fst (explosion_candidates w (run w t0 events)) = Json b"
  then obtain cs where "b = Candidates cs" "ranked c_explosionScore cs"
    by (rule explosion_run_response)
  then show "\<exists>cs. b = Candidates cs \<and> length cs \<le> TOP_RESULTS \<and>
            sorted_wrt (\<lambda>x y. jge (c_explosionScore x) (c_explosionScore y)) cs"
    by (simp add: ranked_def)
next
  fix b assume "fst (pre_explosion_signals w (run w t0 events)) = Json b"
  then obtain as where "b = Alerts as" "ranked a_alertScore as"
    by (rule alert_run_response)
  then show "\<exists>as. b = Alerts as \<and> length as \<le> TOP_RESULTS \<and>
            sorted_wrt (\<lambda>x y. jge (a_alertScore x) (a_alertScore y)) as"
    by (simp add: ranked_def)
qed (simp_all add: topCandidates_eq topAlerts_eq TOP_RESULTS_def)

theorem result_lists_ranked_witness:
  "fst (explosion_candidates demo_world (run demo_world 0 [])) =
     Json (Candidates [demo_xyz_candidate, demo_low_candidate]) \<and>
   length [demo_xyz_candidate, demo_low_candidate] \<le> TOP_RESULTS \<and>
   jge (c_explosionScore demo_xyz_candidate) (c_explosionScore demo_low_candidate) \<and>
   fst (pre_explosion_signals demo_world (run demo_world 0 [])) =
     Json (Alerts [demo_xyz_alert, demo_low_alert]) \<and>
   jge (a_alertScore demo_xyz_alert) (a_alertScore demo_low_alert) \<and>
   length (topCandidates (replicate 12 demo_xyz_candidate)) = 10"
proof -
  have "length (topCandidates (replicate 12 demo_xyz_candidate)) = 10"
    using result_lists_ranked[of demo_world 0 "[]" "replicate 12 demo_xyz_candidate" "[]"]
    by (simp add: length_js_sort)
  then show ?thesis
    using result_lists_ranked[of demo_world 0 "[]" "[]" "[]"]
    by (simp add: demo_explosion_candidates demo_pre_explosion_signals)
qed

text \<open>
  Claim C7. Every entry returned by the two screening endpoints has a symbol that ends
  with \<open>USDT\<close> and is not in \<open>POPULAR_TOKENS\<close>.
\<close>

theorem results_exclude_popular_tokens:
  "(\<forall>b. fst (explosion_candidates w (run w t0 events)) = Json b \<longrightarrow>
      (\<exists>cs. b = Candidates cs \<and>
         (\<forall>c \<in> set cs. endsWith (c_symbol c) ''USDT'' \<and> c_symbol c \<notin> POPULAR_TOKENS))) \<and>
   (\<forall>b. fst (pre_explosion_signals w (run w t0 events)) = Json b \<longrightarrow>
      (\<exists>as. b = Alerts as \<and>
         (\<forall>a \<in> set as. endsWith (a_symbol a) ''USDT'' \<and> a_symbol a \<notin> POPULAR_TOKENS)))"
proof (intro conjI allI impI)
  fix b assume "fst (explosion_candidates w (run w t0 events)) = Json b"
  then obtain cs where "b = Candidates cs" "list_all candidate_ok cs"
    by (rule explosion_run_response)
  then show "\<exists>cs. b = Candidates cs \<and>
         (\<forall>c \<in> set cs. endsWith (c_symbol c) ''USDT'' \<and> c_symbol c \<notin> POPULAR_TOKENS)"
    by (simp add: list_all_iff candidate_ok_def)
next
  fix b assume "fst (pre_explosion_signals w (run w t0 events)) = Json b"
  then obtain as where "b = Alerts as" "list_all alert_ok as"
    by (rule alert_run_response)
  then show "\<exists>as. b = Alerts as \<and>
         (\<forall>a \<in> set as. endsWith (a_symbol a) ''USDT'' \<and> a_symbol a \<notin> POPULAR_TOKENS)"
    by (simp add: list_all_iff alert_ok_def)
qed

theorem results_exclude_popular_tokens_witness:
  "fst (explosion_candidates demo_world (run demo_world 0 [])) =
     Json (Candidates [demo_xyz_candidate, demo_low_candidate]) \<and>
   fst (pre_explosion_signals demo_world (run demo_world 0 [])) =
     Json (Alerts [demo_xyz_alert, demo_low_alert]) \<and>
   list_all (\<lambda>c. endsWith (c_symbol c) ''USDT'' \<and> c_symbol c \<notin> POPULAR_TOKENS)
     [demo_xyz_candidate, demo_low_candidate] \<and>
   list_all (\<lambda>a. endsWith (a_symbol a) ''USDT'' \<and> a_symbol a \<notin> POPULAR_TOKENS)
     [demo_xyz_alert, demo_low_alert] \<and>
   ''BTCUSDT'' \<in> symbol ` set demo_tickers \<and> ''BTCUSDT'' \<in> POPULAR_TOKENS \<and>
   ''ETHBTC'' \<in> symbol ` set demo_tickers \<and> \<not> endsWith ''ETHBTC'' ''USDT''"
proof -
  have "''BTCUSDT'' \<in> symbol ` set demo_tickers \<and> ''BTCUSDT'' \<in> POPULAR_TOKENS \<and>
    ''ETHBTC'' \<in> symbol ` set demo_tickers \<and> \<not> endsWith ''ETHBTC'' ''USDT''"
    by (simp add: demo_tickers_def POPULAR_TOKENS_def endsWith_def)
  then show ?thesis
    using results_exclude_popular_tokens[of demo_world 0 "[]"]
    by (simp add: demo_explosion_candidates demo_pre_explosion_signals)
qed

section \<open>The explosion score\<close>

text \<open>
  The score expression of \<open>/api/explosion-candidates\<close> is the composite score of the
  scoring policy with the constants of the explosion-candidate scenario.
\<close>

lemma explosionScore_spec:
  "explosionScore c5 c1 vr r isNew compressed =
     spec_score explosion_policy c5 c1 vr r isNew compressed"
  by (simp add: explosionScore_def spec_score_def explosion_policy_def lit_def rsiInBand_def
      jle_def)

text \<open>
  The score is computed in doubles. On the changes 5.6 and 8.12 and the volume ratio
  3.3, with the RSI in the band, the terms sum to 53.5 in the reals, which rounds to 54;
  in doubles they sum to a number just below 53.5, and the score is 53.
\<close>

lemma score_rounding_example:
  "explosionScore (parseFloat (Fin (56 / 10))) (parseFloat (Fin (812 / 100)))
     (parseFloat (Fin (33 / 10))) (Fin 55) False False = Fin 53"
  "round (56 / 10 / 25 * 100 * (4 / 10) + 812 / 100 / 35 * 100 * (2 / 10) +
          33 / 10 / 10 * 100 * (3 / 10) + 100 * (1 / 10) + 0 + 0 + 20 :: real) = 54"
  by (simp_all add: explosionScore_def parseFloat_def lit_def jle_def RSI_MIN_def RSI_MAX_def
      round_def round_even_def
      round_double_eval[where k = 47] round_double_eval[where k = 48]
      round_double_eval[where k = 49] round_double_eval[where k = 50]
      round_double_eval[where k = 51] round_double_eval[where k = 54]
      round_double_eval[where k = 55] round_double_eval[where k = 56])

lemma explosion_visit_push_iff:
  assumes "endsWith (symbol t) ''USDT''" and "symbol t \<notin> POPULAR_TOKENS"
    and "\<not> jlt (parseFloat (Fin (baseVolume t))) (Fin MIN_VOLUME_EXPLOSION)"
  shows "length (fst (explosion_visit w nl t cands st)) = Suc (length cands) \<longleftrightarrow>
     (let ind = fst (fetch_indicators w (symbol t) (parseFloat (Fin (baseVolume t))) st);
          c5 = parseFloat (change5m ind);
          c1 = parseFloat (change1h ind);
          vr = parseFloat (volumeRatio ind)
      in explosion_admitted c5 c1 vr (rsi ind)
           (explosionScore c5 c1 vr (rsi ind) (symbol t \<in> set nl) (compression ind)))"
  using assms by (simp add: explosion_visit_def case_prod_beta Let_def)

text \<open>
  Claim C1, as amended. The explosion score is the rounded weighted sum of the scoring
  policy with references 25, 35 and 10, weights 0.4, 0.2, 0.3 and 0.1 (0.2 on the
  one-hour change), new-listing bonus 20, compression bonus 10 and time bonus 20,
  evaluated in doubles in the order written. An eligible symbol above the volume floor
  is pushed if and only if change5m \<open>\<ge>\<close> 3, change1h \<open>\<ge>\<close> 4, volumeRatio
  \<open>\<ge>\<close> 1.5, 40 \<open>\<le>\<close> rsi \<open>\<le>\<close> 70 and score \<open>\<ge>\<close> 40. The worked example
  (4, 5, 2.0, RSI 55, not new, compressed) scores 55 and is admitted. Every candidate
  that the endpoint returns passed the admission condition and carries the score of its
  own fields.
\<close>

theorem explosion_score_and_admission:
  "explosionScore c5 c1 vr r isNew compressed =
     spec_score
       \<lparr>REF_5M = 25, REF_1H = 35, REF_VOL = 10,
        W_5M = 4 / 10, W_1H = 2 / 10, W_VOL = 3 / 10, W_RSI = 1 / 10,
        BONUS_NEW = 20, BONUS_COMPRESSION = 10, FIXED_TIME_BONUS = 20\<rparr>
       c5 c1 vr r isNew compressed \<and>
   (explosion_admitted c5 c1 vr r score \<longleftrightarrow>
      jge c5 (Fin 3) \<and> jge c1 (Fin 4) \<and> jge vr (Fin (3 / 2)) \<and>
      jge r (Fin 40) \<and> jle r (Fin 70) \<and> jge score (Fin 40)) \<and>
   (endsWith (symbol t) ''USDT'' \<and> symbol t \<notin> POPULAR_TOKENS \<and>
    \<not> jlt (parseFloat (Fin (baseVolume t))) (Fin MIN_VOLUME_EXPLOSION) \<longrightarrow>
      (length (fst (explosion_visit w nl t cands st)) = Suc (length cands) \<longleftrightarrow>
         (let ind = fst (fetch_indicators w (symbol t) (parseFloat (Fin (baseVolume t))) st);
              p5 = parseFloat (change5m ind);
              p1 = parseFloat (change1h ind);
              pv = parseFloat (volumeRatio ind)
          in explosion_admitted p5 p1 pv (rsi ind)
               (explosionScore p5 p1 pv (rsi ind) (symbol t \<in> set nl) (compression ind))))) \<and>
   explosionScore (Fin 4) (Fin 5) (Fin 2) (Fin 55) False True = Fin 55 \<and>
   explosion_admitted (Fin 4) (Fin 5) (Fin 2) (Fin 55) (Fin 55) \<and>
   (\<forall>body. fst (explosion_candidates w (run w t0 events)) = Json body \<longrightarrow>
      (\<exists>cs. body = Candidates cs \<and>
         (\<forall>c \<in> set cs.
            explosion_admitted (c_change_5m c) (c_change_1h c) (c_volumeRatio c) (c_rsi c)
              (c_explosionScore c) \<and>
            (\<exists>compressed. c_explosionScore c =
               explosionScore (c_change_5m c) (c_change_1h c) (c_volumeRatio c) (c_rsi c)
                 (c_isNew c) compressed))))"
proof (intro conjI allI impI)
  show "explosionScore c5 c1 vr r isNew compressed =
     spec_score
       \<lparr>REF_5M = 25, REF_1H = 35, REF_VOL = 10,
        W_5M = 4 / 10, W_1H = 2 / 10, W_VOL = 3 / 10, W_RSI = 1 / 10,
        BONUS_NEW = 20, BONUS_COMPRESSION = 10, FIXED_TIME_BONUS = 20\<rparr>
       c5 c1 vr r isNew compressed"
    using explosionScore_spec[of c5 c1 vr r isNew compressed]
    by (simp add: explosion_policy_def)
next
  assume "endsWith (symbol t) ''USDT'' \<and> symbol t \<notin> POPULAR_TOKENS \<and>
    \<not> jlt (parseFloat (Fin (baseVolume t))) (Fin MIN_VOLUME_EXPLOSION)"
  then show "length (fst (explosion_visit w nl t cands st)) = Suc (length cands) \<longleftrightarrow>
         (let ind = fst (fetch_indicators w (symbol t) (parseFloat (Fin (baseVolume t))) st);
              p5 = parseFloat (change5m ind);
              p1 = parseFloat (change1h ind);
              pv = parseFloat (volumeRatio ind)
          in explosion_admitted p5 p1 pv (rsi ind)
               (explosionScore p5 p1 pv (rsi ind) (symbol t \<in> set nl) (compression ind)))"
    by (intro explosion_visit_push_iff) simp_all
next
  fix body assume "fst (explosion_candidates w (run w t0 events)) = Json body"
  then obtain cs where "body = Candidates cs" "list_all candidate_ok cs"
    by (rule explosion_run_response)
  then show "\<exists>cs. body = Candidates cs \<and>
         (\<forall>c \<in> set cs.
            explosion_admitted (c_change_5m c) (c_change_1h c) (c_volumeRatio c) (c_rsi c)
              (c_explosionScore c) \<and>
            (\<exists>compressed. c_explosionScore c =
               explosionScore (c_change_5m c) (c_change_1h c) (c_volumeRatio c) (c_rsi c)
                 (c_isNew c) compressed))"
    by (auto simp: list_all_iff candidate_ok_def)
qed (simp_all add: demo_scores explosion_admitted_def MIN_GAIN_5M_def
      MIN_GAIN_1H_def MIN_VOLUME_RATIO_def MIN_EXPLOSION_SCORE_def RSI_MIN_def RSI_MAX_def
      jle_def)

theorem explosion_score_and_admission_witness:
  "fst (explosion_candidates demo_world (run demo_world 0 [])) =
     Json (Candidates [demo_xyz_candidate, demo_low_candidate]) \<and>
   c_explosionScore demo_xyz_candidate = Fin 55 \<and>
   c_explosionScore demo_xyz_candidate =
     explosionScore (Fin 4) (Fin 5) (Fin 2) (Fin 55) False True \<and>
   explosion_admitted (Fin 4) (Fin 5) (Fin 2) (Fin 55) (c_explosionScore demo_xyz_candidate) \<and>
   explosion_admitted (Fin 3) (Fin 4) (Fin (3 / 2)) (Fin 50)
     (c_explosionScore demo_low_candidate) \<and>
   endsWith ''XYZUSDT'' ''USDT'' \<and> ''XYZUSDT'' \<notin> POPULAR_TOKENS \<and>
   \<not> jlt (parseFloat (Fin 60000)) (Fin MIN_VOLUME_EXPLOSION) \<and>
   length (fst (explosion_visit demo_world [''NEWUSDT'']
     \<lparr>symbol = ''XYZUSDT'', lastPrice = 2, baseVolume = 60000, priceChangePercent = 8\<rparr>
     [] (initial_state 0))) = Suc 0 \<and>
   \<not> explosion_admitted (Fin 3) (Fin 4) (Fin (3 / 2)) (Fin 71) (Fin 42)"
proof -
  have "\<not> explosion_admitted (Fin 3) (Fin 4) (Fin (3 / 2)) (Fin 71) (Fin 42)"
    using explosion_score_and_admission[of "Fin 0" "Fin 0" "Fin 0" "Fin 71" False False "Fin 42"
        "\<lparr>symbol = ''ETHBTC'', lastPrice = 1, baseVolume = 1, priceChangePercent = 1\<rparr>"
        demo_world "[]" "[]" "initial_state 0" 0 "[]"]
    by (simp add: explosion_admitted_def RSI_MAX_def jle_def)
  moreover have "endsWith ''XYZUSDT'' ''USDT'' \<and> ''XYZUSDT'' \<notin> POPULAR_TOKENS \<and>
      \<not> jlt (parseFloat (Fin 60000)) (Fin MIN_VOLUME_EXPLOSION)"
    by (simp add: endsWith_def POPULAR_TOKENS_def MIN_VOLUME_EXPLOSION_def demo_parsed)
  ultimately show ?thesis
    using explosion_score_and_admission[of "Fin 4" "Fin 5" "Fin 2" "Fin 55" False True "Fin 55"
        "\<lparr>symbol = ''XYZUSDT'', lastPrice = 2, baseVolume = 60000, priceChangePercent = 8\<rparr>"
        demo_world "[''NEWUSDT'']" "[]" "initial_state 0" 0 "[]"]
    by (simp add: demo_explosion_candidates demo_xyz_candidate_def demo_low_candidate_def
        demo_parsed demo_indicators_xyz demo_scores jle_def)
qed

text \<open>
  The claim as stated fails. With the weight 0.3 that its expression puts on the
  one-hour change, the worked example would score 57; the code, which weighs that change
  by 0.2, gives 55. And the score is not the formula in exact arithmetic: on the
  admitted inputs 5.6, 8.12, 3.3 with RSI 55 the formula gives 54 in the reals and the
  code gives 53.
\<close>

theorem claimed_weight_counterexample:
  "W_1H claimed_policy = 3 / 10 \<and>
   spec_score claimed_policy (Fin 4) (Fin 5) (Fin 2) (Fin 55) False True = Fin 57 \<and>
   explosionScore (Fin 4) (Fin 5) (Fin 2) (Fin 55) False True = Fin 55 \<and>
   spec_score claimed_policy (Fin 4) (Fin 5) (Fin 2) (Fin 55) False True \<noteq>
     explosionScore (Fin 4) (Fin 5) (Fin 2) (Fin 55) False True \<and>
   explosionScore (parseFloat (Fin (56 / 10))) (parseFloat (Fin (812 / 100)))
     (parseFloat (Fin (33 / 10))) (Fin 55) False False = Fin 53 \<and>
   round (56 / 10 / 25 * 100 * (4 / 10) + 812 / 100 / 35 * 100 * (2 / 10) +
          33 / 10 / 10 * 100 * (3 / 10) + 100 * (1 / 10) + 0 + 0 + 20 :: real) = 54"
proof -
  have "spec_score claimed_policy (Fin 4) (Fin 5) (Fin 2) (Fin 55) False True = Fin 57"
    by (simp add: spec_score_def claimed_policy_def explosion_policy_def lit_def rsiInBand_def
        jle_def RSI_MIN_def RSI_MAX_def round_def round_even_def
        round_double_eval[where k = 47] round_double_eval[where k = 48]
        round_double_eval[where k = 49] round_double_eval[where k = 50]
        round_double_eval[where k = 54] round_double_eval[where k = 55]
        round_double_eval[where k = 56])
  then show ?thesis
    using score_rounding_example
    by (simp add: demo_scores claimed_policy_def explosion_policy_def)
qed

section \<open>The actions of the alerts\<close>

lemma jge_mono: "jge x (Fin a) \<Longrightarrow> b \<le> a \<Longrightarrow> jge x (Fin b)"
  by (cases x) simp_all

text \<open>
  Claim C10. Every alert returned by \<open>/api/pre-explosion-signals\<close> has a score of at
  least 40; its action is the top tier iff the score is at least 80, the middle tier
  iff it is at least 60 and below 80, and \<open>EVITAR\<close> iff it is at least 40 and below 60.
  On the example exchange the endpoint returns an alert whose action is \<open>EVITAR\<close>.
\<close>

theorem alert_action_tiers:
  "(\<forall>body. fst (pre_explosion_signals w (run w t0 events)) = Json body \<longrightarrow>
      (\<exists>as. body = Alerts as \<and>
         (\<forall>a \<in> set as.
            jge (a_alertScore a) (Fin MIN_ALERT_SCORE) \<and>
            (action (a_recommendation a) = POSIBLE_EXPLOSION \<longleftrightarrow> jge (a_alertScore a) (Fin 80)) \<and>
            (action (a_recommendation a) = MONITOREAR \<longleftrightarrow>
               jge (a_alertScore a) (Fin 60) \<and> \<not> jge (a_alertScore a) (Fin 80)) \<and>
            (action (a_recommendation a) = EVITAR \<longleftrightarrow>
               jge (a_alertScore a) (Fin 40) \<and> \<not> jge (a_alertScore a) (Fin 60))))) \<and>
   MIN_ALERT_SCORE = 40 \<and>
   (\<exists>as. fst (pre_explosion_signals demo_world (run demo_world 0 [])) = Json (Alerts as) \<and>
         (\<exists>a \<in> set as. action (a_recommendation a) = EVITAR))"
proof (intro conjI allI impI)
  fix body assume "fst (pre_explosion_signals w (run w t0 events)) = Json body"
  then obtain as where as: "body = Alerts as" "list_all alert_ok as"
    by (rule alert_run_response)
  have "jge (a_alertScore a) (Fin MIN_ALERT_SCORE) \<and>
        (action (a_recommendation a) = POSIBLE_EXPLOSION \<longleftrightarrow> jge (a_alertScore a) (Fin 80)) \<and>
        (action (a_recommendation a) = MONITOREAR \<longleftrightarrow>
           jge (a_alertScore a) (Fin 60) \<and> \<not> jge (a_alertScore a) (Fin 80)) \<and>
        (action (a_recommendation a) = EVITAR \<longleftrightarrow>
           jge (a_alertScore a) (Fin 40) \<and> \<not> jge (a_alertScore a) (Fin 60))"
    if "a \<in> set as" for a
  proof -
    from that as(2) have ok: "alert_ok a" by (simp add: list_all_iff)
    then have adm: "jge (a_alertScore a) (Fin 40)"
      by (simp add: alert_ok_def alert_admitted_def MIN_ALERT_SCORE_def)
    have mono: "jge (a_alertScore a) (Fin 80) \<Longrightarrow> jge (a_alertScore a) (Fin 60)"
      by (erule jge_mono) simp
    from ok have "action (a_recommendation a) =
       (if jge (a_alertScore a) (Fin 80) then POSIBLE_EXPLOSION
        else if jge (a_alertScore a) (Fin 60) then MONITOREAR else EVITAR)"
      by (simp add: alert_ok_def)
    then show ?thesis using adm mono by (auto simp: MIN_ALERT_SCORE_def)
  qed
  with as(1) show "\<exists>as. body = Alerts as \<and>
         (\<forall>a \<in> set as.
            jge (a_alertScore a) (Fin MIN_ALERT_SCORE) \<and>
            (action (a_recommendation a) = POSIBLE_EXPLOSION \<longleftrightarrow> jge (a_alertScore a) (Fin 80)) \<and>
            (action (a_recommendation a) = MONITOREAR \<longleftrightarrow>
               jge (a_alertScore a) (Fin 60) \<and> \<not> jge (a_alertScore a) (Fin 80)) \<and>
            (action (a_recommendation a) = EVITAR \<longleftrightarrow>
               jge (a_alertScore a) (Fin 40) \<and> \<not> jge (a_alertScore a) (Fin 60)))"
    by blast
next
  show "MIN_ALERT_SCORE = 40" by (simp add: MIN_ALERT_SCORE_def)
next
  show "\<exists>as. fst (pre_explosion_signals demo_world (run demo_world 0 [])) = Json (Alerts as) \<and>
         (\<exists>a \<in> set as. action (a_recommendation a) = EVITAR)"
    by (simp add: demo_pre_explosion_signals demo_low_alert_def)
qed

theorem alert_action_tiers_witness:
  "fst (pre_explosion_signals demo_world (run demo_world 0 [])) =
     Json (Alerts [demo_xyz_alert, demo_low_alert]) \<and>
   a_alertScore demo_low_alert = Fin 42 \<and>
   jge (a_alertScore demo_low_alert) (Fin 40) \<and> \<not> jge (a_alertScore demo_low_alert) (Fin 60) \<and>
   action (a_recommendation demo_low_alert) = EVITAR \<and>
   a_alertScore demo_xyz_alert = Fin 70 \<and>
   action (a_recommendation demo_xyz_alert) = MONITOREAR"
  using alert_action_tiers[of demo_world 0 "[]"]
  by (simp add: demo_pre_explosion_signals demo_low_alert_def demo_xyz_alert_def)

section \<open>The score of the single-symbol analysis\<close>

text \<open>
  The score expression of \<open>/api/analysis/:symbol\<close> is the composite score of the
  scoring policy with the constants of the explosion-candidate scenario, except that
  the new-listing bonus and the time bonus are 0: adding the double 0 changes nothing.
\<close>

lemma analysisScore_spec:
  "analysisScore c5 c1 vr r compressed = spec_score analysis_policy c5 c1 vr r isNew compressed"
  by (simp add: analysisScore_def spec_score_def analysis_policy_def explosion_policy_def
      lit_def rsiInBand_def jle_def jadd_zero)

lemma fst_analysis_of:
  "fst (analysis_of w param st) =
     (case fst (fetchData w (\<lambda>n. ticker24hrOf w n (toUpperCase param))
                  (Ticker24hrOf (toUpperCase param)) 2 st) of
        Inl err \<Rightarrow> Status500 ''Error in individual analysis''
      | Inr d \<Rightarrow>
          (let price = parseFloat (Fin (lastPrice d));
               vol = parseFloat (Fin (baseVolume d));
               ind = fst (fetch_indicators w (toUpperCase param) vol
                      (snd (fetchData w (\<lambda>n. ticker24hrOf w n (toUpperCase param))
                              (Ticker24hrOf (toUpperCase param)) 2 st)));
               c5 = parseFloat (change5m ind);
               c1 = parseFloat (change1h ind);
               vr = parseFloat (volumeRatio ind);
               score = analysisScore c5 c1 vr (rsi ind) (compression ind)
           in Json (Analysis
                    \<lparr>n_symbol = toUpperCase param,
                     n_price = price,
                     n_change_5m = c5,
                     n_change_1h = c1,
                     n_volume = vol,
                     n_volumeRatio = vr,
                     n_rsi = rsi ind,
                     n_volatility = volatility ind,
                     n_explosionScore = score,
                     n_recommendation =
                       \<lparr>action = (if jge score (Fin 80) then COMPRA_FUERTE else MONITOREAR),
                        buyPrice = price,
                        sellTarget = toFixed 8 (jmul price (lit (125 / 100))),
                        stopLoss = toFixed 8 (jmul price (lit (95 / 100))),
                        confidence = (if jge score (Fin 80) then MUY_ALTA else MEDIA)\<rparr>\<rparr>)))"
  by (simp add: analysis_of_def case_prod_beta Let_def split: sum.splits)

lemma toUpperCase_xyzusdt: "toUpperCase ''xyzusdt'' = ''XYZUSDT''"
  by code_simp

lemma demo_analysis:
  "fst (analysis_of demo_world ''xyzusdt'' st) = Json (Analysis demo_xyz_analysis)"
proof -
  have "fst (fetchData demo_world (\<lambda>n. ticker24hrOf demo_world n ''XYZUSDT'')
               (Ticker24hrOf ''XYZUSDT'') 2 st) =
          Inr \<lparr>symbol = ''XYZUSDT'', lastPrice = 2, baseVolume = 60000, priceChangePercent = 8\<rparr>"
    by (simp add: demo_world_def fst_fetchData_const)
  then show ?thesis
    by (simp add: fst_analysis_of toUpperCase_xyzusdt demo_parsed demo_indicators_xyz
        demo_prices demo_scores demo_xyz_analysis_def Let_def)
qed

text \<open>
  The two scores on the changes 4.55 and 4.06 and the volume ratio 3.3, with the RSI in
  the band and no bonus but the time bonus: 29 and 50.
\<close>

lemma analysis_rounding_example:
  "analysisScore (parseFloat (Fin (455 / 100))) (parseFloat (Fin (406 / 100)))
     (parseFloat (Fin (33 / 10))) (Fin 55) False = Fin 29"
  "explosionScore (parseFloat (Fin (455 / 100))) (parseFloat (Fin (406 / 100)))
     (parseFloat (Fin (33 / 10))) (Fin 55) False False = Fin 50"
  by (simp_all add: analysisScore_def explosionScore_def parseFloat_def lit_def jle_def
      RSI_MIN_def RSI_MAX_def round_def round_even_def
      round_double_eval[where k = 47] round_double_eval[where k = 48]
      round_double_eval[where k = 49] round_double_eval[where k = 50]
      round_double_eval[where k = 51] round_double_eval[where k = 54]
      round_double_eval[where k = 55] round_double_eval[where k = 56])

text \<open>
  Claim C2, as amended. The score of \<open>/api/analysis/:symbol\<close> is the composite
  score with the references, the weights and the compression bonus of the
  explosion-candidate scenario, but without the new-listing bonus and without the time
  bonus; the score of \<open>/api/explosion-candidates\<close> has both. The endpoint applies no
  admission condition: when the ticker of the symbol can be fetched it returns exactly
  one result, for the requested symbol in upper case, with that score; it fails only
  when that fetch fails.
\<close>

theorem analysis_score_without_bonuses:
  "analysisScore c5 c1 vr r compressed =
     spec_score (explosion_policy\<lparr>BONUS_NEW := 0, FIXED_TIME_BONUS := 0\<rparr>)
       c5 c1 vr r isNew compressed \<and>
   explosionScore c5 c1 vr r isNew compressed =
     spec_score explosion_policy c5 c1 vr r isNew compressed \<and>
   BONUS_NEW explosion_policy = 20 \<and> FIXED_TIME_BONUS explosion_policy = 20 \<and>
   (\<forall>body. fst (analysis_of w param st) = Json body \<longrightarrow>
      (\<exists>result flag. body = Analysis result \<and> n_symbol result = toUpperCase param \<and>
         n_explosionScore result =
           analysisScore (n_change_5m result) (n_change_1h result) (n_volumeRatio result)
             (n_rsi result) flag)) \<and>
   (\<forall>msg. fst (analysis_of w param st) = Status500 msg \<longrightarrow>
      (\<exists>err. fst (fetchData w (\<lambda>n. ticker24hrOf w n (toUpperCase param))
                    (Ticker24hrOf (toUpperCase param)) 2 st) = Inl err))"
proof (intro conjI allI impI)
  show "analysisScore c5 c1 vr r compressed =
     spec_score (explosion_policy\<lparr>BONUS_NEW := 0, FIXED_TIME_BONUS := 0\<rparr>)
       c5 c1 vr r isNew compressed"
    using analysisScore_spec[of c5 c1 vr r compressed isNew] by (simp add: analysis_policy_def)
next
  show "explosionScore c5 c1 vr r isNew compressed =
     spec_score explosion_policy c5 c1 vr r isNew compressed"
    by (rule explosionScore_spec)
next
  fix body assume "fst (analysis_of w param st) = Json body"
  then show "\<exists>result flag. body = Analysis result \<and> n_symbol result = toUpperCase param \<and>
         n_explosionScore result =
           analysisScore (n_change_5m result) (n_change_1h result) (n_volumeRatio result)
             (n_rsi result) flag"
    unfolding fst_analysis_of by (auto simp: Let_def split: sum.splits)
next
  fix msg assume "fst (analysis_of w param st) = Status500 msg"
  then show "\<exists>err. fst (fetchData w (\<lambda>n. ticker24hrOf w n (toUpperCase param))
                    (Ticker24hrOf (toUpperCase param)) 2 st) = Inl err"
    unfolding fst_analysis_of by (auto simp: Let_def split: sum.splits)
qed (simp_all add: explosion_policy_def)

theorem analysis_score_without_bonuses_witness:
  "fst (analysis_of demo_world ''xyzusdt'' (run demo_world 0 [])) =
     Json (Analysis demo_xyz_analysis) \<and>
   n_symbol demo_xyz_analysis = toUpperCase ''xyzusdt'' \<and>
   n_explosionScore demo_xyz_analysis = Fin 35 \<and>
   n_explosionScore demo_xyz_analysis = analysisScore (Fin 4) (Fin 5) (Fin 2) (Fin 55) True \<and>
   spec_score (explosion_policy\<lparr>BONUS_NEW := 0, FIXED_TIME_BONUS := 0\<rparr>)
     (Fin 4) (Fin 5) (Fin 2) (Fin 55) True True = Fin 35 \<and>
   spec_score explosion_policy (Fin 4) (Fin 5) (Fin 2) (Fin 55) False True = Fin 55"
  using analysis_score_without_bonuses[of "Fin 4" "Fin 5" "Fin 2" "Fin 55" True True
      demo_world "''xyzusdt''" "run demo_world 0 []"]
    analysis_score_without_bonuses[of "Fin 4" "Fin 5" "Fin 2" "Fin 55" True False
      demo_world "''xyzusdt''" "run demo_world 0 []"]
  by (simp add: demo_analysis demo_scores demo_xyz_analysis_def toUpperCase_xyzusdt)

text \<open>
  The claim as stated fails: on the inputs of the worked example the analysis score is
  35 and the explosion score is 55, and on the changes 4.55 and 4.06 with volume ratio
  3.3 they are 29 and 50.
\<close>

theorem analysis_score_differs_counterexample:
  "analysisScore (Fin 4) (Fin 5) (Fin 2) (Fin 55) True = Fin 35 \<and>
   explosionScore (Fin 4) (Fin 5) (Fin 2) (Fin 55) False True = Fin 55 \<and>
   analysisScore (Fin 4) (Fin 5) (Fin 2) (Fin 55) True \<noteq>
     explosionScore (Fin 4) (Fin 5) (Fin 2) (Fin 55) False True \<and>
   analysisScore (parseFloat (Fin (455 / 100))) (parseFloat (Fin (406 / 100)))
     (parseFloat (Fin (33 / 10))) (Fin 55) False = Fin 29 \<and>
   explosionScore (parseFloat (Fin (455 / 100))) (parseFloat (Fin (406 / 100)))
     (parseFloat (Fin (33 / 10))) (Fin 55) False False = Fin 50"
  using analysis_rounding_example by (simp add: demo_scores)

section \<open>The short-lived store\<close>

lemma explosion_candidates_hit:
  "cache_get (shortCache st) (clock st) ''explosionCandidates'' = Some body \<Longrightarrow>
   explosion_candidates w st = (Json body, st)"
  by (simp add: explosion_candidates_def)

lemma pre_explosion_signals_hit:
  "cache_get (shortCache st) (clock st) ''preExplosionSignals'' = Some body \<Longrightarrow>
   pre_explosion_signals w st = (Json body, st)"
  by (simp add: pre_explosion_signals_def)

lemma cache_get_after_set:
  "0 \<le> d \<Longrightarrow> d \<le> ttl * 1000 \<Longrightarrow> cache_get (cache_set c now ttl key v) (now + d) key = Some v"
  by (simp add: cache_get_def cache_set_def)

lemma explosion_candidates_stored:
  assumes "cache_get (shortCache st) (clock st) ''explosionCandidates'' = None"
    and "explosion_candidates w st = (Json body, st')"
    and "int d \<le> CACHE_SHORT_TTL * 1000"
  shows "cache_get (shortCache st') (clock st' + int d) ''explosionCandidates'' = Some body"
proof -
  obtain tickerData st1 where f: "fetchData w (ticker24hr w) Ticker24hr 2 st = (tickerData, st1)"
    by force
  obtain nl st2 where g: "getNewListings w st1 = (nl, st2)" by force
  show ?thesis
  proof (cases tickerData)
    case (Inl err)
    from explosion_candidates_miss(1)[OF assms(1) f g Inl] assms(2) show ?thesis by simp
  next
    case (Inr tickers)
    obtain cands st3 where l: "explosion_loop w nl (take MAX_CANDIDATES tickers) [] st2 = (cands, st3)"
      by force
    from explosion_candidates_miss(2)[OF assms(1) f g Inr l] assms(2)
    have "body = Candidates (topCandidates cands)"
      and "st' = st3\<lparr>shortCache := cache_set (shortCache st3) (clock st3) CACHE_SHORT_TTL
                 ''explosionCandidates'' (Candidates (topCandidates cands))\<rparr>"
      by simp_all
    then show ?thesis using assms(3) by (simp add: cache_get_after_set)
  qed
qed

lemma pre_explosion_signals_stored:
  assumes "cache_get (shortCache st) (clock st) ''preExplosionSignals'' = None"
    and "pre_explosion_signals w st = (Json body, st')"
    and "int d \<le> CACHE_SHORT_TTL * 1000"
  shows "cache_get (shortCache st') (clock st' + int d) ''preExplosionSignals'' = Some body"
proof -
  obtain tickerData st1 where f: "fetchData w (ticker24hr w) Ticker24hr 2 st = (tickerData, st1)"
    by force
  obtain nl st2 where g: "getNewListings w st1 = (nl, st2)" by force
  show ?thesis
  proof (cases tickerData)
    case (Inl err)
    from pre_explosion_signals_miss(1)[OF assms(1) f g Inl] assms(2) show ?thesis by simp
  next
    case (Inr tickers)
    obtain alerts st3 where l: "alert_loop w nl (take MAX_CANDIDATES tickers) [] st2 = (alerts, st3)"
      by force
    from pre_explosion_signals_miss(2)[OF assms(1) f g Inr l] assms(2)
    have "body = Alerts (topAlerts alerts)"
      and "st' = st3\<lparr>shortCache := cache_set (shortCache st3) (clock st3) CACHE_SHORT_TTL
                 ''preExplosionSignals'' (Alerts (topAlerts alerts))\<rparr>"
      by simp_all
    then show ?thesis using assms(3) by (simp add: cache_get_after_set)
  qed
qed

text \<open>
  Claim C9. If the short-lived store holds a body under the key of a screening endpoint
  and the entry has not expired, a request to that endpoint returns exactly that body and
  leaves the state as it is: no request is sent upstream, neither for the snapshot nor
  for the listings nor for any indicator. In particular a body computed and stored on a
  miss is returned unchanged by every request within the next 120 seconds, whatever the
  exchange would answer then.
\<close>

theorem cache_hit_short_circuit:
  "(cache_get (shortCache st) (clock st) ''explosionCandidates'' = Some body \<longrightarrow>
      explosion_candidates w st = (Json body, st) \<and>
      requests (snd (explosion_candidates w st)) = requests st) \<and>
   (cache_get (shortCache st) (clock st) ''preExplosionSignals'' = Some body \<longrightarrow>
      pre_explosion_signals w st = (Json body, st) \<and>
      requests (snd (pre_explosion_signals w st)) = requests st) \<and>
   (cache_get (shortCache st) (clock st) ''explosionCandidates'' = None \<and>
    explosion_candidates w st = (Json body, st') \<and> int d \<le> CACHE_SHORT_TTL * 1000 \<longrightarrow>
      explosion_candidates w' (st'\<lparr>clock := clock st' + int d\<rparr>) =
        (Json body, st'\<lparr>clock := clock st' + int d\<rparr>)) \<and>
   (cache_get (shortCache st) (clock st) ''preExplosionSignals'' = None \<and>
    pre_explosion_signals w st = (Json body, st') \<and> int d \<le> CACHE_SHORT_TTL * 1000 \<longrightarrow>
      pre_explosion_signals w' (st'\<lparr>clock := clock st' + int d\<rparr>) =
        (Json body, st'\<lparr>clock := clock st' + int d\<rparr>))"
proof (intro conjI impI)
  assume "cache_get (shortCache st) (clock st) ''explosionCandidates'' = Some body"
  then show "explosion_candidates w st = (Json body, st)"
    and "requests (snd (explosion_candidates w st)) = requests st"
    by (simp_all add: explosion_candidates_hit)
next
  assume "cache_get (shortCache st) (clock st) ''preExplosionSignals'' = Some body"
  then show "pre_explosion_signals w st = (Json body, st)"
    and "requests (snd (pre_explosion_signals w st)) = requests st"
    by (simp_all add: pre_explosion_signals_hit)
next
  assume "cache_get (shortCache st) (clock st) ''explosionCandidates'' = None \<and>
    explosion_candidates w st = (Json body, st') \<and> int d \<le> CACHE_SHORT_TTL * 1000"
  then have "cache_get (shortCache st') (clock st' + int d) ''explosionCandidates'' = Some body"
    using explosion_candidates_stored by blast
  then show "explosion_candidates w' (st'\<lparr>clock := clock st' + int d\<rparr>) =
        (Json body, st'\<lparr>clock := clock st' + int d\<rparr>)"
    by (intro explosion_candidates_hit) simp
next
  assume "cache_get (shortCache st) (clock st) ''preExplosionSignals'' = None \<and>
    pre_explosion_signals w st = (Json body, st') \<and> int d \<le> CACHE_SHORT_TTL * 1000"
  then have "cache_get (shortCache st') (clock st' + int d) ''preExplosionSignals'' = Some body"
    using pre_explosion_signals_stored by blast
  then show "pre_explosion_signals w' (st'\<lparr>clock := clock st' + int d\<rparr>) =
        (Json body, st'\<lparr>clock := clock st' + int d\<rparr>)"
    by (intro pre_explosion_signals_hit) simp
qed


theorem cache_hit_short_circuit_witness:
  "cache_get (shortCache (initial_state 0)) (clock (initial_state 0)) ''explosionCandidates'' = None \<and>
   fst (explosion_candidates demo_world (initial_state 0)) =
     Json (Candidates [demo_xyz_candidate, demo_low_candidate]) \<and>
   int 60000 \<le> CACHE_SHORT_TTL * 1000 \<and>
   explosion_candidates demo_world (run demo_world 0 [GetExplosionCandidates, Wait 60000]) =
     (Json (Candidates [demo_xyz_candidate, demo_low_candidate]),
      run demo_world 0 [GetExplosionCandidates, Wait 60000]) \<and>
   requests (snd (explosion_candidates demo_world
       (run demo_world 0 [GetExplosionCandidates, Wait 60000]))) =
     requests (run demo_world 0 [GetExplosionCandidates, Wait 60000])"
proof -
  let ?body = "Candidates [demo_xyz_candidate, demo_low_candidate]"
  let ?st' = "snd (explosion_candidates demo_world (initial_state 0))"
  have miss: "cache_get (shortCache (initial_state 0)) (clock (initial_state 0))
      ''explosionCandidates'' = None"
    by (simp add: initial_state_def cache_get_def)
  have first: "fst (explosion_candidates demo_world (initial_state 0)) = Json ?body"
    using demo_explosion_candidates by (simp add: run_def)
  then have pair: "explosion_candidates demo_world (initial_state 0) = (Json ?body, ?st')"
    by (metis prod.collapse)
  have ttl: "int 60000 \<le> CACHE_SHORT_TTL * 1000"
    by (simp add: CACHE_SHORT_TTL_def)
  have run: "run demo_world 0 [GetExplosionCandidates, Wait 60000] =
      ?st'\<lparr>clock := clock ?st' + int 60000\<rparr>"
    by (simp add: run_def)
  have again: "explosion_candidates demo_world (?st'\<lparr>clock := clock ?st' + int 60000\<rparr>) =
      (Json ?body, ?st'\<lparr>clock := clock ?st' + int 60000\<rparr>)"
    using cache_hit_short_circuit[of "initial_state 0" ?body demo_world ?st' 60000 demo_world]
      miss pair ttl by blast
  show ?thesis
    using miss first ttl again unfolding run by simp
qed

section \<open>The symbols that reach the indicator computation\<close>

lemma kline_symbols_append [simp]:
  "kline_symbols (xs @ ys) = kline_symbols xs @ kline_symbols ys"
  by (simp add: kline_symbols_def)

lemma requests_fetchData:
  "\<exists>k. requests (snd (fetchData w respond rq retries st)) = requests st @ replicate (Suc k) rq"
proof (induction retries arbitrary: st)
  case 0
  have "requests (attempt w rq st) = requests st @ replicate (Suc 0) rq"
    by (simp add: attempt_def)
  then show ?case by (metis fetchData.simps(1) snd_conv)
next
  case (Suc retries)
  show ?case
  proof (cases "respond (length (requests st))")
    case (Inr data)
    have "requests (attempt w rq st) = requests st @ replicate (Suc 0) rq"
      by (simp add: attempt_def)
    then show ?thesis using Inr by (metis fetchData.simps(2) snd_conv sum.case(2))
  next
    case (Inl err)
    let ?st1 = "(attempt w rq st)\<lparr>clock := clock (attempt w rq st) + 1000\<rparr>"
    from Suc.IH[of ?st1] obtain k
      where "requests (snd (fetchData w respond rq retries ?st1)) =
             requests ?st1 @ replicate (Suc k) rq" by blast
    then have "requests (snd (fetchData w respond rq (Suc retries) st)) =
               requests st @ replicate (Suc (Suc k)) rq"
      using Inl by (simp add: attempt_def Let_def)
    then show ?thesis by blast
  qed
qed

text \<open>The symbols of the kline requests that a function adds to the log.\<close>

lemma klines_fetchKlines:
  "\<exists>k. kline_symbols (requests (snd (fetchKlines w symb iv limit startTime st))) =
        kline_symbols (requests st) @ replicate (Suc k) symb"
proof -
  from requests_fetchData[of w "\<lambda>n. klines w n symb iv limit startTime"
      "Klines symb iv limit startTime" 2 st]
  obtain k where "requests (snd (fetchKlines w symb iv limit startTime st)) =
      requests st @ replicate (Suc k) (Klines symb iv limit startTime)"
    by (auto simp: fetchKlines_def)
  moreover have "kline_symbols (replicate n (Klines symb iv limit startTime)) = replicate n symb" for n
    by (induction n) (simp_all add: kline_symbols_def)
  ultimately show ?thesis by (metis kline_symbols_append)
qed

lemma snd_calculateChange:
  "snd (calculateChange w symb iv st) = snd (fetchKlines w symb iv (Some 2) None st)"
  by (simp add: calculateChange_def case_prod_beta)

lemma snd_calculateRSI:
  "snd (calculateRSI w symb st) = snd (fetchKlines w symb I5m (Some (RSI_PERIOD + 1)) None st)"
  by (simp add: calculateRSI_def case_prod_beta)

lemma snd_calculateVolumeRatio:
  "snd (calculateVolumeRatio w symb v st) =
     snd (fetchKlines w symb I1d None
            (Some (clock st - VOLUME_LOOKBACK_DAYS * 24 * 60 * 60 * 1000)) st)"
  by (simp add: calculateVolumeRatio_def case_prod_beta Let_def)

lemma snd_calculateCompression:
  "snd (calculateCompression w symb st) = snd (fetchKlines w symb I5m (Some 20) None st)"
  by (simp add: calculateCompression_def case_prod_beta)

lemma snd_calculateVolatility:
  "snd (calculateVolatility w symb st) = snd (fetchKlines w symb I5m (Some 20) None st)"
  by (simp add: calculateVolatility_def case_prod_beta)

lemma klines_fetch_indicators:
  "\<exists>k. kline_symbols (requests (snd (fetch_indicators w symb vol st))) =
        kline_symbols (requests st) @ replicate (Suc k) symb"
proof -
  let ?st1 = "snd (calculateChange w symb I5m st)"
  let ?st2 = "snd (calculateChange w symb I1h ?st1)"
  let ?st3 = "snd (calculateRSI w symb ?st2)"
  let ?st4 = "snd (calculateVolumeRatio w symb vol ?st3)"
  let ?st5 = "snd (calculateCompression w symb ?st4)"
  let ?st6 = "snd (calculateVolatility w symb ?st5)"
  have end_state: "snd (fetch_indicators w symb vol st) = ?st6"
    by (simp add: fetch_indicators_def case_prod_beta)
  obtain k1 where 1: "kline_symbols (requests ?st1) =
      kline_symbols (requests st) @ replicate (Suc k1) symb"
    unfolding snd_calculateChange using klines_fetchKlines by blast
  obtain k2 where 2: "kline_symbols (requests ?st2) =
      kline_symbols (requests ?st1) @ replicate (Suc k2) symb"
    unfolding snd_calculateChange[of w symb I1h] using klines_fetchKlines by blast
  obtain k3 where 3: "kline_symbols (requests ?st3) =
      kline_symbols (requests ?st2) @ replicate (Suc k3) symb"
    unfolding snd_calculateRSI[of w symb ?st2] using klines_fetchKlines by blast
  obtain k4 where 4: "kline_symbols (requests ?st4) =
      kline_symbols (requests ?st3) @ replicate (Suc k4) symb"
    unfolding snd_calculateVolumeRatio[of w symb _ ?st3] using klines_fetchKlines by blast
  obtain k5 where 5: "kline_symbols (requests ?st5) =
      kline_symbols (requests ?st4) @ replicate (Suc k5) symb"
    unfolding snd_calculateCompression[of w symb ?st4] using klines_fetchKlines by blast
  obtain k6 where 6: "kline_symbols (requests ?st6) =
      kline_symbols (requests ?st5) @ replicate (Suc k6) symb"
    unfolding snd_calculateVolatility[of w symb ?st5] using klines_fetchKlines by blast
  have "kline_symbols (requests ?st6) = kline_symbols (requests st) @
      replicate (Suc (k1 + Suc k2 + Suc k3 + Suc k4 + Suc k5 + Suc k6)) symb"
    unfolding 6 5 4 3 2 1 by (simp add: replicate_add[symmetric] del: replicate_Suc replicate.simps)
  then show ?thesis unfolding end_state by blast
qed


lemma klines_explosion_visit:
  "set (kline_symbols (requests (snd (explosion_visit w nl t cands st)))) =
     set (kline_symbols (requests st)) \<union>
     (if eligible t \<and> \<not> below_floor MIN_VOLUME_EXPLOSION t then {symbol t} else {})"
proof (cases "eligible t \<and> \<not> below_floor MIN_VOLUME_EXPLOSION t")
  case True
  then have "snd (explosion_visit w nl t cands st) =
      snd (fetch_indicators w (symbol t) (parseFloat (Fin (baseVolume t))) st)"
    by (simp add: explosion_visit_def eligible_def below_floor_def case_prod_beta Let_def)
  then show ?thesis
    using True klines_fetch_indicators[of w "symbol t" "parseFloat (Fin (baseVolume t))" st]
    by auto
next
  case False
  then have "snd (explosion_visit w nl t cands st) = st"
    by (auto simp: explosion_visit_def eligible_def below_floor_def Let_def)
  then show ?thesis using False by auto
qed

lemma klines_alert_visit:
  "set (kline_symbols (requests (snd (alert_visit w nl t alerts st)))) =
     set (kline_symbols (requests st)) \<union>
     (if eligible t \<and> \<not> below_floor MIN_VOLUME_REGULAR t then {symbol t} else {})"
proof (cases "eligible t \<and> \<not> below_floor MIN_VOLUME_REGULAR t")
  case True
  then have "snd (alert_visit w nl t alerts st) =
      snd (fetch_indicators w (symbol t) (parseFloat (Fin (baseVolume t))) st)"
    by (simp add: alert_visit_def eligible_def below_floor_def case_prod_beta Let_def)
  then show ?thesis
    using True klines_fetch_indicators[of w "symbol t" "parseFloat (Fin (baseVolume t))" st]
    by auto
next
  case False
  then have "snd (alert_visit w nl t alerts st) = st"
    by (auto simp: alert_visit_def eligible_def below_floor_def Let_def)
  then show ?thesis using False by auto
qed

lemma klines_explosion_loop:
  "set (kline_symbols (requests (snd (explosion_loop w nl ts cands st)))) =
     set (kline_symbols (requests st)) \<union>
     symbol ` set (filter (\<lambda>t. eligible t \<and> \<not> below_floor MIN_VOLUME_EXPLOSION t) ts)"
proof (induction ts arbitrary: cands st)
  case Nil
  show ?case by simp
next
  case (Cons t ts)
  have "snd (explosion_loop w nl (t # ts) cands st) =
      snd (explosion_loop w nl ts (fst (explosion_visit w nl t cands st))
             (snd (explosion_visit w nl t cands st)))"
    by (simp add: case_prod_beta)
  then show ?case
    using Cons.IH[of "fst (explosion_visit w nl t cands st)" "snd (explosion_visit w nl t cands st)"]
      klines_explosion_visit[of w nl t cands st]
    by auto
qed

lemma klines_alert_loop:
  "set (kline_symbols (requests (snd (alert_loop w nl ts alerts st)))) =
     set (kline_symbols (requests st)) \<union>
     symbol ` set (filter (\<lambda>t. eligible t \<and> \<not> below_floor MIN_VOLUME_REGULAR t) ts)"
proof (induction ts arbitrary: alerts st)
  case Nil
  show ?case by simp
next
  case (Cons t ts)
  have "snd (alert_loop w nl (t # ts) alerts st) =
      snd (alert_loop w nl ts (fst (alert_visit w nl t alerts st))
             (snd (alert_visit w nl t alerts st)))"
    by (simp add: case_prod_beta)
  then show ?case
    using Cons.IH[of "fst (alert_visit w nl t alerts st)" "snd (alert_visit w nl t alerts st)"]
      klines_alert_visit[of w nl t alerts st]
    by auto
qed

lemma klines_fetchData_other:
  assumes "kline_symbol rq = []"
  shows "kline_symbols (requests (snd (fetchData w respond rq retries st))) =
         kline_symbols (requests st)"
proof -
  from requests_fetchData[of w respond rq retries st] obtain k
    where "requests (snd (fetchData w respond rq retries st)) = requests st @ replicate (Suc k) rq"
    by blast
  moreover have "kline_symbols (replicate n rq) = []" for n
    using assms by (induction n) (simp_all add: kline_symbols_def)
  ultimately show ?thesis by (simp del: replicate_Suc replicate.simps)
qed

lemma klines_getNewListings:
  "kline_symbols (requests (snd (getNewListings w st))) = kline_symbols (requests st)"
proof (cases "cache_get (longCache st) (clock st) ''newListings''")
  case (Some cached)
  then show ?thesis by (simp add: getNewListings_def)
next
  case None
  have "kline_symbols (requests (snd (fetchData w (exchangeInfo w) ExchangeInfo 2 st))) =
        kline_symbols (requests st)"
    by (rule klines_fetchData_other) simp
  then show ?thesis
    using None by (simp add: getNewListings_def case_prod_beta Let_def split: sum.splits)
qed

lemma klines_explosion_candidates:
  assumes "cache_get (shortCache st) (clock st) ''explosionCandidates'' = None"
    and "fst (fetchData w (ticker24hr w) Ticker24hr 2 st) = Inr tickers"
  shows "set (kline_symbols (requests (snd (explosion_candidates w st)))) =
         set (kline_symbols (requests st)) \<union> symbol ` set (scanned MIN_VOLUME_EXPLOSION tickers)"
proof -
  let ?st1 = "snd (fetchData w (ticker24hr w) Ticker24hr 2 st)"
  let ?nl = "fst (getNewListings w ?st1)"
  let ?st2 = "snd (getNewListings w ?st1)"
  let ?st3 = "snd (explosion_loop w ?nl (take MAX_CANDIDATES tickers) [] ?st2)"
  have "requests (snd (explosion_candidates w st)) = requests ?st3"
    using assms by (simp add: explosion_candidates_def case_prod_beta Let_def)
  moreover have "kline_symbols (requests ?st2) = kline_symbols (requests st)"
    by (simp add: klines_getNewListings klines_fetchData_other)
  ultimately show ?thesis
    using klines_explosion_loop[of w ?nl "take MAX_CANDIDATES tickers" "[]" ?st2]
    by (simp add: scanned_def)
qed

lemma klines_pre_explosion_signals:
  assumes "cache_get (shortCache st) (clock st) ''preExplosionSignals'' = None"
    and "fst (fetchData w (ticker24hr w) Ticker24hr 2 st) = Inr tickers"
  shows "set (kline_symbols (requests (snd (pre_explosion_signals w st)))) =
         set (kline_symbols (requests st)) \<union> symbol ` set (scanned MIN_VOLUME_REGULAR tickers)"
proof -
  let ?st1 = "snd (fetchData w (ticker24hr w) Ticker24hr 2 st)"
  let ?nl = "fst (getNewListings w ?st1)"
  let ?st2 = "snd (getNewListings w ?st1)"
  let ?st3 = "snd (alert_loop w ?nl (take MAX_CANDIDATES tickers) [] ?st2)"
  have "requests (snd (pre_explosion_signals w st)) = requests ?st3"
    using assms by (simp add: pre_explosion_signals_def case_prod_beta Let_def)
  moreover have "kline_symbols (requests ?st2) = kline_symbols (requests st)"
    by (simp add: klines_getNewListings klines_fetchData_other)
  ultimately show ?thesis
    using klines_alert_loop[of w ?nl "take MAX_CANDIDATES tickers" "[]" ?st2]
    by (simp add: scanned_def)
qed

lemma demo_scanned:
  "map symbol (scanned MIN_VOLUME_EXPLOSION demo_tickers) = [''LOWUSDT'', ''XYZUSDT'']"
  "map symbol (scanned MIN_VOLUME_REGULAR demo_tickers) = [''LOWUSDT'', ''XYZUSDT'']"
  by (simp_all add: scanned_def eligible_def below_floor_def demo_tickers_def MAX_CANDIDATES_def
      endsWith_def POPULAR_TOKENS_def MIN_VOLUME_EXPLOSION_def MIN_VOLUME_REGULAR_def
      demo_parsed)

lemma explosion_loop_ineligible:
  "\<forall>t \<in> set ts. \<not> eligible t \<Longrightarrow> explosion_loop w nl ts cands st = (cands, st)"
  by (induction ts) (auto simp: explosion_visit_def eligible_def)

lemma crowded_pools:
  "map symbol (spec_pool crowded_tickers) = [''XYZUSDT'']"
  "take MAX_CANDIDATES crowded_tickers =
     replicate 50
       \<lparr>symbol = ''ETHBTC'', lastPrice = 1 / 20, baseVolume = 90000, priceChangePercent = 1\<rparr>"
  "scanned MIN_VOLUME_EXPLOSION crowded_tickers = []"
  by (simp_all add: spec_pool_def scanned_def eligible_def crowded_tickers_def MAX_CANDIDATES_def
      endsWith_def POPULAR_TOKENS_def)

text \<open>
  Claim C8, as amended. On a miss with a snapshot fetched, the symbols for which a
  screening endpoint requests candles are those of the first 50 tickers of the snapshot,
  in their raw order, that end with \<open>USDT\<close>, are not popular and reach the volume
  floor of the scenario: the snapshot is cut to \<open>MAX_CANDIDATES\<close> = 50 first and
  filtered afterwards.
\<close>

theorem scanned_symbols_of_the_first_fifty:
  "(cache_get (shortCache st) (clock st) ''explosionCandidates'' = None \<and>
    fst (fetchData w (ticker24hr w) Ticker24hr 2 st) = Inr tickers \<longrightarrow>
      set (kline_symbols (requests (snd (explosion_candidates w st)))) =
        set (kline_symbols (requests st)) \<union>
        symbol ` set (scanned MIN_VOLUME_EXPLOSION tickers)) \<and>
   (cache_get (shortCache st) (clock st) ''preExplosionSignals'' = None \<and>
    fst (fetchData w (ticker24hr w) Ticker24hr 2 st) = Inr tickers \<longrightarrow>
      set (kline_symbols (requests (snd (pre_explosion_signals w st)))) =
        set (kline_symbols (requests st)) \<union>
        symbol ` set (scanned MIN_VOLUME_REGULAR tickers)) \<and>
   scanned minVolume tickers =
     filter (\<lambda>t. \<not> jlt (parseFloat (Fin (baseVolume t))) (Fin minVolume))
       (filter (\<lambda>t. endsWith (symbol t) ''USDT'' \<and> symbol t \<notin> POPULAR_TOKENS)
          (take 50 tickers))"
proof (intro conjI impI)
  show "scanned minVolume tickers =
     filter (\<lambda>t. \<not> jlt (parseFloat (Fin (baseVolume t))) (Fin minVolume))
       (filter (\<lambda>t. endsWith (symbol t) ''USDT'' \<and> symbol t \<notin> POPULAR_TOKENS)
          (take 50 tickers))"
    by (simp add: scanned_def eligible_def below_floor_def MAX_CANDIDATES_def conj_commute)
qed (simp_all add: klines_explosion_candidates klines_pre_explosion_signals)

theorem scanned_symbols_of_the_first_fifty_witness:
  "cache_get (shortCache (initial_state 0)) (clock (initial_state 0)) ''explosionCandidates'' = None \<and>
   cache_get (shortCache (initial_state 0)) (clock (initial_state 0)) ''preExplosionSignals'' = None \<and>
   fst (fetchData demo_world (ticker24hr demo_world) Ticker24hr 2 (initial_state 0)) =
     Inr demo_tickers \<and>
   map symbol (scanned MIN_VOLUME_EXPLOSION demo_tickers) = [''LOWUSDT'', ''XYZUSDT''] \<and>
   set (kline_symbols (requests (snd (explosion_candidates demo_world (initial_state 0))))) =
     {''LOWUSDT'', ''XYZUSDT''} \<and>
   set (kline_symbols (requests (snd (pre_explosion_signals demo_world (initial_state 0))))) =
     {''LOWUSDT'', ''XYZUSDT''}"
proof -
  have miss: "cache_get (shortCache (initial_state 0)) (clock (initial_state 0))
        ''explosionCandidates'' = None"
      "cache_get (shortCache (initial_state 0)) (clock (initial_state 0))
        ''preExplosionSignals'' = None"
    by (simp_all add: initial_state_def cache_get_def)
  have tick: "fst (fetchData demo_world (ticker24hr demo_world) Ticker24hr 2 (initial_state 0)) =
     Inr demo_tickers"
    by (simp add: demo_world_def fst_fetchData_const)
  have "symbol ` set (scanned MIN_VOLUME_EXPLOSION demo_tickers) = {''LOWUSDT'', ''XYZUSDT''}"
       "symbol ` set (scanned MIN_VOLUME_REGULAR demo_tickers) = {''LOWUSDT'', ''XYZUSDT''}"
    using demo_scanned by (metis list.set_map list.simps(15) empty_set)+
  moreover have "requests (initial_state 0) = []" by (simp add: initial_state_def)
  ultimately show ?thesis
    using scanned_symbols_of_the_first_fifty[of "initial_state 0" demo_world demo_tickers]
      miss tick demo_scanned(1)
    by (simp add: kline_symbols_def)
qed

text \<open>
  The claim as stated fails: on a snapshot whose first fifty tickers are quoted in
  another asset and whose fifty-first is the eligible \<open>XYZUSDT\<close>, the first 50 eligible
  symbols are \<open>XYZUSDT\<close> alone, but the endpoint requests candles for no symbol and
  returns the empty list.
\<close>

theorem pool_truncated_before_filter_counterexample:
  "map symbol (spec_pool crowded_tickers) = [''XYZUSDT''] \<and>
   fst (fetchData crowded_world (ticker24hr crowded_world) Ticker24hr 2 (initial_state 0)) =
     Inr crowded_tickers \<and>
   kline_symbols (requests (snd (explosion_candidates crowded_world (initial_state 0)))) = [] \<and>
   fst (explosion_candidates crowded_world (initial_state 0)) = Json (Candidates [])"
proof -
  let ?st = "initial_state 0"
  have miss: "cache_get (shortCache ?st) (clock ?st) ''explosionCandidates'' = None"
    by (simp add: initial_state_def cache_get_def)
  have tick: "fst (fetchData crowded_world (ticker24hr crowded_world) Ticker24hr 2 ?st) =
      Inr crowded_tickers"
    by (simp add: crowded_world_def fst_fetchData_const)
  have "set (kline_symbols (requests (snd (explosion_candidates crowded_world ?st)))) = {}"
    using klines_explosion_candidates[OF miss tick]
    by (simp add: crowded_pools initial_state_def kline_symbols_def)
  then have none: "kline_symbols (requests (snd (explosion_candidates crowded_world ?st))) = []"
    by simp
  have "\<forall>t \<in> set (take MAX_CANDIDATES crowded_tickers). \<not> eligible t"
    by (simp add: crowded_pools eligible_def endsWith_def)
  then have "fst (explosion_candidates crowded_world ?st) = Json (Candidates [])"
    by (simp add: fst_explosion_candidates_miss[OF miss tick] explosion_loop_ineligible
        topCandidates_eq js_sort_def)
  with none tick show ?thesis by (simp add: crowded_pools)
qed


end
